theory Spec2Isabelle
  imports Complex_Main
begin

section \<open>Text: the string operations used by the SKU code derivers\<close>

text \<open>
  Python strings are modelled as HOL strings. The character operations below are the
  ASCII fragment of \<^verbatim>\<open>str.upper\<close>, \<^verbatim>\<open>str.lower\<close>, \<^verbatim>\<open>str.isalnum\<close> and
  \<^verbatim>\<open>str.isspace\<close>: only the letters a-z and A-Z change case, and the white space
  characters are TAB, LF, VT, FF, CR, FS, GS, RS, US and the blank. Characters outside
  ASCII are left alone by these definitions; names containing them are outside what the
  model describes.
\<close>

definition is_lower :: "char \<Rightarrow> bool" where
  "is_lower c = (let n = (of_char c :: nat) in 97 \<le> n \<and> n \<le> 122)"

definition is_upper :: "char \<Rightarrow> bool" where
  "is_upper c = (let n = (of_char c :: nat) in 65 \<le> n \<and> n \<le> 90)"

definition is_digit :: "char \<Rightarrow> bool" where
  "is_digit c = (let n = (of_char c :: nat) in 48 \<le> n \<and> n \<le> 57)"

definition is_alnum :: "char \<Rightarrow> bool" where
  "is_alnum c = (is_lower c \<or> is_upper c \<or> is_digit c)"

definition is_space :: "char \<Rightarrow> bool" where
  "is_space c = (let n = (of_char c :: nat) in (9 \<le> n \<and> n \<le> 13) \<or> (28 \<le> n \<and> n \<le> 32))"

definition is_ascii :: "char \<Rightarrow> bool" where
  "is_ascii c = ((of_char c :: nat) < 128)"

definition to_upper :: "char \<Rightarrow> char" where
  "to_upper c = (if is_lower c then char_of ((of_char c :: nat) - 32) else c)"

definition to_lower :: "char \<Rightarrow> char" where
  "to_lower c = (if is_upper c then char_of ((of_char c :: nat) + 32) else c)"

text \<open>\<^verbatim>\<open>s.upper()\<close> and \<^verbatim>\<open>s.lower()\<close>.\<close>

definition upper :: "string \<Rightarrow> string" where
  "upper s = map to_upper s"

definition lower :: "string \<Rightarrow> string" where
  "lower s = map to_lower s"

text \<open>\<^verbatim>\<open>s.strip(chars)\<close>: drop the characters satisfying \<open>p\<close> at both ends.\<close>

definition strip_chars :: "(char \<Rightarrow> bool) \<Rightarrow> string \<Rightarrow> string" where
  "strip_chars p s = rev (dropWhile p (rev (dropWhile p s)))"

text \<open>\<^verbatim>\<open>s.strip()\<close>: drop white space at both ends.\<close>

definition strip :: "string \<Rightarrow> string" where
  "strip s = strip_chars is_space s"

text \<open>\<^verbatim>\<open>s.replace(c, "")\<close> for a single character \<open>c\<close>.\<close>

definition remove_char :: "char \<Rightarrow> string \<Rightarrow> string" where
  "remove_char c s = filter (\<lambda>d. d \<noteq> c) s"

text \<open>
  \<^verbatim>\<open>django.utils.text.slugify(value)\<close> (the default, \<^verbatim>\<open>allow_unicode=False\<close>) on
  ASCII text:
  \<^verbatim>\<open>
    value = unicodedata.normalize("NFKD", value).encode("ascii", "ignore").decode("ascii")
    value = re.sub(r"[^\w\s-]", "", value.lower())
    return re.sub(r"[-\s]+", "-", value).strip("-_")
  \<close>
  \<open>collapse_seps\<close> is the second substitution: every maximal run of hyphens and white
  space becomes one hyphen (a separator is emitted at the last character of its run).
\<close>

definition is_sep :: "char \<Rightarrow> bool" where
  "is_sep c = (c = CHR ''-'' \<or> is_space c)"

fun collapse_seps :: "string \<Rightarrow> string" where
  "collapse_seps [] = []"
| "collapse_seps (c # cs) =
     (if is_sep c then
        (case cs of
           [] \<Rightarrow> [CHR ''-'']
         | d # _ \<Rightarrow> if is_sep d then collapse_seps cs else CHR ''-'' # collapse_seps cs)
      else c # collapse_seps cs)"

definition slugify :: "string \<Rightarrow> string" where
  "slugify v =
     strip_chars (\<lambda>c. c = CHR ''-'' \<or> c = CHR ''_'')
       (collapse_seps
          (filter (\<lambda>c. is_alnum c \<or> c = CHR ''_'' \<or> is_space c \<or> c = CHR ''-'')
             (lower (filter is_ascii v))))"

section \<open>Data model (ops/models.py)\<close>

text \<open>
  Each model class is a record of its columns; a foreign key holds the primary key of the
  row it refers to, a nullable foreign key is an \<open>option\<close>. The inherited time stamps
  \<^verbatim>\<open>created_at\<close> and \<^verbatim>\<open>updated_at\<close> are not modelled. A \<^verbatim>\<open>DecimalField\<close> and a
  Python \<^verbatim>\<open>Decimal\<close> are exact rationals: the rounding of a value to the declared
  number of decimal places by the database, and the 28 digit limit of the decimal context,
  are not modelled. A \<^verbatim>\<open>DateField\<close> is a (year, month, day) triple.
\<close>

type_synonym pk = nat
type_synonym date = "nat \<times> nat \<times> nat"

record ProductSize =
  ps_id :: pk
  ps_code :: string
  ps_display_name :: string

record FabricType =
  ft_id :: pk
  ft_name :: string
  ft_is_active :: bool

record PrintPattern =
  pp_id :: pk
  pp_name :: string
  pp_is_active :: bool

record ProductSKU =
  sku_id :: pk
  sku_code :: string
  sku_size :: pk
  sku_fabric_type :: pk
  sku_print_pattern :: "pk option"
  sku_unit_price :: rat
  sku_is_active :: bool

record InventoryLocation =
  loc_id :: pk
  loc_name :: string

record InventoryBalance =
  ib_id :: pk
  ib_sku :: pk
  ib_location :: pk
  ib_qty_on_hand :: int
  ib_reorder_level :: int

record FabricMaterial =
  fm_id :: pk
  fm_fabric_type :: pk
  fm_uom :: string
  fm_is_printed :: bool
  fm_print_pattern :: "pk option"

record FabricInventory =
  fi_id :: pk
  fi_fabric_material :: pk
  fi_location :: pk
  fi_qty_on_hand :: rat

record Customer =
  cu_id :: pk
  cu_full_name :: string
  cu_phone :: string
  cu_email :: string
  cu_address :: string

record OrderStatus =
  os_id :: pk
  os_code :: string
  os_display_name :: string
  os_sort_order :: int

record Order =
  o_id :: pk
  o_customer :: pk
  o_status :: pk
  o_order_date :: date
  o_notes :: string
  o_subtotal :: rat
  o_shipping_fee :: rat
  o_discount :: rat
  o_total :: rat

record OrderItem =
  oi_id :: pk
  oi_order :: pk
  oi_sku :: pk
  oi_qty :: int
  oi_unit_price :: rat
  oi_line_total :: rat

record ExpenseType =
  et_id :: pk
  et_name :: string
  et_is_active :: bool

record Expense =
  ex_id :: pk
  ex_expense_type :: pk
  ex_amount :: rat
  ex_currency :: string
  ex_expense_date :: date
  ex_vendor :: string
  ex_notes :: string

subsection \<open>The two SKU code derivers\<close>

text \<open>
  \<^verbatim>\<open>build_sku_code\<close> of ops/management/commands/seed_ops.py, the one the seeding
  command calls. \<^verbatim>\<open>(size.code or "")\<close> is \<open>ps_code sz\<close>: the column is not
  nullable, and the empty string is its own default.
\<close>

definition build_sku_code :: "ProductSize \<Rightarrow> FabricType \<Rightarrow> PrintPattern option \<Rightarrow> string" where
  "build_sku_code sz fabric pattern =
     (let size_code = upper (ps_code sz);
          fabric_code = take 10 (remove_char CHR '' '' (upper (strip (ft_name fabric))));
          print_code = (case pattern of
                          None \<Rightarrow> ''PLAIN''
                        | Some p \<Rightarrow> take 12 (remove_char CHR '' '' (upper (strip (pp_name p)))))
      in ''BAG-'' @ size_code @ ''-'' @ fabric_code @ ''-'' @ print_code)"

text \<open>\<^verbatim>\<open>build_sku_code\<close> of ops/models.py, the one \<^verbatim>\<open>ProductSKU.save\<close> calls.\<close>

definition models_build_sku_code :: "ProductSize \<Rightarrow> FabricType \<Rightarrow> PrintPattern option \<Rightarrow> string" where
  "models_build_sku_code sz fabric_type print_pattern =
     (let size_code = upper (ps_code sz);
          fabric_code = take 10 (remove_char CHR ''-'' (upper (slugify (ft_name fabric_type))));
          print_code = (case print_pattern of
                          None \<Rightarrow> ''PLAIN''
                        | Some p \<Rightarrow> take 12 (remove_char CHR ''-'' (upper (slugify (pp_name p)))))
      in ''BAG-'' @ size_code @ ''-'' @ fabric_code @ ''-'' @ print_code)"

text \<open>
  The derivation as the specification words it: the name reduced to its alphanumeric
  characters, in upper case.
\<close>

definition spec_normalize :: "string \<Rightarrow> string" where
  "spec_normalize s = upper (filter is_alnum s)"

definition spec_sku_code :: "string \<Rightarrow> string \<Rightarrow> string option \<Rightarrow> string" where
  "spec_sku_code size_code fabric_name pattern_name =
     ''BAG-'' @ upper size_code @ ''-'' @ take 10 (spec_normalize fabric_name) @ ''-'' @
     (case pattern_name of None \<Rightarrow> ''PLAIN'' | Some n \<Rightarrow> take 12 (spec_normalize n))"

text \<open>A name made of ASCII letters, digits and blanks only.\<close>

definition plain_name :: "string \<Rightarrow> bool" where
  "plain_name s = (\<forall>c \<in> set s. is_alnum c \<or> c = CHR '' '')"

section \<open>The database and the fixture\<close>

text \<open>
  The tables the seeding command reads or writes, each a list of rows. The tables of
  \<^verbatim>\<open>InventoryMovement\<close>, \<^verbatim>\<open>FabricPrintJob\<close> and \<^verbatim>\<open>OrderStatusHistory\<close> are never
  touched by the command and are left out.
\<close>

record db =
  sizes :: "ProductSize list"
  fabrics :: "FabricType list"
  patterns :: "PrintPattern list"
  skus :: "ProductSKU list"
  locations :: "InventoryLocation list"
  balances :: "InventoryBalance list"
  materials :: "FabricMaterial list"
  fabric_stock :: "FabricInventory list"
  customers :: "Customer list"
  statuses :: "OrderStatus list"
  orders :: "Order list"
  items :: "OrderItem list"
  expense_types :: "ExpenseType list"
  expenses :: "Expense list"
  item_seq :: pk

text \<open>
  \<open>item_seq\<close> is the last key the database handed out for a line item. Line items
  are the only rows the command deletes, and the key of a deleted row is not handed out
  again.
\<close>

text \<open>
  The exceptions a run can raise: the two of \<^verbatim>\<open>QuerySet.get\<close>, the database's
  \<^verbatim>\<open>IntegrityError\<close> (a unique or a NOT NULL constraint), \<^verbatim>\<open>decimal.InvalidOperation\<close>
  (of \<^verbatim>\<open>Decimal(str(None))\<close>, and of an amount with more digits than its column has),
  the \<^verbatim>\<open>TypeError\<close> of \<^verbatim>\<open>int(None)\<close> and the \<^verbatim>\<open>OverflowError\<close> of an integer that
  does not fit its column.
\<close>

datatype error =
  DoesNotExist | MultipleObjectsReturned | IntegrityError | InvalidOperation | TypeError
  | OverflowError

definition and_then :: "error + 'a \<Rightarrow> ('a \<Rightarrow> error + 'b) \<Rightarrow> error + 'b" where
  "and_then m f = (case m of Inl e \<Rightarrow> Inl e | Inr x \<Rightarrow> f x)"

text \<open>A \<^verbatim>\<open>for\<close> loop over the rows of the fixture: the first exception ends it.\<close>

fun for_each :: "('s \<Rightarrow> 'a \<Rightarrow> error + 's) \<Rightarrow> 's \<Rightarrow> 'a list \<Rightarrow> error + 's" where
  "for_each f s [] = Inr s"
| "for_each f s (x # xs) = (case f s x of Inl e \<Rightarrow> Inl e | Inr s' \<Rightarrow> for_each f s' xs)"

subsection \<open>The fixture (seed_data.json)\<close>

text \<open>
  A key read with \<^verbatim>\<open>row["k"]\<close> is a field of the row's record, of the type the code
  expects; a key read with \<^verbatim>\<open>row.get("k", default)\<close> is a \<open>jfield\<close>: absent, the
  JSON \<^verbatim>\<open>null\<close>, or a value. Amounts are the numbers \<^verbatim>\<open>Decimal(str(x))\<close> denotes,
  dates the dates their ISO strings denote.
  A top-level key or an \<^verbatim>\<open>items\<close> key that is absent is the empty list.
\<close>

datatype 'a jfield = Missing | Null | Val 'a

text \<open>\<^verbatim>\<open>row.get(k, d)\<close> and \<^verbatim>\<open>row.get(k)\<close>; the result \<open>None\<close> is Python's \<^verbatim>\<open>None\<close>.\<close>

fun get_or :: "'a jfield \<Rightarrow> 'a \<Rightarrow> 'a option" where
  "get_or Missing d = Some d"
| "get_or Null d = None"
| "get_or (Val v) d = Some v"

fun get_none :: "'a jfield \<Rightarrow> 'a option" where
  "get_none Missing = None"
| "get_none Null = None"
| "get_none (Val v) = Some v"

text \<open>\<^verbatim>\<open>bool(x)\<close>, \<^verbatim>\<open>int(x)\<close>, \<^verbatim>\<open>Decimal(str(x))\<close>, and storing \<open>x\<close> in a column that is NOT NULL.\<close>

fun py_bool :: "bool option \<Rightarrow> bool" where
  "py_bool None = False"
| "py_bool (Some b) = b"

fun py_int :: "int option \<Rightarrow> error + int" where
  "py_int None = Inl TypeError"
| "py_int (Some n) = Inr n"

fun py_decimal :: "rat option \<Rightarrow> error + rat" where
  "py_decimal None = Inl InvalidOperation"
| "py_decimal (Some q) = Inr q"

fun not_null :: "'a option \<Rightarrow> error + 'a" where
  "not_null None = Inl IntegrityError"
| "not_null (Some v) = Inr v"

record size_row =
  rs_code :: string
  rs_display_name :: "string jfield"

record fabric_row =
  rf_name :: string
  rf_is_active :: "bool jfield"

record pattern_row =
  rp_name :: string
  rp_is_active :: "bool jfield"

record location_row =
  rl_name :: string

record status_row =
  rst_code :: string
  rst_display_name :: "string jfield"
  rst_sort_order :: "int jfield"

record customer_row =
  rc_full_name :: string
  rc_phone :: "string jfield"
  rc_email :: "string jfield"
  rc_address :: "string jfield"

record expense_type_row =
  ret_name :: string

record sku_row =
  rk_size_code :: string
  rk_fabric_type :: string
  rk_print_pattern :: "string jfield"
  rk_unit_price :: "rat jfield"
  rk_is_active :: "bool jfield"

record balance_row =
  rb_size_code :: string
  rb_fabric_type :: string
  rb_print_pattern :: "string jfield"
  rb_location :: string
  rb_qty_on_hand :: "int jfield"
  rb_reorder_level :: "int jfield"

record material_row =
  rm_fabric_type :: string
  rm_print_pattern :: "string jfield"
  rm_uom :: "string jfield"
  rm_is_printed :: "bool jfield"

record fabric_stock_row =
  rfi_fabric_type :: string
  rfi_print_pattern :: "string jfield"
  rfi_uom :: "string jfield"
  rfi_is_printed :: "bool jfield"
  rfi_location :: string
  rfi_qty_on_hand :: "rat jfield"

record item_row =
  ri_size_code :: string
  ri_fabric_type :: string
  ri_print_pattern :: "string jfield"
  ri_qty :: int
  ri_unit_price :: "rat jfield"

record order_row =
  ro_customer :: string
  ro_status :: string
  ro_order_date :: date
  ro_notes :: "string jfield"
  ro_shipping_fee :: "rat jfield"
  ro_discount :: "rat jfield"
  ro_items :: "item_row list"

record expense_row =
  re_expense_type :: string
  re_amount :: rat
  re_expense_date :: date
  re_currency :: "string jfield"
  re_vendor :: "string jfield"
  re_notes :: "string jfield"

record fixture =
  product_sizes :: "size_row list"
  fabric_types :: "fabric_row list"
  print_patterns :: "pattern_row list"
  inventory_locations :: "location_row list"
  order_statuses :: "status_row list"
  fixture_customers :: "customer_row list"
  fixture_expense_types :: "expense_type_row list"
  product_skus :: "sku_row list"
  inventory_balances :: "balance_row list"
  fabric_materials :: "material_row list"
  fabric_inventory :: "fabric_stock_row list"
  fixture_orders :: "order_row list"
  fixture_expenses :: "expense_row list"

section \<open>Columns\<close>

text \<open>
  A \<^verbatim>\<open>DecimalField(max_digits, decimal_places)\<close> holds what it is given quantised to
  its number of decimal places, a tie going to the even digit (the rounding of the
  decimal context, which the command never changes): 0.125 is stored as 0.12, 0.135 as
  0.14, 19.995 as 20.00. A quantised value with more than \<^verbatim>\<open>max_digits\<close> digits is not
  stored: the conversion raises \<^verbatim>\<open>decimal.InvalidOperation\<close>. The object in memory keeps
  the value it was given; only the row holds the quantised one.
\<close>

definition round_half_even :: "rat \<Rightarrow> int" where
  "round_half_even x =
     (let n = \<lfloor>x\<rfloor>; f = x - of_int n
      in if f < 1 / 2 then n else if 1 / 2 < f then n + 1 else if even n then n else n + 1)"

definition quantize :: "nat \<Rightarrow> rat \<Rightarrow> rat" where
  "quantize places x = of_int (round_half_even (x * 10 ^ places)) / 10 ^ places"

definition to_decimal_field :: "nat \<Rightarrow> nat \<Rightarrow> rat \<Rightarrow> error + rat" where
  "to_decimal_field max_digits places x =
     (if \<bar>round_half_even (x * 10 ^ places)\<bar> < 10 ^ max_digits then Inr (quantize places x)
      else Inl InvalidOperation)"

text \<open>
  An \<^verbatim>\<open>IntegerField\<close> holds a signed 64-bit integer; Python's integers are unbounded,
  and one that does not fit is refused with an \<^verbatim>\<open>OverflowError\<close> when the statement
  is run.
\<close>

definition to_integer_field :: "int \<Rightarrow> error + int" where
  "to_integer_field n = (if - (2 ^ 63) \<le> n \<and> n < 2 ^ 63 then Inr n else Inl OverflowError)"

section \<open>The object manager\<close>

text \<open>
  A new primary key: larger than every key of the table. The command deletes no row of
  a table whose keys are drawn this way.
\<close>

definition fresh_pk :: "pk list \<Rightarrow> pk" where
  "fresh_pk ks = Suc (fold max ks 0)"

text \<open>\<^verbatim>\<open>Model.objects.get(...)\<close>: exactly one row matches, or an exception.\<close>

definition objects_get :: "('r \<Rightarrow> bool) \<Rightarrow> 'r list \<Rightarrow> error + 'r" where
  "objects_get p rows =
     (case filter p rows of
        [] \<Rightarrow> Inl DoesNotExist
      | [r] \<Rightarrow> Inr r
      | _ # _ # _ \<Rightarrow> Inl MultipleObjectsReturned)"

text \<open>
  \<^verbatim>\<open>QuerySet.first()\<close> of an unordered query set: the rows are ordered by primary key
  and the first one is returned, \<^verbatim>\<open>None\<close> if there is none.
\<close>

fun first_by :: "('r \<Rightarrow> pk) \<Rightarrow> 'r list \<Rightarrow> 'r option" where
  "first_by key [] = None"
| "first_by key (r # rs) =
     (case first_by key rs of
        None \<Rightarrow> Some r
      | Some r' \<Rightarrow> if key r \<le> key r' then Some r else Some r')"

text \<open>
  \<^verbatim>\<open>get_or_create\<close> and \<^verbatim>\<open>update_or_create\<close>: \<open>p\<close> is the lookup, \<open>create\<close> builds
  and validates the new row from its key, \<open>upd\<close> applies the defaults to the row found.
  The object saved replaces the row with its primary key. Both return the object and
  the new table.
\<close>

definition get_or_create ::
  "('r \<Rightarrow> pk) \<Rightarrow> ('r \<Rightarrow> bool) \<Rightarrow> (pk \<Rightarrow> error + 'r) \<Rightarrow> 'r list \<Rightarrow> error + ('r \<times> 'r list)" where
  "get_or_create key p create rows =
     (case filter p rows of
        [] \<Rightarrow> and_then (create (fresh_pk (map key rows))) (\<lambda>obj. Inr (obj, rows @ [obj]))
      | [r] \<Rightarrow> Inr (r, rows)
      | _ # _ # _ \<Rightarrow> Inl MultipleObjectsReturned)"

definition update_or_create ::
  "('r \<Rightarrow> pk) \<Rightarrow> ('r \<Rightarrow> bool) \<Rightarrow> (pk \<Rightarrow> error + 'r) \<Rightarrow> ('r \<Rightarrow> error + 'r) \<Rightarrow> 'r list
     \<Rightarrow> error + ('r \<times> 'r list)" where
  "update_or_create key p create upd rows =
     (case filter p rows of
        [] \<Rightarrow> and_then (create (fresh_pk (map key rows))) (\<lambda>obj. Inr (obj, rows @ [obj]))
      | [r] \<Rightarrow> and_then (upd r)
                 (\<lambda>obj. Inr (obj, map (\<lambda>x. if key x = key obj then obj else x) rows))
      | _ # _ # _ \<Rightarrow> Inl MultipleObjectsReturned)"

section \<open>The seeding command (ops/management/commands/seed_ops.py)\<close>

subsection \<open>Helpers\<close>

definition get_size :: "db \<Rightarrow> string \<Rightarrow> error + ProductSize" where
  "get_size d code = objects_get (\<lambda>r. ps_code r = code) (sizes d)"

definition get_fabric :: "db \<Rightarrow> string \<Rightarrow> error + FabricType" where
  "get_fabric d name = objects_get (\<lambda>r. ft_name r = name) (fabrics d)"

definition get_print :: "db \<Rightarrow> string option \<Rightarrow> error + PrintPattern option" where
  "get_print d name =
     (case name of
        None \<Rightarrow> Inr None
      | Some n \<Rightarrow> and_then (objects_get (\<lambda>r. pp_name r = n) (patterns d)) (\<lambda>p. Inr (Some p)))"

definition get_location :: "db \<Rightarrow> string \<Rightarrow> error + InventoryLocation" where
  "get_location d name = objects_get (\<lambda>r. loc_name r = name) (locations d)"

subsection \<open>Saving a SKU (\<^verbatim>\<open>ProductSKU.save\<close> of ops/models.py)\<close>

text \<open>
  The override first fills an empty code on the instance, reading the three related
  rows through their keys, and then saves. \<open>ProductSKU_insert\<close> is the save of a new
  instance, \<open>ProductSKU_update\<close> the save with \<^verbatim>\<open>update_fields\<close>: only the listed
  columns of the row with the instance's key are written. The price goes through its
  \<^verbatim>\<open>DecimalField(12, 2)\<close> column when it is written. The column \<^verbatim>\<open>sku_code\<close>
  is unique, so a code another row holds is an \<^verbatim>\<open>IntegrityError\<close>. Both return the
  instance, as it is in memory, and the database.
\<close>

datatype sku_field = F_sku_code | F_unit_price | F_is_active

definition ProductSKU_fill_code :: "db \<Rightarrow> ProductSKU \<Rightarrow> error + ProductSKU" where
  "ProductSKU_fill_code d self =
     (if sku_code self = [] then
        and_then (objects_get (\<lambda>r. ps_id r = sku_size self) (sizes d)) (\<lambda>sz.
        and_then (objects_get (\<lambda>r. ft_id r = sku_fabric_type self) (fabrics d)) (\<lambda>fabric.
        and_then (case sku_print_pattern self of
                    None \<Rightarrow> Inr None
                  | Some k \<Rightarrow> and_then (objects_get (\<lambda>r. pp_id r = k) (patterns d))
                               (\<lambda>p. Inr (Some p))) (\<lambda>pattern.
        Inr (self\<lparr>sku_code := models_build_sku_code sz fabric pattern\<rparr>))))
      else Inr self)"

definition ProductSKU_insert :: "db \<Rightarrow> ProductSKU \<Rightarrow> error + (ProductSKU \<times> db)" where
  "ProductSKU_insert d self =
     and_then (ProductSKU_fill_code d self) (\<lambda>obj.
     and_then (to_decimal_field 12 2 (sku_unit_price obj)) (\<lambda>price.
       if \<exists>r \<in> set (skus d). sku_code r = sku_code obj then Inl IntegrityError
       else Inr (obj, d\<lparr>skus := skus d @ [obj\<lparr>sku_unit_price := price\<rparr>]\<rparr>)))"

definition write_sku_fields :: "sku_field list \<Rightarrow> ProductSKU \<Rightarrow> ProductSKU \<Rightarrow> ProductSKU" where
  "write_sku_fields fs obj r =
     r\<lparr>sku_code := (if F_sku_code \<in> set fs then sku_code obj else sku_code r),
       sku_unit_price := (if F_unit_price \<in> set fs then sku_unit_price obj else sku_unit_price r),
       sku_is_active := (if F_is_active \<in> set fs then sku_is_active obj else sku_is_active r)\<rparr>"

definition ProductSKU_update :: "db \<Rightarrow> ProductSKU \<Rightarrow> sku_field list \<Rightarrow> error + (ProductSKU \<times> db)" where
  "ProductSKU_update d self update_fields =
     and_then (ProductSKU_fill_code d self) (\<lambda>obj.
     and_then (if F_unit_price \<in> set update_fields
               then to_decimal_field 12 2 (sku_unit_price obj)
               else Inr (sku_unit_price obj)) (\<lambda>price.
       if F_sku_code \<in> set update_fields
          \<and> (\<exists>r \<in> set (skus d). sku_id r \<noteq> sku_id obj \<and> sku_code r = sku_code obj)
       then Inl IntegrityError
       else Inr (obj, d\<lparr>skus := map (\<lambda>r. if sku_id r = sku_id obj
                                            then write_sku_fields update_fields
                                                   (obj\<lparr>sku_unit_price := price\<rparr>) r
                                            else r)
                                   (skus d)\<rparr>)))"

subsection \<open>\<^verbatim>\<open>_get_sku\<close>\<close>

definition sku_lookup :: "ProductSize \<Rightarrow> FabricType \<Rightarrow> PrintPattern option \<Rightarrow> ProductSKU \<Rightarrow> bool" where
  "sku_lookup sz fabric pattern r =
     (sku_size r = ps_id sz \<and> sku_fabric_type r = ft_id fabric
      \<and> sku_print_pattern r = map_option pp_id pattern)"

definition get_sku :: "db \<Rightarrow> string \<Rightarrow> string \<Rightarrow> string option \<Rightarrow> error + (ProductSKU \<times> db)" where
  "get_sku d size_code fabric_name print_name =
     and_then (get_size d size_code) (\<lambda>sz.
     and_then (get_fabric d fabric_name) (\<lambda>fabric.
     and_then (get_print d print_name) (\<lambda>pattern.
     and_then
       (case filter (sku_lookup sz fabric pattern) (skus d) of
          [] \<Rightarrow> ProductSKU_insert d
                 \<lparr>sku_id = fresh_pk (map sku_id (skus d)),
                  sku_code = build_sku_code sz fabric pattern,
                  sku_size = ps_id sz,
                  sku_fabric_type = ft_id fabric,
                  sku_print_pattern = map_option pp_id pattern,
                  sku_unit_price = 0,
                  sku_is_active = True\<rparr>
        | [r] \<Rightarrow> Inr (r, d)
        | _ # _ # _ \<Rightarrow> Inl MultipleObjectsReturned) (\<lambda>(sku, d1).
     if sku_code sku = [] then
       ProductSKU_update d1 (sku\<lparr>sku_code := build_sku_code sz fabric pattern\<rparr>) [F_sku_code]
     else Inr (sku, d1)))))"

subsection \<open>\<^verbatim>\<open>_seed_reference\<close>\<close>

definition seed_size :: "db \<Rightarrow> size_row \<Rightarrow> error + db" where
  "seed_size d row =
     (let display_name = get_or (rs_display_name row) (rs_code row) in
      and_then
        (update_or_create ps_id (\<lambda>r. ps_code r = rs_code row)
           (\<lambda>k. and_then (not_null display_name) (\<lambda>n.
                  Inr \<lparr>ps_id = k, ps_code = rs_code row, ps_display_name = n\<rparr>))
           (\<lambda>r. and_then (not_null display_name) (\<lambda>n. Inr (r\<lparr>ps_display_name := n\<rparr>)))
           (sizes d))
        (\<lambda>(_, t). Inr (d\<lparr>sizes := t\<rparr>)))"

definition seed_fabric_type :: "db \<Rightarrow> fabric_row \<Rightarrow> error + db" where
  "seed_fabric_type d row =
     (let is_active = py_bool (get_or (rf_is_active row) True) in
      and_then
        (update_or_create ft_id (\<lambda>r. ft_name r = rf_name row)
           (\<lambda>k. Inr \<lparr>ft_id = k, ft_name = rf_name row, ft_is_active = is_active\<rparr>)
           (\<lambda>r. Inr (r\<lparr>ft_is_active := is_active\<rparr>))
           (fabrics d))
        (\<lambda>(_, t). Inr (d\<lparr>fabrics := t\<rparr>)))"

definition seed_print_pattern :: "db \<Rightarrow> pattern_row \<Rightarrow> error + db" where
  "seed_print_pattern d row =
     (let is_active = py_bool (get_or (rp_is_active row) True) in
      and_then
        (update_or_create pp_id (\<lambda>r. pp_name r = rp_name row)
           (\<lambda>k. Inr \<lparr>pp_id = k, pp_name = rp_name row, pp_is_active = is_active\<rparr>)
           (\<lambda>r. Inr (r\<lparr>pp_is_active := is_active\<rparr>))
           (patterns d))
        (\<lambda>(_, t). Inr (d\<lparr>patterns := t\<rparr>)))"

definition seed_location :: "db \<Rightarrow> location_row \<Rightarrow> error + db" where
  "seed_location d row =
     and_then
       (update_or_create loc_id (\<lambda>r. loc_name r = rl_name row)
          (\<lambda>k. Inr \<lparr>loc_id = k, loc_name = rl_name row\<rparr>)
          (\<lambda>r. Inr r)
          (locations d))
       (\<lambda>(_, t). Inr (d\<lparr>locations := t\<rparr>))"

definition seed_status :: "db \<Rightarrow> status_row \<Rightarrow> error + db" where
  "seed_status d row =
     (let display_name = get_or (rst_display_name row) (rst_code row) in
      and_then (py_int (get_or (rst_sort_order row) 0)) (\<lambda>sort_order.
      and_then
        (update_or_create os_id (\<lambda>r. os_code r = rst_code row)
           (\<lambda>k. and_then (to_integer_field sort_order) (\<lambda>so.
                 and_then (not_null display_name) (\<lambda>n.
                  Inr \<lparr>os_id = k, os_code = rst_code row, os_display_name = n,
                       os_sort_order = so\<rparr>)))
           (\<lambda>r. and_then (to_integer_field sort_order) (\<lambda>so.
                 and_then (not_null display_name) (\<lambda>n.
                  Inr (r\<lparr>os_display_name := n, os_sort_order := so\<rparr>))))
           (statuses d))
        (\<lambda>(_, t). Inr (d\<lparr>statuses := t\<rparr>))))"

definition seed_customer :: "db \<Rightarrow> customer_row \<Rightarrow> error + db" where
  "seed_customer d row =
     (let phone = get_or (rc_phone row) '''';
          email = get_or (rc_email row) '''';
          address = get_or (rc_address row) ''''
      in and_then
        (update_or_create cu_id (\<lambda>r. cu_full_name r = rc_full_name row)
           (\<lambda>k. and_then (not_null phone) (\<lambda>ph.
                 and_then (not_null email) (\<lambda>em.
                 and_then (not_null address) (\<lambda>ad.
                  Inr \<lparr>cu_id = k, cu_full_name = rc_full_name row, cu_phone = ph,
                       cu_email = em, cu_address = ad\<rparr>))))
           (\<lambda>r. and_then (not_null phone) (\<lambda>ph.
                 and_then (not_null email) (\<lambda>em.
                 and_then (not_null address) (\<lambda>ad.
                  Inr (r\<lparr>cu_phone := ph, cu_email := em, cu_address := ad\<rparr>)))))
           (customers d))
        (\<lambda>(_, t). Inr (d\<lparr>customers := t\<rparr>)))"

definition seed_expense_type :: "db \<Rightarrow> expense_type_row \<Rightarrow> error + db" where
  "seed_expense_type d row =
     and_then
       (update_or_create et_id (\<lambda>r. et_name r = ret_name row)
          (\<lambda>k. Inr \<lparr>et_id = k, et_name = ret_name row, et_is_active = True\<rparr>)
          (\<lambda>r. Inr (r\<lparr>et_is_active := True\<rparr>))
          (expense_types d))
       (\<lambda>(_, t). Inr (d\<lparr>expense_types := t\<rparr>))"

definition seed_reference :: "db \<Rightarrow> fixture \<Rightarrow> error + db" where
  "seed_reference d data =
     and_then (for_each seed_size d (product_sizes data)) (\<lambda>d1.
     and_then (for_each seed_fabric_type d1 (fabric_types data)) (\<lambda>d2.
     and_then (for_each seed_print_pattern d2 (print_patterns data)) (\<lambda>d3.
     and_then (for_each seed_location d3 (inventory_locations data)) (\<lambda>d4.
     and_then (for_each seed_status d4 (order_statuses data)) (\<lambda>d5.
     and_then (for_each seed_customer d5 (fixture_customers data)) (\<lambda>d6.
     for_each seed_expense_type d6 (fixture_expense_types data)))))))"

subsection \<open>\<^verbatim>\<open>_seed_skus_and_inventory\<close>\<close>

definition seed_sku :: "db \<Rightarrow> sku_row \<Rightarrow> error + db" where
  "seed_sku d row =
     and_then (get_sku d (rk_size_code row) (rk_fabric_type row) (get_none (rk_print_pattern row)))
       (\<lambda>(sku, d1).
          case rk_unit_price row of
            Val price \<Rightarrow>
              and_then
                (ProductSKU_update d1
                   (sku\<lparr>sku_unit_price := price,
                        sku_is_active := py_bool (get_or (rk_is_active row) True)\<rparr>)
                   [F_unit_price, F_is_active])
                (\<lambda>(_, d2). Inr d2)
          | _ \<Rightarrow> Inr d1)"

definition seed_balance :: "db \<Rightarrow> balance_row \<Rightarrow> error + db" where
  "seed_balance d row =
     and_then (get_sku d (rb_size_code row) (rb_fabric_type row) (get_none (rb_print_pattern row)))
       (\<lambda>(sku, d1).
     and_then (get_location d1 (rb_location row)) (\<lambda>loc.
     and_then (py_int (get_or (rb_qty_on_hand row) 0)) (\<lambda>qty.
     and_then (py_int (get_or (rb_reorder_level row) 0)) (\<lambda>level.
     and_then
       (update_or_create ib_id (\<lambda>r. ib_sku r = sku_id sku \<and> ib_location r = loc_id loc)
          (\<lambda>k. and_then (to_integer_field qty) (\<lambda>q.
                and_then (to_integer_field level) (\<lambda>l.
                 Inr \<lparr>ib_id = k, ib_sku = sku_id sku, ib_location = loc_id loc,
                      ib_qty_on_hand = q, ib_reorder_level = l\<rparr>)))
          (\<lambda>r. and_then (to_integer_field qty) (\<lambda>q.
                and_then (to_integer_field level) (\<lambda>l.
                 Inr (r\<lparr>ib_qty_on_hand := q, ib_reorder_level := l\<rparr>))))
          (balances d1))
       (\<lambda>(_, t). Inr (d1\<lparr>balances := t\<rparr>))))))"

definition seed_skus_and_inventory :: "db \<Rightarrow> fixture \<Rightarrow> error + db" where
  "seed_skus_and_inventory d data =
     and_then (for_each seed_sku d (product_skus data)) (\<lambda>d1.
     for_each seed_balance d1 (inventory_balances data))"

subsection \<open>\<^verbatim>\<open>_seed_fabrics\<close>\<close>

definition material_lookup ::
  "FabricType \<Rightarrow> string \<Rightarrow> bool \<Rightarrow> PrintPattern option \<Rightarrow> FabricMaterial \<Rightarrow> bool" where
  "material_lookup fabric uom is_printed pattern r =
     (fm_fabric_type r = ft_id fabric \<and> fm_uom r = uom \<and> fm_is_printed r = is_printed
      \<and> fm_print_pattern r = map_option pp_id pattern)"

text \<open>
  In both loops the pattern is kept only when the flag is set. A \<^verbatim>\<open>null\<close> unit
  matches no row and cannot be stored. \<^verbatim>\<open>update_or_create\<close> has no defaults here.
\<close>

definition seed_material :: "db \<Rightarrow> material_row \<Rightarrow> error + db" where
  "seed_material d row =
     and_then (get_fabric d (rm_fabric_type row)) (\<lambda>fabric.
     and_then (get_print d (get_none (rm_print_pattern row))) (\<lambda>pattern.
     (let is_printed = py_bool (get_or (rm_is_printed row) False);
          print_pattern = (if is_printed then pattern else None)
      in and_then (not_null (get_or (rm_uom row) ''meter'')) (\<lambda>uom.
         and_then
           (update_or_create fm_id (material_lookup fabric uom is_printed print_pattern)
              (\<lambda>k. Inr \<lparr>fm_id = k, fm_fabric_type = ft_id fabric, fm_uom = uom,
                         fm_is_printed = is_printed,
                         fm_print_pattern = map_option pp_id print_pattern\<rparr>)
              (\<lambda>r. Inr r)
              (materials d))
           (\<lambda>(_, t). Inr (d\<lparr>materials := t\<rparr>))))))"

definition seed_fabric_stock :: "db \<Rightarrow> fabric_stock_row \<Rightarrow> error + db" where
  "seed_fabric_stock d row =
     and_then (get_fabric d (rfi_fabric_type row)) (\<lambda>fabric.
     and_then (get_print d (get_none (rfi_print_pattern row))) (\<lambda>pattern.
     (let is_printed = py_bool (get_or (rfi_is_printed row) False);
          print_pattern = (if is_printed then pattern else None)
      in and_then (not_null (get_or (rfi_uom row) ''meter'')) (\<lambda>uom.
         and_then
           (get_or_create fm_id (material_lookup fabric uom is_printed print_pattern)
              (\<lambda>k. Inr \<lparr>fm_id = k, fm_fabric_type = ft_id fabric, fm_uom = uom,
                         fm_is_printed = is_printed,
                         fm_print_pattern = map_option pp_id print_pattern\<rparr>)
              (materials d))
           (\<lambda>(mat, t).
     (let d1 = d\<lparr>materials := t\<rparr> in
     and_then (get_location d1 (rfi_location row)) (\<lambda>loc.
     and_then (py_decimal (get_or (rfi_qty_on_hand row) 0)) (\<lambda>qty.
     and_then
       (update_or_create fi_id
          (\<lambda>r. fi_fabric_material r = fm_id mat \<and> fi_location r = loc_id loc)
          (\<lambda>k. and_then (to_decimal_field 14 3 qty) (\<lambda>q.
                 Inr \<lparr>fi_id = k, fi_fabric_material = fm_id mat, fi_location = loc_id loc,
                      fi_qty_on_hand = q\<rparr>))
          (\<lambda>r. and_then (to_decimal_field 14 3 qty) (\<lambda>q. Inr (r\<lparr>fi_qty_on_hand := q\<rparr>)))
          (fabric_stock d1))
       (\<lambda>(_, t'). Inr (d1\<lparr>fabric_stock := t'\<rparr>))))))))))"

definition seed_fabrics :: "db \<Rightarrow> fixture \<Rightarrow> error + db" where
  "seed_fabrics d data =
     and_then (for_each seed_material d (fabric_materials data)) (\<lambda>d1.
     for_each seed_fabric_stock d1 (fabric_inventory data))"

subsection \<open>\<^verbatim>\<open>_seed_orders\<close>\<close>

text \<open>The lookup of an existing order: customer, date and notes.\<close>

definition order_lookup :: "Customer \<Rightarrow> date \<Rightarrow> string option \<Rightarrow> Order \<Rightarrow> bool" where
  "order_lookup customer order_date notes r =
     (o_customer r = cu_id customer \<and> o_order_date r = order_date \<and> Some (o_notes r) = notes)"

text \<open>
  \<^verbatim>\<open>Order.objects.create(...)\<close>: the two amounts are converted before the call, the
  row gets the column defaults 0 for \<^verbatim>\<open>subtotal\<close> and \<^verbatim>\<open>total\<close>. The row holds the
  amounts as their columns store them; the object returned keeps the amounts passed.
\<close>

definition Order_create ::
  "db \<Rightarrow> Customer \<Rightarrow> OrderStatus \<Rightarrow> date \<Rightarrow> string option \<Rightarrow> rat jfield \<Rightarrow> rat jfield
     \<Rightarrow> error + (Order \<times> db)" where
  "Order_create d customer status order_date notes shipping_field discount_field =
     and_then (py_decimal (get_or shipping_field 0)) (\<lambda>shipping_fee.
     and_then (py_decimal (get_or discount_field 0)) (\<lambda>discount.
     and_then (to_decimal_field 12 2 shipping_fee) (\<lambda>stored_fee.
     and_then (to_decimal_field 12 2 discount) (\<lambda>stored_discount.
     and_then (not_null notes) (\<lambda>n.
       (let order = \<lparr>o_id = fresh_pk (map o_id (orders d)), o_customer = cu_id customer,
                     o_status = os_id status, o_order_date = order_date, o_notes = n,
                     o_subtotal = 0, o_shipping_fee = shipping_fee, o_discount = discount,
                     o_total = 0\<rparr>
        in Inr (order, d\<lparr>orders := orders d @ [order\<lparr>o_shipping_fee := stored_fee,
                                                     o_discount := stored_discount\<rparr>]\<rparr>)))))))"

text \<open>
  \<^verbatim>\<open>OrderItem.objects.create(...)\<close>: the row holds the two amounts as their columns
  store them, and its key is one past the last key handed out.
\<close>

definition new_item_key :: "db \<Rightarrow> pk" where
  "new_item_key d = Suc (max (item_seq d) (fold max (map oi_id (items d)) 0))"

definition OrderItem_create :: "db \<Rightarrow> pk \<Rightarrow> pk \<Rightarrow> int \<Rightarrow> rat \<Rightarrow> rat \<Rightarrow> error + db" where
  "OrderItem_create d order_id sku_key qty unit_price line_total =
     and_then (to_decimal_field 12 2 unit_price) (\<lambda>stored_price.
     and_then (to_decimal_field 12 2 line_total) (\<lambda>stored_total.
     and_then (to_integer_field qty) (\<lambda>stored_qty.
       (let k = new_item_key d in
        Inr (d\<lparr>items := items d @ [\<lparr>oi_id = k, oi_order = order_id, oi_sku = sku_key,
                                     oi_qty = stored_qty, oi_unit_price = stored_price,
                                     oi_line_total = stored_total\<rparr>],
              item_seq := k\<rparr>)))))"

text \<open>
  The body of the loop over \<^verbatim>\<open>row.get("items", [])\<close>; the state is the database and
  the running subtotal, which adds up the line totals as computed, not as stored.
\<close>

definition seed_order_item :: "Order \<Rightarrow> db \<times> rat \<Rightarrow> item_row \<Rightarrow> error + (db \<times> rat)" where
  "seed_order_item order st item =
     (case st of (d, subtotal) \<Rightarrow>
        and_then (get_sku d (ri_size_code item) (ri_fabric_type item)
                    (get_none (ri_print_pattern item))) (\<lambda>(sku, d1).
        (let qty = ri_qty item in
         and_then (py_decimal (get_or (ri_unit_price item) (sku_unit_price sku))) (\<lambda>unit_price.
         (let line_total = unit_price * of_int qty in
          and_then (OrderItem_create d1 (o_id order) (sku_id sku) qty unit_price line_total)
            (\<lambda>d2. Inr (d2, subtotal + line_total)))))))"

text \<open>
  \<^verbatim>\<open>order.save(update_fields=["subtotal", "total", "shipping_fee", "discount"])\<close>:
  the four columns of the row with the order's key are written, each amount as its
  column stores it.
\<close>

definition Order_save_totals :: "db \<Rightarrow> Order \<Rightarrow> error + db" where
  "Order_save_totals d order =
     and_then (to_decimal_field 12 2 (o_subtotal order)) (\<lambda>subtotal.
     and_then (to_decimal_field 12 2 (o_shipping_fee order)) (\<lambda>shipping_fee.
     and_then (to_decimal_field 12 2 (o_discount order)) (\<lambda>discount.
     and_then (to_decimal_field 12 2 (o_total order)) (\<lambda>total.
       Inr (d\<lparr>orders := map (\<lambda>r. if o_id r = o_id order
                                    then r\<lparr>o_subtotal := subtotal, o_total := total,
                                           o_shipping_fee := shipping_fee,
                                           o_discount := discount\<rparr>
                                    else r) (orders d)\<rparr>)))))"

text \<open>
  The body of the loop of \<^verbatim>\<open>_seed_orders\<close>. \<open>build_order\<close> also returns the order
  object as it is in memory after the save; \<open>seed_order\<close> is the loop body proper.
\<close>

definition build_order :: "db \<Rightarrow> order_row \<Rightarrow> error + (Order \<times> db)" where
  "build_order d row =
     and_then (objects_get (\<lambda>r. cu_full_name r = ro_customer row) (customers d)) (\<lambda>customer.
     and_then (objects_get (\<lambda>r. os_code r = ro_status row) (statuses d)) (\<lambda>status.
     (let notes = get_or (ro_notes row) '''';
          existing = first_by o_id
                       (filter (order_lookup customer (ro_order_date row) notes) (orders d))
      in and_then
           (case existing of
              Some order \<Rightarrow> Inr (order, d)
            | None \<Rightarrow> Order_create d customer status (ro_order_date row) notes
                        (ro_shipping_fee row) (ro_discount row)) (\<lambda>(order, d1).
         (let d2 = d1\<lparr>items := filter (\<lambda>i. oi_order i \<noteq> o_id order) (items d1)\<rparr> in
          and_then (for_each (seed_order_item order) (d2, 0) (ro_items row)) (\<lambda>(d3, subtotal).
          (let order' = order\<lparr>o_subtotal := subtotal,
                              o_total := subtotal + o_shipping_fee order - o_discount order\<rparr>
           in and_then (Order_save_totals d3 order') (\<lambda>d4. Inr (order', d4)))))))))"

definition seed_order :: "db \<Rightarrow> order_row \<Rightarrow> error + db" where
  "seed_order d row = and_then (build_order d row) (\<lambda>(_, d'). Inr d')"

definition seed_orders :: "db \<Rightarrow> fixture \<Rightarrow> error + db" where
  "seed_orders d data = for_each seed_order d (fixture_orders data)"

subsection \<open>\<^verbatim>\<open>_seed_expenses\<close>\<close>

text \<open>
  The amount is part of the lookup; it goes through its \<^verbatim>\<open>DecimalField(12, 2)\<close> column
  in the lookup as in the row created.
\<close>

definition seed_expense :: "db \<Rightarrow> expense_row \<Rightarrow> error + db" where
  "seed_expense d row =
     and_then (objects_get (\<lambda>r. et_name r = re_expense_type row) (expense_types d)) (\<lambda>et.
     and_then (to_decimal_field 12 2 (re_amount row)) (\<lambda>amount.
     (let currency = get_or (re_currency row) ''EGP'';
          vendor = get_or (re_vendor row) '''';
          notes = get_or (re_notes row) ''''
      in and_then
        (update_or_create ex_id
           (\<lambda>r. ex_expense_type r = et_id et \<and> ex_amount r = amount
                \<and> ex_expense_date r = re_expense_date row)
           (\<lambda>k. and_then (not_null currency) (\<lambda>cur.
                 and_then (not_null vendor) (\<lambda>ven.
                 and_then (not_null notes) (\<lambda>n.
                  Inr \<lparr>ex_id = k, ex_expense_type = et_id et, ex_amount = amount,
                       ex_currency = cur, ex_expense_date = re_expense_date row,
                       ex_vendor = ven, ex_notes = n\<rparr>))))
           (\<lambda>r. and_then (not_null currency) (\<lambda>cur.
                 and_then (not_null vendor) (\<lambda>ven.
                 and_then (not_null notes) (\<lambda>n.
                  Inr (r\<lparr>ex_currency := cur, ex_vendor := ven, ex_notes := n\<rparr>)))))
           (expenses d))
        (\<lambda>(_, t). Inr (d\<lparr>expenses := t\<rparr>)))))"

definition seed_expenses :: "db \<Rightarrow> fixture \<Rightarrow> error + db" where
  "seed_expenses d data = for_each seed_expense d (fixture_expenses data)"

subsection \<open>\<^verbatim>\<open>handle\<close>\<close>

text \<open>The body of the \<^verbatim>\<open>with transaction.atomic():\<close> block.\<close>

definition seed_all :: "db \<Rightarrow> fixture \<Rightarrow> error + db" where
  "seed_all d data =
     and_then (seed_reference d data) (\<lambda>d1.
     and_then (seed_skus_and_inventory d1 data) (\<lambda>d2.
     and_then (seed_fabrics d2 data) (\<lambda>d3.
     and_then (seed_orders d3 data) (\<lambda>d4.
     seed_expenses d4 data))))"

text \<open>
  Modelled from the spec: \<^verbatim>\<open>transaction.atomic\<close> is Django's and is not part of the
  repository. The spec says of it: all operations for one invocation share a single
  transaction; any failure aborts the entire batch with no partial writes; errors
  propagate out of the transaction, which rolls back entirely, and are surfaced to the
  invoking caller. So the block's writes are kept when it returns, and when an exception
  leaves it the database is as it was on entry and the exception goes on to the caller.
\<close>

definition atomic :: "(db \<Rightarrow> error + db) \<Rightarrow> db \<Rightarrow> (error + unit) \<times> db" where
  "atomic body d =
     (case body d of
        Inl e \<Rightarrow> (Inl e, d)
      | Inr d' \<Rightarrow> (Inr (), d'))"

text \<open>
  \<^verbatim>\<open>handle\<close>, once the fixture is loaded: the five steps run inside one
  \<^verbatim>\<open>transaction.atomic\<close> block and nothing in \<^verbatim>\<open>handle\<close> or below it catches an
  exception. The result is the outcome and the persisted database.
\<close>

datatype outcome = Completed | Failed error

definition handle :: "db \<Rightarrow> fixture \<Rightarrow> outcome \<times> db" where
  "handle d data =
     (case atomic (\<lambda>a. seed_all a data) d of
        (Inl e, d') \<Rightarrow> (Failed e, d')
      | (Inr _, d') \<Rightarrow> (Completed, d'))"

section \<open>Notions used in the statements\<close>

text \<open>The content of a line item: every column but its primary key.\<close>

definition item_content :: "OrderItem \<Rightarrow> pk \<times> pk \<times> int \<times> rat \<times> rat" where
  "item_content i = (oi_order i, oi_sku i, oi_qty i, oi_unit_price i, oi_line_total i)"

text \<open>The line items of an order.\<close>

definition items_of :: "db \<Rightarrow> pk \<Rightarrow> OrderItem list" where
  "items_of d k = filter (\<lambda>i. oi_order i = k) (items d)"

text \<open>
  An amount of at most two decimal places. The stored prices of the SKUs and the stored
  shipping fees and discounts of the orders are such amounts; so are the amounts an
  order row of the fixture gives.
\<close>

definition is_cents :: "rat \<Rightarrow> bool" where
  "is_cents x = (x * 100 \<in> \<int>)"

definition db_in_cents :: "db \<Rightarrow> bool" where
  "db_in_cents d =
     ((\<forall>r \<in> set (skus d). is_cents (sku_unit_price r))
      \<and> (\<forall>r \<in> set (orders d). is_cents (o_shipping_fee r) \<and> is_cents (o_discount r)))"

fun cents_or_absent :: "rat jfield \<Rightarrow> bool" where
  "cents_or_absent (Val x) = is_cents x"
| "cents_or_absent _ = True"

definition row_in_cents :: "order_row \<Rightarrow> bool" where
  "row_in_cents row =
     (cents_or_absent (ro_shipping_fee row) \<and> cents_or_absent (ro_discount row)
      \<and> (\<forall>item \<in> set (ro_items row). cents_or_absent (ri_unit_price item)))"

text \<open>The row the save of the totals writes: the four amounts as the columns store them.\<close>

definition saved_totals :: "Order \<Rightarrow> Order \<Rightarrow> Order" where
  "saved_totals order r =
     (if o_id r = o_id order
      then r\<lparr>o_subtotal := quantize 2 (o_subtotal order), o_total := quantize 2 (o_total order),
             o_shipping_fee := quantize 2 (o_shipping_fee order),
             o_discount := quantize 2 (o_discount order)\<rparr>
      else r)"

text \<open>A material that is raw carries no pattern; no raw material carries a pattern.\<close>

definition material_ok :: "FabricMaterial \<Rightarrow> bool" where
  "material_ok m = (\<not> fm_is_printed m \<longrightarrow> fm_print_pattern m = None)"

definition raw_without_pattern :: "db \<Rightarrow> bool" where
  "raw_without_pattern d = (\<forall>m \<in> set (materials d). material_ok m)"

text \<open>
  Flag and pattern of a material agree; they agree on every stored material; every row
  of the fixture whose printed flag is set names a pattern.
\<close>

definition material_consistent :: "FabricMaterial \<Rightarrow> bool" where
  "material_consistent m = (fm_is_printed m \<longleftrightarrow> fm_print_pattern m \<noteq> None)"

definition materials_consistent :: "db \<Rightarrow> bool" where
  "materials_consistent d = (\<forall>m \<in> set (materials d). material_consistent m)"

definition printed_rows_name_pattern :: "fixture \<Rightarrow> bool" where
  "printed_rows_name_pattern data =
     ((\<forall>row \<in> set (fabric_materials data).
         py_bool (get_or (rm_is_printed row) False) \<longrightarrow> get_none (rm_print_pattern row) \<noteq> None)
      \<and> (\<forall>row \<in> set (fabric_inventory data).
         py_bool (get_or (rfi_is_printed row) False) \<longrightarrow> get_none (rfi_print_pattern row) \<noteq> None))"

text \<open>The database with its SKU and line item tables blanked: what a resolve and a
  line item loop leave alone.\<close>

definition except_skus_items :: "db \<Rightarrow> db" where
  "except_skus_items d = d\<lparr>skus := [], items := [], item_seq := 0\<rparr>"

text \<open>
  The names of a SKU are settled: their rows are found and exactly one SKU row, which
  has a code, has their keys.
\<close>

definition settled :: "db \<Rightarrow> string \<Rightarrow> string \<Rightarrow> string option \<Rightarrow> ProductSKU \<Rightarrow> bool" where
  "settled d size_code fabric_name print_name sku =
     (\<exists>sz fabric pattern.
        get_size d size_code = Inr sz \<and> get_fabric d fabric_name = Inr fabric
        \<and> get_print d print_name = Inr pattern
        \<and> filter (sku_lookup sz fabric pattern) (skus d) = [sku] \<and> sku_code sku \<noteq> [])"

text \<open>The database of a fresh installation.\<close>

definition empty_db :: db where
  "empty_db = \<lparr>sizes = [], fabrics = [], patterns = [], skus = [], locations = [], balances = [],
     materials = [], fabric_stock = [], customers = [], statuses = [], orders = [], items = [],
     expense_types = [], expenses = [], item_seq = 0\<rparr>"

text \<open>The fixture with no rows.\<close>

definition empty_fixture :: fixture where
  "empty_fixture = \<lparr>product_sizes = [], fabric_types = [], print_patterns = [],
     inventory_locations = [], order_statuses = [], fixture_customers = [],
     fixture_expense_types = [], product_skus = [], inventory_balances = [],
     fabric_materials = [], fabric_inventory = [], fixture_orders = [], fixture_expenses = []\<rparr>"

subsection \<open>The run as a sequence of steps\<close>

text \<open>
  A step is one pass through the body of one of the command's loops, for one row of the
  fixture. \<open>steps\<close> lists the steps of a run in the order \<^verbatim>\<open>handle\<close> takes them;
  \<open>run_step\<close> is the loop body of a step.
\<close>

datatype step =
  S_size size_row | S_fabric_type fabric_row | S_print_pattern pattern_row
  | S_location location_row | S_status status_row | S_customer customer_row
  | S_expense_type expense_type_row | S_sku sku_row | S_balance balance_row
  | S_material material_row | S_fabric_stock fabric_stock_row | S_order order_row
  | S_expense expense_row

fun run_step :: "db \<Rightarrow> step \<Rightarrow> error + db" where
  "run_step d (S_size row) = seed_size d row"
| "run_step d (S_fabric_type row) = seed_fabric_type d row"
| "run_step d (S_print_pattern row) = seed_print_pattern d row"
| "run_step d (S_location row) = seed_location d row"
| "run_step d (S_status row) = seed_status d row"
| "run_step d (S_customer row) = seed_customer d row"
| "run_step d (S_expense_type row) = seed_expense_type d row"
| "run_step d (S_sku row) = seed_sku d row"
| "run_step d (S_balance row) = seed_balance d row"
| "run_step d (S_material row) = seed_material d row"
| "run_step d (S_fabric_stock row) = seed_fabric_stock d row"
| "run_step d (S_order row) = seed_order d row"
| "run_step d (S_expense row) = seed_expense d row"

definition steps :: "fixture \<Rightarrow> step list" where
  "steps data =
     map S_size (product_sizes data) @ map S_fabric_type (fabric_types data)
     @ map S_print_pattern (print_patterns data) @ map S_location (inventory_locations data)
     @ map S_status (order_statuses data) @ map S_customer (fixture_customers data)
     @ map S_expense_type (fixture_expense_types data) @ map S_sku (product_skus data)
     @ map S_balance (inventory_balances data) @ map S_material (fabric_materials data)
     @ map S_fabric_stock (fabric_inventory data) @ map S_order (fixture_orders data)
     @ map S_expense (fixture_expenses data)"

subsection \<open>Names no table and no reference row supplies\<close>

text \<open>
  The names a lookup can find in a run that starts from \<open>d\<close>: those stored in \<open>d\<close> and
  those of the reference rows of the fixture.
\<close>

definition known_sizes :: "db \<Rightarrow> fixture \<Rightarrow> string list" where
  "known_sizes d data = map ps_code (sizes d) @ map rs_code (product_sizes data)"

definition known_fabrics :: "db \<Rightarrow> fixture \<Rightarrow> string list" where
  "known_fabrics d data = map ft_name (fabrics d) @ map rf_name (fabric_types data)"

definition known_patterns :: "db \<Rightarrow> fixture \<Rightarrow> string list" where
  "known_patterns d data = map pp_name (patterns d) @ map rp_name (print_patterns data)"

definition known_locations :: "db \<Rightarrow> fixture \<Rightarrow> string list" where
  "known_locations d data = map loc_name (locations d) @ map rl_name (inventory_locations data)"

definition known_statuses :: "db \<Rightarrow> fixture \<Rightarrow> string list" where
  "known_statuses d data = map os_code (statuses d) @ map rst_code (order_statuses data)"

definition known_customers :: "db \<Rightarrow> fixture \<Rightarrow> string list" where
  "known_customers d data = map cu_full_name (customers d) @ map rc_full_name (fixture_customers data)"

definition known_expense_types :: "db \<Rightarrow> fixture \<Rightarrow> string list" where
  "known_expense_types d data =
     map et_name (expense_types d) @ map ret_name (fixture_expense_types data)"

text \<open>The pattern name, when one is given, is not known.\<close>

fun unknown_pattern :: "db \<Rightarrow> fixture \<Rightarrow> string option \<Rightarrow> bool" where
  "unknown_pattern d data None = False"
| "unknown_pattern d data (Some n) = (n \<notin> set (known_patterns d data))"

definition unknown_sku_names :: "db \<Rightarrow> fixture \<Rightarrow> string \<Rightarrow> string \<Rightarrow> string option \<Rightarrow> bool" where
  "unknown_sku_names d data size_code fabric_name print_name =
     (size_code \<notin> set (known_sizes d data) \<or> fabric_name \<notin> set (known_fabrics d data)
      \<or> unknown_pattern d data print_name)"

text \<open>A step looks up a name that is not known.\<close>

fun step_dangles :: "db \<Rightarrow> fixture \<Rightarrow> step \<Rightarrow> bool" where
  "step_dangles d data (S_sku row) =
     unknown_sku_names d data (rk_size_code row) (rk_fabric_type row)
       (get_none (rk_print_pattern row))"
| "step_dangles d data (S_balance row) =
     (unknown_sku_names d data (rb_size_code row) (rb_fabric_type row)
        (get_none (rb_print_pattern row))
      \<or> rb_location row \<notin> set (known_locations d data))"
| "step_dangles d data (S_material row) =
     (rm_fabric_type row \<notin> set (known_fabrics d data)
      \<or> unknown_pattern d data (get_none (rm_print_pattern row)))"
| "step_dangles d data (S_fabric_stock row) =
     (rfi_fabric_type row \<notin> set (known_fabrics d data)
      \<or> unknown_pattern d data (get_none (rfi_print_pattern row))
      \<or> rfi_location row \<notin> set (known_locations d data))"
| "step_dangles d data (S_order row) =
     (ro_customer row \<notin> set (known_customers d data)
      \<or> ro_status row \<notin> set (known_statuses d data)
      \<or> list_ex (\<lambda>item. unknown_sku_names d data (ri_size_code item) (ri_fabric_type item)
                             (get_none (ri_print_pattern item))) (ro_items row))"
| "step_dangles d data (S_expense row) =
     (re_expense_type row \<notin> set (known_expense_types d data))"
| "step_dangles d data _ = False"

text \<open>The fixture has a row that looks up a name that is not known.\<close>

definition dangling :: "db \<Rightarrow> fixture \<Rightarrow> bool" where
  "dangling d data = list_ex (step_dangles d data) (steps data)"

text \<open>
  The tables of names a run looks up, and the property that every name stored in them
  is known.
\<close>

definition ref_tables ::
  "db \<Rightarrow> ProductSize list \<times> FabricType list \<times> PrintPattern list \<times> InventoryLocation list
         \<times> Customer list \<times> OrderStatus list \<times> ExpenseType list" where
  "ref_tables a =
     (sizes a, fabrics a, patterns a, locations a, customers a, statuses a, expense_types a)"

definition refs_known :: "db \<Rightarrow> fixture \<Rightarrow> db \<Rightarrow> bool" where
  "refs_known d data a =
     (set (map ps_code (sizes a)) \<subseteq> set (known_sizes d data)
      \<and> set (map ft_name (fabrics a)) \<subseteq> set (known_fabrics d data)
      \<and> set (map pp_name (patterns a)) \<subseteq> set (known_patterns d data)
      \<and> set (map loc_name (locations a)) \<subseteq> set (known_locations d data)
      \<and> set (map cu_full_name (customers a)) \<subseteq> set (known_customers d data)
      \<and> set (map os_code (statuses a)) \<subseteq> set (known_statuses d data)
      \<and> set (map et_name (expense_types a)) \<subseteq> set (known_expense_types d data))"

section \<open>The SKU code derivers\<close>

subsection \<open>Characters\<close>

lemma alnum_not_space: "is_alnum c \<Longrightarrow> \<not> is_space c"
  unfolding is_alnum_def is_space_def is_lower_def is_upper_def is_digit_def Let_def
  by linarith

lemma alnum_ascii: "is_alnum c \<Longrightarrow> is_ascii c"
  unfolding is_alnum_def is_ascii_def is_lower_def is_upper_def is_digit_def Let_def
  by linarith

lemma alnum_not_sep: "is_alnum c \<Longrightarrow> \<not> is_sep c"
  by (auto simp: is_alnum_def is_sep_def is_space_def is_lower_def is_upper_def is_digit_def Let_def)

lemma alnum_not_underscore: "is_alnum c \<Longrightarrow> c \<noteq> CHR ''_''"
  by (auto simp: is_alnum_def is_lower_def is_upper_def is_digit_def Let_def)

lemma space_blank: "is_space CHR '' ''"
  by (simp add: is_space_def)

lemma blank_not_alnum: "\<not> is_alnum CHR '' ''"
  by (simp add: is_alnum_def is_lower_def is_upper_def is_digit_def)

lemma is_sep_hyphen: "is_sep CHR ''-''"
  by (simp add: is_sep_def)

lemma of_char_to_upper:
  assumes "is_lower c"
  shows "(of_char (to_upper c) :: nat) = of_char c - 32"
proof -
  from assms have "(of_char c :: nat) - 32 < 256"
    unfolding is_lower_def Let_def by linarith
  with assms show ?thesis by (simp add: to_upper_def)
qed

lemma of_char_to_lower:
  assumes "is_upper c"
  shows "(of_char (to_lower c) :: nat) = of_char c + 32"
proof -
  from assms have "(of_char c :: nat) + 32 < 256"
    unfolding is_upper_def Let_def by linarith
  with assms show ?thesis by (simp add: to_lower_def)
qed

lemma to_upper_blank_iff: "to_upper c = CHR '' '' \<longleftrightarrow> c = CHR '' ''"
proof (cases "is_lower c")
  case True
  with of_char_to_upper [OF True]
  have "(of_char (to_upper c) :: nat) \<noteq> 32" "(of_char c :: nat) \<noteq> 32"
    by (auto simp: is_lower_def Let_def)
  then show ?thesis by auto
next
  case False
  then show ?thesis by (simp add: to_upper_def)
qed

lemma to_upper_hyphen_iff: "to_upper c = CHR ''-'' \<longleftrightarrow> c = CHR ''-''"
proof (cases "is_lower c")
  case True
  with of_char_to_upper [OF True]
  have "(of_char (to_upper c) :: nat) \<noteq> 45" "(of_char c :: nat) \<noteq> 45"
    by (auto simp: is_lower_def Let_def)
  then show ?thesis by auto
next
  case False
  then show ?thesis by (simp add: to_upper_def)
qed

lemma to_lower_blank_iff: "to_lower c = CHR '' '' \<longleftrightarrow> c = CHR '' ''"
proof (cases "is_upper c")
  case True
  with of_char_to_lower [OF True]
  have "(of_char (to_lower c) :: nat) \<noteq> 32" "(of_char c :: nat) \<noteq> 32"
    by (auto simp: is_upper_def Let_def)
  then show ?thesis by auto
next
  case False
  then show ?thesis by (simp add: to_lower_def)
qed

lemma lower_to_lower: "is_upper c \<Longrightarrow> is_lower (to_lower c)"
  using of_char_to_lower [of c] by (simp add: is_lower_def is_upper_def Let_def)

lemma to_upper_to_lower: "to_upper (to_lower c) = to_upper c"
proof (cases "is_upper c")
  case True
  have "\<not> is_lower c"
    using True by (auto simp: is_lower_def is_upper_def Let_def)
  then have "to_upper c = c" by (simp add: to_upper_def)
  moreover have "to_upper (to_lower c) = char_of ((of_char c :: nat) + 32 - 32)"
    using lower_to_lower [OF True] of_char_to_lower [OF True] by (simp add: to_upper_def)
  ultimately show ?thesis by simp
next
  case False
  then show ?thesis by (simp add: to_lower_def)
qed

lemma alnum_to_lower: "is_alnum (to_lower c) \<longleftrightarrow> is_alnum c"
proof (cases "is_upper c")
  case True
  with lower_to_lower [OF True] show ?thesis by (simp add: is_alnum_def)
next
  case False
  then show ?thesis by (simp add: to_lower_def)
qed

subsection \<open>Filtering a stripped or collapsed string\<close>

lemma filter_dropWhile_irrelevant:
  "\<forall>x \<in> set xs. q x \<longrightarrow> \<not> p x \<Longrightarrow> filter p (dropWhile q xs) = filter p xs"
  by (induction xs) simp_all

lemma filter_strip_chars:
  assumes "\<forall>x \<in> set xs. q x \<longrightarrow> \<not> p x"
  shows "filter p (strip_chars q xs) = filter p xs"
proof -
  have a: "filter p (dropWhile q xs) = filter p xs"
    using assms by (rule filter_dropWhile_irrelevant)
  have "\<forall>x \<in> set (rev (dropWhile q xs)). q x \<longrightarrow> \<not> p x"
    using assms set_dropWhileD [of _ q xs] by auto
  then have "filter p (dropWhile q (rev (dropWhile q xs))) = filter p (rev (dropWhile q xs))"
    by (rule filter_dropWhile_irrelevant)
  then have "filter p (strip_chars q xs) = filter p (dropWhile q xs)"
    by (simp add: strip_chars_def rev_filter [symmetric])
  with a show ?thesis by simp
qed

lemma filter_collapse_seps:
  "filter (\<lambda>c. c \<noteq> CHR ''-'') (collapse_seps t) = filter (\<lambda>c. \<not> is_sep c) t"
proof (induction t rule: collapse_seps.induct)
  case 1
  show ?case by simp
next
  case (2 c cs)
  show ?case
  proof (cases "is_sep c")
    case True
    then show ?thesis using 2 by (cases cs) simp_all
  next
    case False
    then have "c \<noteq> CHR ''-''" using is_sep_hyphen by auto
    with False 2 show ?thesis by simp
  qed
qed

lemma set_collapse_seps: "set (collapse_seps t) \<subseteq> insert CHR ''-'' (set t)"
proof (induction t rule: collapse_seps.induct)
  case 1
  show ?case by simp
next
  case (2 c cs)
  show ?case
  proof (cases "is_sep c")
    case True
    then show ?thesis using 2 by (cases cs) auto
  next
    case False
    with 2 show ?thesis by auto
  qed
qed

subsection \<open>Both derivers on plain names\<close>

lemma seed_normalize_plain:
  assumes "plain_name s"
  shows "remove_char CHR '' '' (upper (strip s)) = spec_normalize s"
proof -
  have sp: "\<forall>x \<in> set s. is_space x \<longrightarrow> \<not> x \<noteq> CHR '' ''"
    using assms alnum_not_space by (auto simp: plain_name_def)
  have "remove_char CHR '' '' (upper (strip s)) = upper (filter (\<lambda>d. d \<noteq> CHR '' '') (strip s))"
    by (simp add: remove_char_def upper_def filter_map comp_def to_upper_blank_iff)
  also have "filter (\<lambda>d. d \<noteq> CHR '' '') (strip s) = filter (\<lambda>d. d \<noteq> CHR '' '') s"
    unfolding strip_def using sp by (rule filter_strip_chars)
  also have "filter (\<lambda>d. d \<noteq> CHR '' '') s = filter is_alnum s"
  proof (rule filter_cong [OF refl])
    fix x assume "x \<in> set s"
    with assms have "is_alnum x \<or> x = CHR '' ''" by (simp add: plain_name_def)
    then show "(x \<noteq> CHR '' '') = is_alnum x" using blank_not_alnum by auto
  qed
  finally show ?thesis by (simp add: spec_normalize_def)
qed

lemma models_normalize_plain:
  assumes "plain_name s"
  shows "remove_char CHR ''-'' (upper (slugify s)) = spec_normalize s"
proof -
  define t where "t = lower s"
  have t_plain: "\<forall>c \<in> set t. is_alnum c \<or> c = CHR '' ''"
    using assms by (simp add: t_def lower_def plain_name_def alnum_to_lower to_lower_blank_iff)
  have "\<forall>c \<in> set s. is_ascii c"
  proof
    fix c assume "c \<in> set s"
    with assms have "is_alnum c \<or> c = CHR '' ''" by (simp add: plain_name_def)
    then show "is_ascii c" using alnum_ascii by (auto simp: is_ascii_def)
  qed
  then have ascii: "filter is_ascii s = s"
    by (simp add: filter_id_conv)
  have "\<forall>c \<in> set t. is_alnum c \<or> c = CHR ''_'' \<or> is_space c \<or> c = CHR ''-''"
    using t_plain space_blank by blast
  then have keep: "filter (\<lambda>c. is_alnum c \<or> c = CHR ''_'' \<or> is_space c \<or> c = CHR ''-'') t = t"
    by (simp add: filter_id_conv)
  have slug: "slugify s = strip_chars (\<lambda>c. c = CHR ''-'' \<or> c = CHR ''_'') (collapse_seps t)"
    by (simp add: slugify_def ascii keep t_def [symmetric])
  have no_us: "\<forall>x \<in> set (collapse_seps t). (x = CHR ''-'' \<or> x = CHR ''_'') \<longrightarrow> \<not> x \<noteq> CHR ''-''"
  proof
    fix x assume "x \<in> set (collapse_seps t)"
    with set_collapse_seps [of t] have "x = CHR ''-'' \<or> x \<in> set t" by blast
    with t_plain have "x = CHR ''-'' \<or> is_alnum x \<or> x = CHR '' ''" by blast
    then have "x \<noteq> CHR ''_''" using alnum_not_underscore by auto
    then show "(x = CHR ''-'' \<or> x = CHR ''_'') \<longrightarrow> \<not> x \<noteq> CHR ''-''" by simp
  qed
  have "remove_char CHR ''-'' (upper (slugify s)) = upper (filter (\<lambda>d. d \<noteq> CHR ''-'') (slugify s))"
    by (simp add: remove_char_def upper_def filter_map comp_def to_upper_hyphen_iff)
  also have "filter (\<lambda>d. d \<noteq> CHR ''-'') (slugify s) = filter (\<lambda>d. d \<noteq> CHR ''-'') (collapse_seps t)"
    unfolding slug using no_us by (rule filter_strip_chars)
  also have "\<dots> = filter (\<lambda>c. \<not> is_sep c) t"
    by (rule filter_collapse_seps)
  also have "\<dots> = filter is_alnum t"
  proof (rule filter_cong [OF refl])
    fix x assume "x \<in> set t"
    with t_plain have "is_alnum x \<or> x = CHR '' ''" by simp
    then show "(\<not> is_sep x) = is_alnum x"
      using alnum_not_sep blank_not_alnum space_blank by (auto simp: is_sep_def)
  qed
  also have "upper (filter is_alnum t) = upper (filter is_alnum s)"
    by (simp add: t_def lower_def upper_def filter_map comp_def alnum_to_lower to_upper_to_lower)
  finally show ?thesis by (simp add: spec_normalize_def)
qed

text \<open>
  Where the two derivers agree. On ASCII size codes and on names made of ASCII letters,
  digits and blanks, both return \<open>BAG-<SIZE>-<FABRIC>-<PRINT>\<close> with \<open><SIZE>\<close> the
  size code in upper case, \<open><FABRIC>\<close> the first 10 characters of the fabric name
  reduced to its alphanumeric characters in upper case, and \<open><PRINT>\<close> either
  \<open>PLAIN\<close> (no pattern) or the first 12 characters of the pattern name reduced the same
  way.
\<close>

lemma derivers_agree_on_plain_names:
  assumes "\<forall>c \<in> set (ps_code sz). is_ascii c"
    and "plain_name (ft_name fabric)"
    and "\<forall>p. pattern = Some p \<longrightarrow> plain_name (pp_name p)"
  shows "build_sku_code sz fabric pattern =
           spec_sku_code (ps_code sz) (ft_name fabric) (map_option pp_name pattern)
         \<and> models_build_sku_code sz fabric pattern =
           spec_sku_code (ps_code sz) (ft_name fabric) (map_option pp_name pattern)"
proof (cases pattern)
  case None
  then show ?thesis
    using assms(2)
    by (simp add: build_sku_code_def models_build_sku_code_def spec_sku_code_def
        seed_normalize_plain models_normalize_plain)
next
  case (Some p)
  with assms(3) have "plain_name (pp_name p)" by simp
  with Some assms(2) show ?thesis
    by (simp add: build_sku_code_def models_build_sku_code_def spec_sku_code_def
        seed_normalize_plain models_normalize_plain)
qed

lemma derivers_agree_example:
  "build_sku_code \<lparr>ps_id = 1, ps_code = ''lrg'', ps_display_name = ''Large''\<rparr>
     \<lparr>ft_id = 1, ft_name = '' Cotton Blend 2 '', ft_is_active = True\<rparr>
     (Some \<lparr>pp_id = 1, pp_name = ''Blue  Flowers 02'', pp_is_active = True\<rparr>)
   = ''BAG-LRG-COTTONBLEN-BLUEFLOWERS0''
   \<and> models_build_sku_code \<lparr>ps_id = 1, ps_code = ''lrg'', ps_display_name = ''Large''\<rparr>
     \<lparr>ft_id = 1, ft_name = '' Cotton Blend 2 '', ft_is_active = True\<rparr>
     (Some \<lparr>pp_id = 1, pp_name = ''Blue  Flowers 02'', pp_is_active = True\<rparr>)
   = ''BAG-LRG-COTTONBLEN-BLUEFLOWERS0''"
  by code_simp

text \<open>
  C4. The claim fails on the deriver of the seeding command, and holds at the same input
  on the deriver of ops/models.py, for which the comment above the seeding deriver
  presents it as a stand-in. A hyphen is not alphanumeric; the seeding deriver removes
  blanks only and keeps it, so for the size \<open>STD\<close>, the fabric \<open>Poly-Cotton\<close> and no
  pattern it returns \<open>BAG-STD-POLY-COTTO-PLAIN\<close>, where the deriver of ops/models.py
  returns \<open>BAG-STD-POLYCOTTON-PLAIN\<close>, the code the claim describes.
\<close>

theorem build_sku_code_keeps_hyphen:
  "build_sku_code \<lparr>ps_id = 1, ps_code = ''STD'', ps_display_name = ''Standard''\<rparr>
     \<lparr>ft_id = 1, ft_name = ''Poly-Cotton'', ft_is_active = True\<rparr> None
   = ''BAG-STD-POLY-COTTO-PLAIN''
   \<and> models_build_sku_code \<lparr>ps_id = 1, ps_code = ''STD'', ps_display_name = ''Standard''\<rparr>
     \<lparr>ft_id = 1, ft_name = ''Poly-Cotton'', ft_is_active = True\<rparr> None
   = ''BAG-STD-POLYCOTTON-PLAIN''
   \<and> spec_sku_code ''STD'' ''Poly-Cotton'' None = ''BAG-STD-POLYCOTTON-PLAIN''"
  by code_simp

text \<open>
  The deriver of ops/models.py drops the hyphen but keeps an underscore inside a name,
  which is not alphanumeric either.
\<close>

lemma models_build_sku_code_keeps_underscore:
  "models_build_sku_code \<lparr>ps_id = 1, ps_code = ''STD'', ps_display_name = ''Standard''\<rparr>
     \<lparr>ft_id = 1, ft_name = ''Poly-Cotton_2'', ft_is_active = True\<rparr> None
   = ''BAG-STD-POLYCOTTON-PLAIN''
   \<and> models_build_sku_code \<lparr>ps_id = 1, ps_code = ''STD'', ps_display_name = ''Standard''\<rparr>
     \<lparr>ft_id = 1, ft_name = ''Poly_Cotton'', ft_is_active = True\<rparr> None
   = ''BAG-STD-POLY_COTTO-PLAIN''"
  by code_simp

text \<open>
  C5. For the size code \<open>STD\<close>, the fabric name \<open>Cotton Blend\<close> and no pattern, both
  derivers return \<open>BAG-STD-COTTONBLEN-PLAIN\<close>, whatever the other columns hold.
\<close>

theorem build_sku_code_cotton_blend:
  "build_sku_code \<lparr>ps_id = i, ps_code = ''STD'', ps_display_name = d\<rparr>
     \<lparr>ft_id = j, ft_name = ''Cotton Blend'', ft_is_active = a\<rparr> None
   = ''BAG-STD-COTTONBLEN-PLAIN''
   \<and> models_build_sku_code \<lparr>ps_id = i, ps_code = ''STD'', ps_display_name = d\<rparr>
     \<lparr>ft_id = j, ft_name = ''Cotton Blend'', ft_is_active = a\<rparr> None
   = ''BAG-STD-COTTONBLEN-PLAIN''"
  by code_simp

section \<open>Basic facts\<close>

lemma and_then_Inl [simp]: "and_then (Inl e) f = Inl e"
  by (simp add: and_then_def)

lemma and_then_Inr [simp]: "and_then (Inr x) f = f x"
  by (simp add: and_then_def)

lemma and_then_eq_Inr: "and_then m f = Inr y \<longleftrightarrow> (\<exists>x. m = Inr x \<and> f x = Inr y)"
  by (cases m) simp_all

lemma and_then_eq_Inl: "and_then m f = Inl e \<longleftrightarrow> m = Inl e \<or> (\<exists>x. m = Inr x \<and> f x = Inl e)"
  by (cases m) simp_all

text \<open>A property kept by every successful step holds when the loop ends.\<close>

lemma for_each_invariant:
  assumes "for_each f s xs = Inr s'" and "P s"
    and "\<And>a x b. P a \<Longrightarrow> x \<in> set xs \<Longrightarrow> f a x = Inr b \<Longrightarrow> P b"
  shows "P s'"
  using assms
proof (induction xs arbitrary: s)
  case Nil
  then show ?case by simp
next
  case (Cons x xs)
  from Cons.prems(1) obtain s1 where s1: "f s x = Inr s1" "for_each f s1 xs = Inr s'"
    by (auto split: sum.splits)
  have p1: "P s1" using Cons.prems(3) [OF Cons.prems(2) _ s1(1)] by simp
  show ?case
  proof (rule Cons.IH [OF s1(2) p1])
    fix a y b assume "P a" "y \<in> set xs" "f a y = Inr b"
    then show "P b" using Cons.prems(3) [of a y b] by simp
  qed
qed

text \<open>A step that fails in every state satisfying a kept property makes the loop fail.\<close>

lemma for_each_fails:
  assumes "x \<in> set xs" and "P s"
    and "\<And>a y b. P a \<Longrightarrow> y \<in> set xs \<Longrightarrow> f a y = Inr b \<Longrightarrow> P b"
    and "\<And>a. P a \<Longrightarrow> \<exists>e. f a x = Inl e"
  shows "\<exists>e. for_each f s xs = Inl e"
  using assms(1,2,3)
proof (induction xs arbitrary: s)
  case Nil
  then show ?case by simp
next
  case (Cons y ys)
  show ?case
  proof (cases "f s y")
    case (Inl e)
    then show ?thesis by simp
  next
    case (Inr s1)
    have p1: "P s1" using Cons.prems(3) [OF Cons.prems(2) _ Inr] by simp
    have "x \<noteq> y"
    proof
      assume "x = y"
      with assms(4) [OF Cons.prems(2)] Inr show False by simp
    qed
    with Cons.prems(1) have x: "x \<in> set ys" by simp
    have "\<exists>e. for_each f s1 ys = Inl e"
    proof (rule Cons.IH [OF x p1])
      fix a z b assume "P a" "z \<in> set ys" "f a z = Inr b"
      then show "P b" using Cons.prems(3) [of a z b] by simp
    qed
    with Inr show ?thesis by simp
  qed
qed

text \<open>A loop over two lists in a row, and over the image of a list.\<close>

lemma for_each_append:
  "for_each f s (xs @ ys) = and_then (for_each f s xs) (\<lambda>s'. for_each f s' ys)"
  by (induction xs arbitrary: s) (simp_all split: sum.splits)

lemma for_each_map: "for_each f s (map g xs) = for_each (\<lambda>a x. f a (g x)) s xs"
  by (induction xs arbitrary: s) (simp_all split: sum.splits)

section \<open>Amounts and their columns\<close>

lemma round_half_even_of_int [simp]: "round_half_even (of_int n) = n"
  by (simp add: round_half_even_def Let_def)

lemma quantize_idem [simp]: "quantize p (quantize p x) = quantize p x"
  by (simp add: quantize_def)

lemma to_decimal_field_Inr:
  "to_decimal_field m p x = Inr v \<Longrightarrow> v = quantize p x"
  by (simp add: to_decimal_field_def split: if_splits)

lemma to_decimal_field_quantize [simp]:
  "to_decimal_field m p (quantize p x) = to_decimal_field m p x"
  by (simp add: to_decimal_field_def quantize_def)

lemma to_decimal_field_zero [simp]: "to_decimal_field m p 0 = Inr 0"
  by (simp add: to_decimal_field_def quantize_def round_half_even_def)

lemma is_cents_quantize: "is_cents x \<Longrightarrow> quantize 2 x = x"
proof -
  assume "is_cents x"
  then obtain n :: int where n: "x * 100 = of_int n"
    by (auto simp: is_cents_def Ints_def)
  then have "quantize 2 x = of_int n / 100" by (simp add: quantize_def)
  also have "\<dots> = x" using n by simp
  finally show ?thesis .
qed

lemma quantize_is_cents [simp]: "is_cents (quantize 2 x)"
  by (simp add: is_cents_def quantize_def)


lemma to_decimal_field_is_cents: "to_decimal_field m 2 x = Inr v \<Longrightarrow> is_cents v"
  using to_decimal_field_Inr [of m 2 x v] by simp

lemma is_cents_zero [simp]: "is_cents 0"
  by (simp add: is_cents_def)

lemma is_cents_add: "is_cents x \<Longrightarrow> is_cents y \<Longrightarrow> is_cents (x + y)"
  by (simp add: is_cents_def distrib_right)

lemma is_cents_diff: "is_cents x \<Longrightarrow> is_cents y \<Longrightarrow> is_cents (x - y)"
  by (simp add: is_cents_def left_diff_distrib)

lemma is_cents_times_int: "is_cents x \<Longrightarrow> is_cents (x * of_int n)"
proof -
  assume "is_cents x"
  then have "x * 100 \<in> \<int>" by (simp add: is_cents_def)
  then have m: "x * 100 * of_int n \<in> \<int>" by (rule Ints_mult) (rule Ints_of_int)
  have e: "x * of_int n * 100 = x * 100 * of_int n" by (simp only: ac_simps)
  show ?thesis unfolding is_cents_def e by (rule m)
qed

lemma to_integer_field_Inr: "to_integer_field n = Inr m \<Longrightarrow> m = n"
  by (simp add: to_integer_field_def split: if_splits)



lemma objects_get_Inr: "objects_get p rows = Inr r \<longleftrightarrow> filter p rows = [r]"
  by (auto simp: objects_get_def split: list.splits)

lemma objects_get_none: "filter p rows = [] \<Longrightarrow> objects_get p rows = Inl DoesNotExist"
  by (simp add: objects_get_def)

lemma build_sku_code_nonempty: "build_sku_code sz fabric pattern \<noteq> []"
  by (simp add: build_sku_code_def Let_def)

lemma fill_code_nonempty: "sku_code self \<noteq> [] \<Longrightarrow> ProductSKU_fill_code d self = Inr self"
  by (simp add: ProductSKU_fill_code_def)

lemma write_code_only: "write_sku_fields [F_sku_code] obj r = r\<lparr>sku_code := sku_code obj\<rparr>"
  by (simp add: write_sku_fields_def)


section \<open>The SKU resolver\<close>

text \<open>The three ways \<open>get_sku\<close> succeeds: a SKU is created, found, or found and backfilled.\<close>

lemma get_sku_cases:
  assumes "get_sku d sc fn pn = Inr (sku, d1)"
  obtains sz fabric pattern where
    "get_size d sc = Inr sz" "get_fabric d fn = Inr fabric" "get_print d pn = Inr pattern"
    "(filter (sku_lookup sz fabric pattern) (skus d) = []
        \<and> sku = \<lparr>sku_id = fresh_pk (map sku_id (skus d)),
                  sku_code = build_sku_code sz fabric pattern,
                  sku_size = ps_id sz, sku_fabric_type = ft_id fabric,
                  sku_print_pattern = map_option pp_id pattern,
                  sku_unit_price = 0, sku_is_active = True\<rparr>
        \<and> (\<forall>r \<in> set (skus d). sku_code r \<noteq> sku_code sku)
        \<and> d1 = d\<lparr>skus := skus d @ [sku]\<rparr>)
     \<or> (filter (sku_lookup sz fabric pattern) (skus d) = [sku] \<and> sku_code sku \<noteq> [] \<and> d1 = d)
     \<or> (\<exists>r. filter (sku_lookup sz fabric pattern) (skus d) = [r] \<and> sku_code r = []
            \<and> sku = r\<lparr>sku_code := build_sku_code sz fabric pattern\<rparr>
            \<and> (\<forall>x \<in> set (skus d). sku_id x \<noteq> sku_id r \<longrightarrow> sku_code x \<noteq> sku_code sku)
            \<and> d1 = d\<lparr>skus := map (\<lambda>x. if sku_id x = sku_id r
                                          then x\<lparr>sku_code := sku_code sku\<rparr> else x) (skus d)\<rparr>)"
proof -
  from assms obtain sz fabric pattern sku0 d0 where
    l: "get_size d sc = Inr sz" "get_fabric d fn = Inr fabric" "get_print d pn = Inr pattern"
    and g: "(case filter (sku_lookup sz fabric pattern) (skus d) of
          [] \<Rightarrow> ProductSKU_insert d
                 \<lparr>sku_id = fresh_pk (map sku_id (skus d)),
                  sku_code = build_sku_code sz fabric pattern,
                  sku_size = ps_id sz,
                  sku_fabric_type = ft_id fabric,
                  sku_print_pattern = map_option pp_id pattern,
                  sku_unit_price = 0,
                  sku_is_active = True\<rparr>
        | [r] \<Rightarrow> Inr (r, d)
        | _ # _ # _ \<Rightarrow> Inl MultipleObjectsReturned) = Inr (sku0, d0)"
    and b: "(if sku_code sku0 = [] then
       ProductSKU_update d0 (sku0\<lparr>sku_code := build_sku_code sz fabric pattern\<rparr>) [F_sku_code]
     else Inr (sku0, d0)) = Inr (sku, d1)"
    unfolding get_sku_def and_then_eq_Inr by (auto split: prod.splits)
  show thesis
  proof (cases "filter (sku_lookup sz fabric pattern) (skus d)")
    case Nil
    with g have ins: "ProductSKU_insert d
                 \<lparr>sku_id = fresh_pk (map sku_id (skus d)),
                  sku_code = build_sku_code sz fabric pattern,
                  sku_size = ps_id sz,
                  sku_fabric_type = ft_id fabric,
                  sku_print_pattern = map_option pp_id pattern,
                  sku_unit_price = 0,
                  sku_is_active = True\<rparr> = Inr (sku0, d0)" by simp
    then have s0: "sku0 = \<lparr>sku_id = fresh_pk (map sku_id (skus d)),
                  sku_code = build_sku_code sz fabric pattern,
                  sku_size = ps_id sz,
                  sku_fabric_type = ft_id fabric,
                  sku_print_pattern = map_option pp_id pattern,
                  sku_unit_price = 0,
                  sku_is_active = True\<rparr>"
      and u: "\<forall>r \<in> set (skus d). sku_code r \<noteq> sku_code sku0"
      and d0: "d0 = d\<lparr>skus := skus d @ [sku0]\<rparr>"
      by (auto simp: ProductSKU_insert_def fill_code_nonempty build_sku_code_nonempty split: if_splits)
    from s0 have "sku_code sku0 \<noteq> []" by (simp add: build_sku_code_nonempty)
    with b have "sku = sku0" "d1 = d0" by auto
    with Nil s0 u d0 l show ?thesis by (intro that [of sz fabric pattern]) auto
  next
    case (Cons r rs)
    with g have rs: "rs = []" and r: "sku0 = r" "d0 = d"
      by (auto split: list.splits)
    show ?thesis
    proof (cases "sku_code r = []")
      case False
      with b r have "sku = r" "d1 = d" by auto
      with Cons rs False l show ?thesis by (intro that [of sz fabric pattern]) auto
    next
      case True
      with b r have upd: "ProductSKU_update d (r\<lparr>sku_code := build_sku_code sz fabric pattern\<rparr>) [F_sku_code] = Inr (sku, d1)"
        by simp
      then have "sku = r\<lparr>sku_code := build_sku_code sz fabric pattern\<rparr>"
        and "\<forall>x \<in> set (skus d). sku_id x \<noteq> sku_id r \<longrightarrow> sku_code x \<noteq> sku_code sku"
        and "d1 = d\<lparr>skus := map (\<lambda>x. if sku_id x = sku_id r
                                          then x\<lparr>sku_code := sku_code sku\<rparr> else x) (skus d)\<rparr>"
        by (auto simp: ProductSKU_update_def fill_code_nonempty build_sku_code_nonempty
            write_code_only split: if_splits)
      with Cons rs True l show ?thesis by (intro that [of sz fabric pattern]) auto
    qed
  qed
qed


lemma get_sku_code_nonempty:
  assumes "get_sku d sc fn pn = Inr (sku, d1)"
  shows "sku_code sku \<noteq> []"
  using assms by (rule get_sku_cases) (auto simp: build_sku_code_nonempty)

lemma get_sku_stored:
  assumes "get_sku d sc fn pn = Inr (sku, d1)"
  shows "sku \<in> set (skus d1)"
proof -
  from assms show ?thesis
  proof (rule get_sku_cases)
    fix sz fabric pattern
    assume c: "(filter (sku_lookup sz fabric pattern) (skus d) = []
        \<and> sku = \<lparr>sku_id = fresh_pk (map sku_id (skus d)),
                  sku_code = build_sku_code sz fabric pattern,
                  sku_size = ps_id sz, sku_fabric_type = ft_id fabric,
                  sku_print_pattern = map_option pp_id pattern,
                  sku_unit_price = 0, sku_is_active = True\<rparr>
        \<and> (\<forall>r \<in> set (skus d). sku_code r \<noteq> sku_code sku)
        \<and> d1 = d\<lparr>skus := skus d @ [sku]\<rparr>)
     \<or> (filter (sku_lookup sz fabric pattern) (skus d) = [sku] \<and> sku_code sku \<noteq> [] \<and> d1 = d)
     \<or> (\<exists>r. filter (sku_lookup sz fabric pattern) (skus d) = [r] \<and> sku_code r = []
            \<and> sku = r\<lparr>sku_code := build_sku_code sz fabric pattern\<rparr>
            \<and> (\<forall>x \<in> set (skus d). sku_id x \<noteq> sku_id r \<longrightarrow> sku_code x \<noteq> sku_code sku)
            \<and> d1 = d\<lparr>skus := map (\<lambda>x. if sku_id x = sku_id r
                                          then x\<lparr>sku_code := sku_code sku\<rparr> else x) (skus d)\<rparr>)"
    then consider
      (created) "d1 = d\<lparr>skus := skus d @ [sku]\<rparr>"
      | (found) "filter (sku_lookup sz fabric pattern) (skus d) = [sku]" "d1 = d"
      | (backfilled) r where "filter (sku_lookup sz fabric pattern) (skus d) = [r]"
          "sku = r\<lparr>sku_code := build_sku_code sz fabric pattern\<rparr>"
          "d1 = d\<lparr>skus := map (\<lambda>x. if sku_id x = sku_id r
                                          then x\<lparr>sku_code := sku_code sku\<rparr> else x) (skus d)\<rparr>"
      by blast
    then show ?thesis
    proof cases
      case created
      then show ?thesis by simp
    next
      case found
      have "sku \<in> set (filter (sku_lookup sz fabric pattern) (skus d))"
        using found(1) by simp
      then show ?thesis using found(2) by simp
    next
      case backfilled
      have "r \<in> set (filter (sku_lookup sz fabric pattern) (skus d))"
        using backfilled(1) by simp
      then have "r \<in> set (skus d)" by simp
      then have "(if sku_id r = sku_id r then r\<lparr>sku_code := sku_code sku\<rparr> else r)
                   \<in> set (map (\<lambda>x. if sku_id x = sku_id r
                                     then x\<lparr>sku_code := sku_code sku\<rparr> else x) (skus d))"
        by (rule imageI [of r "set (skus d)", folded set_map])
      then show ?thesis using backfilled(2,3) by simp
    qed
  qed
qed

section \<open>The object manager\<close>

lemma update_or_create_cases:
  assumes "update_or_create key p create upd rows = Inr (obj, rows')"
  shows "(filter p rows = [] \<and> create (fresh_pk (map key rows)) = Inr obj \<and> rows' = rows @ [obj])
       \<or> (\<exists>r. filter p rows = [r] \<and> upd r = Inr obj
              \<and> rows' = map (\<lambda>x. if key x = key obj then obj else x) rows)"
proof (cases "filter p rows")
  case Nil
  with assms show ?thesis by (simp add: update_or_create_def and_then_eq_Inr)
next
  case (Cons r rs)
  with assms have "rs = []" by (cases rs) (simp_all add: update_or_create_def)
  with Cons assms show ?thesis by (simp add: update_or_create_def and_then_eq_Inr)
qed

lemma get_or_create_cases:
  assumes "get_or_create key p create rows = Inr (obj, rows')"
  shows "(filter p rows = [] \<and> create (fresh_pk (map key rows)) = Inr obj \<and> rows' = rows @ [obj])
       \<or> (filter p rows = [obj] \<and> rows' = rows)"
proof (cases "filter p rows")
  case Nil
  with assms show ?thesis by (simp add: get_or_create_def and_then_eq_Inr)
next
  case (Cons r rs)
  with assms have "rs = []" by (cases rs) (simp_all add: get_or_create_def)
  with Cons assms show ?thesis by (simp add: get_or_create_def)
qed

lemma set_replace_subset:
  "obj \<in> set rows \<Longrightarrow> set (map (\<lambda>x. if key x = key obj then obj else x) rows) \<subseteq> set rows"
  by auto

lemma filter_singleton_mem: "filter p rows = [r] \<Longrightarrow> r \<in> set rows"
proof -
  assume "filter p rows = [r]"
  then have "r \<in> set (filter p rows)" by simp
  then show ?thesis by simp
qed

section \<open>Fabric materials\<close>

lemma get_print_unknown:
  "filter (\<lambda>r. pp_name r = n) (patterns d) = [] \<Longrightarrow> get_print d (Some n) = Inl DoesNotExist"
  by (simp add: get_print_def objects_get_none)

lemma get_print_named: "get_print d (Some n) = Inr pattern \<Longrightarrow> pattern \<noteq> None"
  by (auto simp: get_print_def and_then_eq_Inr)

text \<open>
  The material a row creates: raw without a pattern, and printed with a pattern when
  the row names one.
\<close>

lemma new_material_ok:
  assumes "get_print a name = Inr pattern"
    and "m = \<lparr>fm_id = k, fm_fabric_type = f, fm_uom = uom, fm_is_printed = flag,
               fm_print_pattern = map_option pp_id (if flag then pattern else None)\<rparr>"
  shows "material_ok m \<and> ((flag \<longrightarrow> name \<noteq> None) \<longrightarrow> material_consistent m)"
proof (cases flag)
  case False
  with assms(2) show ?thesis by (simp add: material_ok_def material_consistent_def)
next
  case True
  have "name \<noteq> None \<longrightarrow> pattern \<noteq> None"
    using assms(1) get_print_named [of a _ pattern] by (cases name) auto
  with True assms(2) show ?thesis by (auto simp: material_ok_def material_consistent_def)
qed

lemma seed_material_result:
  assumes "seed_material a row = Inr b"
  shows "b = a\<lparr>materials := materials b\<rparr>
       \<and> (\<forall>m \<in> set (materials b). m \<in> set (materials a)
             \<or> (material_ok m
                 \<and> ((py_bool (get_or (rm_is_printed row) False)
                       \<longrightarrow> get_none (rm_print_pattern row) \<noteq> None)
                      \<longrightarrow> material_consistent m)))"
proof -
  let ?flag = "py_bool (get_or (rm_is_printed row) False)"
  from assms obtain fabric pattern uom obj t where
    gp: "get_print a (get_none (rm_print_pattern row)) = Inr pattern"
    and u: "update_or_create fm_id
          (material_lookup fabric uom ?flag (if ?flag then pattern else None))
          (\<lambda>k. Inr \<lparr>fm_id = k, fm_fabric_type = ft_id fabric, fm_uom = uom,
                     fm_is_printed = ?flag,
                     fm_print_pattern = map_option pp_id (if ?flag then pattern else None)\<rparr>)
          (\<lambda>r. Inr r) (materials a) = Inr (obj, t)"
    and b: "b = a\<lparr>materials := t\<rparr>"
    unfolding seed_material_def Let_def and_then_eq_Inr by (auto split: prod.splits)
  from update_or_create_cases [OF u]
  have "\<forall>m \<in> set t. m \<in> set (materials a)
          \<or> (material_ok m
              \<and> ((?flag \<longrightarrow> get_none (rm_print_pattern row) \<noteq> None) \<longrightarrow> material_consistent m))"
  proof (elim disjE conjE exE)
    assume "Inr \<lparr>fm_id = fresh_pk (map fm_id (materials a)), fm_fabric_type = ft_id fabric,
                 fm_uom = uom, fm_is_printed = ?flag,
                 fm_print_pattern = map_option pp_id (if ?flag then pattern else None)\<rparr>
            = (Inr obj :: error + FabricMaterial)"
      and t: "t = materials a @ [obj]"
    then have "obj = \<lparr>fm_id = fresh_pk (map fm_id (materials a)), fm_fabric_type = ft_id fabric,
                 fm_uom = uom, fm_is_printed = ?flag,
                 fm_print_pattern = map_option pp_id (if ?flag then pattern else None)\<rparr>"
      by simp
    from new_material_ok [OF gp this] t show ?thesis by auto
  next
    fix r
    assume f: "filter (material_lookup fabric uom ?flag (if ?flag then pattern else None))
                 (materials a) = [r]"
      and "Inr r = (Inr obj :: error + FabricMaterial)"
      and t: "t = map (\<lambda>x. if fm_id x = fm_id obj then obj else x) (materials a)"
    then have "obj \<in> set (materials a)" using filter_singleton_mem [OF f] by simp
    from set_replace_subset [OF this, of fm_id] t show ?thesis by auto
  qed
  with b show ?thesis by simp
qed

lemma seed_fabric_stock_result:
  assumes "seed_fabric_stock a row = Inr b"
  shows "b = a\<lparr>materials := materials b, fabric_stock := fabric_stock b\<rparr>
       \<and> (\<forall>m \<in> set (materials b). m \<in> set (materials a)
             \<or> (material_ok m
                 \<and> ((py_bool (get_or (rfi_is_printed row) False)
                       \<longrightarrow> get_none (rfi_print_pattern row) \<noteq> None)
                      \<longrightarrow> material_consistent m)))"
proof -
  let ?flag = "py_bool (get_or (rfi_is_printed row) False)"
  from assms obtain fabric pattern uom mat t t' where
    gp: "get_print a (get_none (rfi_print_pattern row)) = Inr pattern"
    and g: "get_or_create fm_id
          (material_lookup fabric uom ?flag (if ?flag then pattern else None))
          (\<lambda>k. Inr \<lparr>fm_id = k, fm_fabric_type = ft_id fabric, fm_uom = uom,
                     fm_is_printed = ?flag,
                     fm_print_pattern = map_option pp_id (if ?flag then pattern else None)\<rparr>)
          (materials a) = Inr (mat, t)"
    and b: "b = a\<lparr>materials := t, fabric_stock := t'\<rparr>"
    by (auto simp: seed_fabric_stock_def Let_def and_then_eq_Inr split: prod.splits)
  from get_or_create_cases [OF g]
  have "\<forall>m \<in> set t. m \<in> set (materials a)
          \<or> (material_ok m
              \<and> ((?flag \<longrightarrow> get_none (rfi_print_pattern row) \<noteq> None) \<longrightarrow> material_consistent m))"
  proof (elim disjE conjE)
    assume "Inr \<lparr>fm_id = fresh_pk (map fm_id (materials a)), fm_fabric_type = ft_id fabric,
                 fm_uom = uom, fm_is_printed = ?flag,
                 fm_print_pattern = map_option pp_id (if ?flag then pattern else None)\<rparr>
            = (Inr mat :: error + FabricMaterial)"
      and t: "t = materials a @ [mat]"
    then have "mat = \<lparr>fm_id = fresh_pk (map fm_id (materials a)), fm_fabric_type = ft_id fabric,
                 fm_uom = uom, fm_is_printed = ?flag,
                 fm_print_pattern = map_option pp_id (if ?flag then pattern else None)\<rparr>"
      by simp
    from new_material_ok [OF gp this] t show ?thesis by auto
  next
    assume "t = materials a"
    then show ?thesis by simp
  qed
  with b show ?thesis by simp
qed

lemma seed_fabrics_materials:
  assumes "seed_fabrics d data = Inr d'"
  shows "\<forall>m \<in> set (materials d'). m \<in> set (materials d)
           \<or> (material_ok m \<and> (printed_rows_name_pattern data \<longrightarrow> material_consistent m))"
proof -
  from assms obtain d1 where
    l1: "for_each seed_material d (fabric_materials data) = Inr d1"
    and l2: "for_each seed_fabric_stock d1 (fabric_inventory data) = Inr d'"
    by (auto simp: seed_fabrics_def and_then_eq_Inr)
  let ?P = "\<lambda>a. \<forall>m \<in> set (materials a). m \<in> set (materials d)
           \<or> (material_ok m \<and> (printed_rows_name_pattern data \<longrightarrow> material_consistent m))"
  have "?P d1"
  proof (rule for_each_invariant [OF l1, of ?P])
    show "?P d" by simp
  next
    fix a x b
    assume a: "?P a" and x: "x \<in> set (fabric_materials data)" and s: "seed_material a x = Inr b"
    from x have "printed_rows_name_pattern data \<longrightarrow>
        (py_bool (get_or (rm_is_printed x) False) \<longrightarrow> get_none (rm_print_pattern x) \<noteq> None)"
      by (simp add: printed_rows_name_pattern_def)
    with a seed_material_result [OF s] show "?P b" by blast
  qed
  show "?P d'"
  proof (rule for_each_invariant [OF l2, of ?P])
    show "?P d1" by fact
  next
    fix a x b
    assume a: "?P a" and x: "x \<in> set (fabric_inventory data)"
      and s: "seed_fabric_stock a x = Inr b"
    from x have "printed_rows_name_pattern data \<longrightarrow>
        (py_bool (get_or (rfi_is_printed x) False) \<longrightarrow> get_none (rfi_print_pattern x) \<noteq> None)"
      by (simp add: printed_rows_name_pattern_def)
    with a seed_fabric_stock_result [OF s] show "?P b" by blast
  qed
qed

text \<open>
  What the two fabric loops do keep: a successful run stores no new material that is raw
  and carries a pattern (a pattern supplied with the flag unset is dropped); and if every
  row of the fixture whose flag is set names a pattern, every material the run stores has
  a pattern exactly when it is printed.
\<close>

lemma seed_fabrics_raw_without_pattern:
  assumes "seed_fabrics d data = Inr d'"
  shows "(raw_without_pattern d \<longrightarrow> raw_without_pattern d')
       \<and> (\<forall>m \<in> set (materials d'). m \<notin> set (materials d) \<longrightarrow> \<not> fm_is_printed m
             \<longrightarrow> fm_print_pattern m = None)
       \<and> (printed_rows_name_pattern data \<longrightarrow> materials_consistent d
             \<longrightarrow> materials_consistent d')"
  using seed_fabrics_materials [OF assms]
  unfolding raw_without_pattern_def materials_consistent_def material_ok_def by blast

text \<open>
  C7. The claim fails on the code, against the docstring of \<^verbatim>\<open>FabricMaterial\<close>
  (\<^verbatim>\<open>PRINTED fabric: is_printed=True, print_pattern=<pattern>\<close>): the pattern is forced to
  none when the flag is unset, but nothing asks for a pattern when the flag is set. With
  the fabric \<open>Cotton\<close> stored, the material row of the fixture that sets
  \<^verbatim>\<open>is_printed\<close> and names no pattern makes the fabric step store a material that is
  printed and has a null pattern.
\<close>

theorem seed_fabrics_printed_without_pattern:
  "seed_fabrics
     (empty_db\<lparr>fabrics := [\<lparr>ft_id = 1, ft_name = ''Cotton'', ft_is_active = True\<rparr>]\<rparr>)
     (empty_fixture\<lparr>fabric_materials :=
        [\<lparr>rm_fabric_type = ''Cotton'', rm_print_pattern = Missing, rm_uom = Missing,
          rm_is_printed = Val True\<rparr>]\<rparr>)
   = Inr (empty_db\<lparr>fabrics := [\<lparr>ft_id = 1, ft_name = ''Cotton'', ft_is_active = True\<rparr>],
            materials := [\<lparr>fm_id = 1, fm_fabric_type = 1, fm_uom = ''meter'',
                            fm_is_printed = True, fm_print_pattern = None\<rparr>]\<rparr>)"
  by code_simp

subsection \<open>An unknown pattern name\<close>

lemma seed_material_unknown_pattern:
  assumes "filter (\<lambda>r. pp_name r = n) (patterns d) = []" and "rm_print_pattern row = Val n"
  shows "seed_material d row =
           (case get_fabric d (rm_fabric_type row) of Inl e \<Rightarrow> Inl e | Inr _ \<Rightarrow> Inl DoesNotExist)"
  using assms by (simp add: seed_material_def get_print_unknown split: sum.splits)

lemma seed_fabric_stock_unknown_pattern:
  assumes "filter (\<lambda>r. pp_name r = n) (patterns d) = []" and "rfi_print_pattern row = Val n"
  shows "seed_fabric_stock d row =
           (case get_fabric d (rfi_fabric_type row) of Inl e \<Rightarrow> Inl e | Inr _ \<Rightarrow> Inl DoesNotExist)"
  using assms by (simp add: seed_fabric_stock_def get_print_unknown split: sum.splits)

lemma seed_fabrics_unknown_pattern:
  assumes unknown: "filter (\<lambda>r. pp_name r = n) (patterns d) = []"
    and row: "(mrow \<in> set (fabric_materials data) \<and> rm_print_pattern mrow = Val n)
            \<or> (srow \<in> set (fabric_inventory data) \<and> rfi_print_pattern srow = Val n)"
  shows "\<exists>e. seed_fabrics d data = Inl e"
proof -
  let ?P = "\<lambda>a. patterns a = patterns d"
  have keep1: "\<And>a y b. ?P a \<Longrightarrow> seed_material a y = Inr b \<Longrightarrow> ?P b"
  proof -
    fix a y b assume p: "?P a" and s: "seed_material a y = Inr b"
    from seed_material_result [OF s] have "patterns b = patterns (a\<lparr>materials := materials b\<rparr>)"
      by simp
    with p show "?P b" by simp
  qed
  have keep2: "\<And>a y b. ?P a \<Longrightarrow> seed_fabric_stock a y = Inr b \<Longrightarrow> ?P b"
  proof -
    fix a y b assume p: "?P a" and s: "seed_fabric_stock a y = Inr b"
    from seed_fabric_stock_result [OF s]
    have "patterns b = patterns (a\<lparr>materials := materials b, fabric_stock := fabric_stock b\<rparr>)"
      by simp
    with p show "?P b" by simp
  qed
  show ?thesis
  proof (cases "for_each seed_material d (fabric_materials data)")
    case (Inl e)
    then show ?thesis by (simp add: seed_fabrics_def)
  next
    case (Inr d1)
    have p1: "?P d1"
      by (rule for_each_invariant [OF Inr, of ?P]) (simp, rule keep1)
    from row show ?thesis
    proof
      assume m: "mrow \<in> set (fabric_materials data) \<and> rm_print_pattern mrow = Val n"
      have "\<exists>e. for_each seed_material d (fabric_materials data) = Inl e"
      proof (rule for_each_fails [of mrow _ ?P])
        show "mrow \<in> set (fabric_materials data)" using m by simp
        show "?P d" by simp
        show "\<And>a y b. ?P a \<Longrightarrow> y \<in> set (fabric_materials data) \<Longrightarrow> seed_material a y = Inr b
                \<Longrightarrow> ?P b" by (rule keep1)
        show "\<And>a. ?P a \<Longrightarrow> \<exists>e. seed_material a mrow = Inl e"
        proof -
          fix a :: db assume "?P a"
          with unknown have "filter (\<lambda>r. pp_name r = n) (patterns a) = []" by simp
          from seed_material_unknown_pattern [OF this] m
          show "\<exists>e. seed_material a mrow = Inl e" by (simp split: sum.splits)
        qed
      qed
      with Inr show ?thesis by simp
    next
      assume s: "srow \<in> set (fabric_inventory data) \<and> rfi_print_pattern srow = Val n"
      have "\<exists>e. for_each seed_fabric_stock d1 (fabric_inventory data) = Inl e"
      proof (rule for_each_fails [of srow _ ?P])
        show "srow \<in> set (fabric_inventory data)" using s by simp
        show "?P d1" by (rule p1)
        show "\<And>a y b. ?P a \<Longrightarrow> y \<in> set (fabric_inventory data)
                \<Longrightarrow> seed_fabric_stock a y = Inr b \<Longrightarrow> ?P b" by (rule keep2)
        show "\<And>a. ?P a \<Longrightarrow> \<exists>e. seed_fabric_stock a srow = Inl e"
        proof -
          fix a :: db assume "?P a"
          with unknown have "filter (\<lambda>r. pp_name r = n) (patterns a) = []" by simp
          from seed_fabric_stock_unknown_pattern [OF this] s
          show "\<exists>e. seed_fabric_stock a srow = Inl e" by (simp split: sum.splits)
        qed
      qed
      with Inr show ?thesis by (simp add: seed_fabrics_def)
    qed
  qed
qed

text \<open>
  C10. In both fabric loops the pattern name of a row is looked up before its printed
  flag is read. So, whatever the flag, a row naming a pattern that is not stored fails
  with \<open>DoesNotExist\<close> once its fabric is resolved, and a fixture holding such a row
  makes the fabric step fail.
\<close>

theorem unknown_pattern_fails_whatever_the_flag:
  assumes "filter (\<lambda>r. pp_name r = n) (patterns d) = []"
    and "rm_print_pattern mrow = Val n" and "rfi_print_pattern srow = Val n"
  shows "(get_fabric d (rm_fabric_type mrow) = Inr fabric
            \<longrightarrow> seed_material d mrow = Inl DoesNotExist)
       \<and> (get_fabric d (rfi_fabric_type srow) = Inr fabric'
            \<longrightarrow> seed_fabric_stock d srow = Inl DoesNotExist)
       \<and> (mrow \<in> set (fabric_materials data) \<or> srow \<in> set (fabric_inventory data)
            \<longrightarrow> (\<exists>e. seed_fabrics d data = Inl e))"
proof (intro conjI impI)
  assume "get_fabric d (rm_fabric_type mrow) = Inr fabric"
  with seed_material_unknown_pattern [OF assms(1,2)]
  show "seed_material d mrow = Inl DoesNotExist" by simp
next
  assume "get_fabric d (rfi_fabric_type srow) = Inr fabric'"
  with seed_fabric_stock_unknown_pattern [OF assms(1,3)]
  show "seed_fabric_stock d srow = Inl DoesNotExist" by simp
next
  assume "mrow \<in> set (fabric_materials data) \<or> srow \<in> set (fabric_inventory data)"
  with assms(2,3)
  have "(mrow \<in> set (fabric_materials data) \<and> rm_print_pattern mrow = Val n)
            \<or> (srow \<in> set (fabric_inventory data) \<and> rfi_print_pattern srow = Val n)"
    by blast
  from seed_fabrics_unknown_pattern [OF assms(1) this]
  show "\<exists>e. seed_fabrics d data = Inl e" .
qed

theorem unknown_pattern_fails_whatever_the_flag_witness:
  "seed_material
     (empty_db\<lparr>fabrics := [\<lparr>ft_id = 1, ft_name = ''Cotton'', ft_is_active = True\<rparr>]\<rparr>)
     \<lparr>rm_fabric_type = ''Cotton'', rm_print_pattern = Val ''Floral'', rm_uom = Missing,
      rm_is_printed = Val False\<rparr> = Inl DoesNotExist
   \<and> seed_fabric_stock
     (empty_db\<lparr>fabrics := [\<lparr>ft_id = 1, ft_name = ''Cotton'', ft_is_active = True\<rparr>]\<rparr>)
     \<lparr>rfi_fabric_type = ''Cotton'', rfi_print_pattern = Val ''Floral'', rfi_uom = Missing,
      rfi_is_printed = Val False, rfi_location = ''Main'', rfi_qty_on_hand = Missing\<rparr>
     = Inl DoesNotExist
   \<and> (\<exists>e. seed_fabrics
     (empty_db\<lparr>fabrics := [\<lparr>ft_id = 1, ft_name = ''Cotton'', ft_is_active = True\<rparr>]\<rparr>)
     (empty_fixture\<lparr>fabric_materials :=
        [\<lparr>rm_fabric_type = ''Cotton'', rm_print_pattern = Val ''Floral'', rm_uom = Missing,
          rm_is_printed = Val False\<rparr>]\<rparr>) = Inl e)"
proof -
  let ?d = "empty_db\<lparr>fabrics := [\<lparr>ft_id = 1, ft_name = ''Cotton'', ft_is_active = True\<rparr>]\<rparr>"
  let ?mrow = "\<lparr>rm_fabric_type = ''Cotton'', rm_print_pattern = Val ''Floral'', rm_uom = Missing,
      rm_is_printed = Val False\<rparr>"
  let ?srow = "\<lparr>rfi_fabric_type = ''Cotton'', rfi_print_pattern = Val ''Floral'', rfi_uom = Missing,
      rfi_is_printed = Val False, rfi_location = ''Main'', rfi_qty_on_hand = Missing\<rparr>"
  let ?data = "empty_fixture\<lparr>fabric_materials := [?mrow]\<rparr>"
  let ?fabric = "\<lparr>ft_id = 1, ft_name = ''Cotton'', ft_is_active = True\<rparr>"
  have unknown: "filter (\<lambda>r. pp_name r = ''Floral'') (patterns ?d) = []"
    by (simp add: empty_db_def)
  have m: "rm_print_pattern ?mrow = Val ''Floral''" and s: "rfi_print_pattern ?srow = Val ''Floral''"
    by simp_all
  have f1: "get_fabric ?d (rm_fabric_type ?mrow) = Inr ?fabric"
    by code_simp
  have f2: "get_fabric ?d (rfi_fabric_type ?srow) = Inr ?fabric"
    by code_simp
  have mem: "?mrow \<in> set (fabric_materials ?data) \<or> ?srow \<in> set (fabric_inventory ?data)"
    by simp
  from unknown_pattern_fails_whatever_the_flag [OF unknown m s, of ?fabric ?fabric ?data] f1 f2 mem
  show ?thesis by blast
qed

section \<open>Resolving a SKU again\<close>

lemma filter_map_keeps:
  "(\<And>x. p (g x) = p x) \<Longrightarrow> filter p (map g xs) = map g (filter p xs)"
  by (induction xs) simp_all

lemma sku_lookup_code: "sku_lookup sz fabric pattern (x\<lparr>sku_code := c\<rparr>) = sku_lookup sz fabric pattern x"
  by (simp add: sku_lookup_def)

lemma get_print_same: "patterns d1 = patterns d \<Longrightarrow> get_print d1 pn = get_print d pn"
  by (cases pn) (simp_all add: get_print_def)

lemma get_size_same: "sizes d1 = sizes d \<Longrightarrow> get_size d1 sc = get_size d sc"
  by (simp add: get_size_def)

lemma get_fabric_same: "fabrics d1 = fabrics d \<Longrightarrow> get_fabric d1 fn = get_fabric d fn"
  by (simp add: get_fabric_def)

lemma get_sku_found:
  assumes "get_size d sc = Inr sz" "get_fabric d fn = Inr fabric" "get_print d pn = Inr pattern"
    and "filter (sku_lookup sz fabric pattern) (skus d) = [r]" and "sku_code r \<noteq> []"
  shows "get_sku d sc fn pn = Inr (r, d)"
  using assms by (simp add: get_sku_def)

text \<open>After a successful resolve the SKU is the only row of its triple.\<close>

lemma get_sku_post:
  assumes "get_sku d sc fn pn = Inr (sku, d1)"
  obtains sz fabric pattern where
    "get_size d sc = Inr sz" "get_fabric d fn = Inr fabric" "get_print d pn = Inr pattern"
    "filter (sku_lookup sz fabric pattern) (skus d1) = [sku]"
proof -
  from assms show thesis
  proof (rule get_sku_cases)
    fix sz fabric pattern
    assume l: "get_size d sc = Inr sz" "get_fabric d fn = Inr fabric" "get_print d pn = Inr pattern"
    assume c: "(filter (sku_lookup sz fabric pattern) (skus d) = []
        \<and> sku = \<lparr>sku_id = fresh_pk (map sku_id (skus d)),
                  sku_code = build_sku_code sz fabric pattern,
                  sku_size = ps_id sz, sku_fabric_type = ft_id fabric,
                  sku_print_pattern = map_option pp_id pattern,
                  sku_unit_price = 0, sku_is_active = True\<rparr>
        \<and> (\<forall>r \<in> set (skus d). sku_code r \<noteq> sku_code sku)
        \<and> d1 = d\<lparr>skus := skus d @ [sku]\<rparr>)
     \<or> (filter (sku_lookup sz fabric pattern) (skus d) = [sku] \<and> sku_code sku \<noteq> [] \<and> d1 = d)
     \<or> (\<exists>r. filter (sku_lookup sz fabric pattern) (skus d) = [r] \<and> sku_code r = []
            \<and> sku = r\<lparr>sku_code := build_sku_code sz fabric pattern\<rparr>
            \<and> (\<forall>x \<in> set (skus d). sku_id x \<noteq> sku_id r \<longrightarrow> sku_code x \<noteq> sku_code sku)
            \<and> d1 = d\<lparr>skus := map (\<lambda>x. if sku_id x = sku_id r
                                          then x\<lparr>sku_code := sku_code sku\<rparr> else x) (skus d)\<rparr>)"
    then consider
      (created) "filter (sku_lookup sz fabric pattern) (skus d) = []"
          "sku = \<lparr>sku_id = fresh_pk (map sku_id (skus d)),
                  sku_code = build_sku_code sz fabric pattern,
                  sku_size = ps_id sz, sku_fabric_type = ft_id fabric,
                  sku_print_pattern = map_option pp_id pattern,
                  sku_unit_price = 0, sku_is_active = True\<rparr>"
          "d1 = d\<lparr>skus := skus d @ [sku]\<rparr>"
      | (found) "filter (sku_lookup sz fabric pattern) (skus d) = [sku]" "d1 = d"
      | (backfilled) r where "filter (sku_lookup sz fabric pattern) (skus d) = [r]"
          "sku = r\<lparr>sku_code := build_sku_code sz fabric pattern\<rparr>"
          "d1 = d\<lparr>skus := map (\<lambda>x. if sku_id x = sku_id r
                                          then x\<lparr>sku_code := sku_code sku\<rparr> else x) (skus d)\<rparr>"
      by blast
    then have "filter (sku_lookup sz fabric pattern) (skus d1) = [sku]"
    proof cases
      case created
      from created(2) have "sku_lookup sz fabric pattern sku" by (simp add: sku_lookup_def)
      with created(1,3) show ?thesis by simp
    next
      case found
      then show ?thesis by simp
    next
      case backfilled
      have "filter (sku_lookup sz fabric pattern)
              (map (\<lambda>x. if sku_id x = sku_id r then x\<lparr>sku_code := sku_code sku\<rparr> else x) (skus d))
            = map (\<lambda>x. if sku_id x = sku_id r then x\<lparr>sku_code := sku_code sku\<rparr> else x)
                (filter (sku_lookup sz fabric pattern) (skus d))"
        by (rule filter_map_keeps) (simp add: sku_lookup_code)
      with backfilled show ?thesis by simp
    qed
    with l show thesis by (rule that)
  qed
qed


lemma distinct_map_eq:
  "distinct (map f xs) \<Longrightarrow> x \<in> set xs \<Longrightarrow> y \<in> set xs \<Longrightarrow> f x = f y \<Longrightarrow> x = y"
  by (simp add: distinct_map inj_on_def)


section \<open>Saving a SKU\<close>






section \<open>The SKU rows of the fixture\<close>




section \<open>Building an order\<close>

lemma first_by_mem: "first_by key xs = Some r \<Longrightarrow> r \<in> set xs"
  by (induction xs arbitrary: r) (auto split: option.splits if_splits)

lemma first_by_None: "first_by key xs = None \<longleftrightarrow> xs = []"
  by (cases xs) (auto split: option.splits)

lemma get_sku_except:
  assumes "get_sku d sc fn pn = Inr (sku, d1)"
  shows "except_skus_items d1 = except_skus_items d" "items d1 = items d"
    "item_seq d1 = item_seq d"
  using assms by (rule get_sku_cases, auto simp: except_skus_items_def)+

text \<open>A resolve stores no price but 0, and returns a stored price or 0.\<close>

lemma get_sku_cents:
  assumes "get_sku d sc fn pn = Inr (sku, d1)"
    and "\<forall>r \<in> set (skus d). is_cents (sku_unit_price r)"
  shows "\<forall>r \<in> set (skus d1). is_cents (sku_unit_price r)"
proof -
  from assms(1) show ?thesis
  proof (rule get_sku_cases)
    fix sz fabric pattern
    assume c: "(filter (sku_lookup sz fabric pattern) (skus d) = []
        \<and> sku = \<lparr>sku_id = fresh_pk (map sku_id (skus d)),
                  sku_code = build_sku_code sz fabric pattern,
                  sku_size = ps_id sz, sku_fabric_type = ft_id fabric,
                  sku_print_pattern = map_option pp_id pattern,
                  sku_unit_price = 0, sku_is_active = True\<rparr>
        \<and> (\<forall>r \<in> set (skus d). sku_code r \<noteq> sku_code sku)
        \<and> d1 = d\<lparr>skus := skus d @ [sku]\<rparr>)
     \<or> (filter (sku_lookup sz fabric pattern) (skus d) = [sku] \<and> sku_code sku \<noteq> [] \<and> d1 = d)
     \<or> (\<exists>r. filter (sku_lookup sz fabric pattern) (skus d) = [r] \<and> sku_code r = []
            \<and> sku = r\<lparr>sku_code := build_sku_code sz fabric pattern\<rparr>
            \<and> (\<forall>x \<in> set (skus d). sku_id x \<noteq> sku_id r \<longrightarrow> sku_code x \<noteq> sku_code sku)
            \<and> d1 = d\<lparr>skus := map (\<lambda>x. if sku_id x = sku_id r
                                          then x\<lparr>sku_code := sku_code sku\<rparr> else x) (skus d)\<rparr>)"
    then show ?thesis
    proof (elim disjE conjE exE)
      assume "sku = \<lparr>sku_id = fresh_pk (map sku_id (skus d)),
                  sku_code = build_sku_code sz fabric pattern,
                  sku_size = ps_id sz, sku_fabric_type = ft_id fabric,
                  sku_print_pattern = map_option pp_id pattern,
                  sku_unit_price = 0, sku_is_active = True\<rparr>"
        and d1: "d1 = d\<lparr>skus := skus d @ [sku]\<rparr>"
      then have "sku_unit_price sku = 0" by simp
      with assms(2) d1 show ?thesis by simp
    next
      assume "d1 = d"
      with assms(2) show ?thesis by simp
    next
      fix r
      assume "d1 = d\<lparr>skus := map (\<lambda>x. if sku_id x = sku_id r
                                          then x\<lparr>sku_code := sku_code sku\<rparr> else x) (skus d)\<rparr>"
      with assms(2) show ?thesis by auto
    qed
  qed
qed

lemma is_cents_sum_list: "\<forall>i \<in> set xs. is_cents (f i) \<Longrightarrow> is_cents (sum_list (map f xs))"
  by (induction xs) (simp_all add: is_cents_add)

text \<open>The row a new line item gets.\<close>

lemma OrderItem_create_Inr:
  assumes "OrderItem_create a k s q p t = Inr b"
  shows "b = a\<lparr>items := items a @
            [\<lparr>oi_id = new_item_key a, oi_order = k, oi_sku = s, oi_qty = q,
              oi_unit_price = quantize 2 p, oi_line_total = quantize 2 t\<rparr>],
          item_seq := new_item_key a\<rparr>"
proof -
  from assms obtain sp st sq where
    "to_decimal_field 12 2 p = Inr sp" "to_decimal_field 12 2 t = Inr st"
    "to_integer_field q = Inr sq"
    and b: "b = a\<lparr>items := items a @
            [\<lparr>oi_id = new_item_key a, oi_order = k, oi_sku = s, oi_qty = sq,
              oi_unit_price = sp, oi_line_total = st\<rparr>],
          item_seq := new_item_key a\<rparr>"
    by (auto simp: OrderItem_create_def Let_def and_then_eq_Inr)
  then have "sp = quantize 2 p" "st = quantize 2 t" "sq = q"
    by (simp_all add: to_decimal_field_Inr to_integer_field_Inr)
  with b show ?thesis by simp
qed

lemma seed_order_item_cases:
  assumes "seed_order_item order (a, s) item = Inr (b, s')"
  obtains sku a1 p where
    "get_sku a (ri_size_code item) (ri_fabric_type item) (get_none (ri_print_pattern item))
       = Inr (sku, a1)"
    "py_decimal (get_or (ri_unit_price item) (sku_unit_price sku)) = Inr p"
    "OrderItem_create a1 (o_id order) (sku_id sku) (ri_qty item) p (p * of_int (ri_qty item))
       = Inr b"
    "b = a1\<lparr>items := items a1 @
            [\<lparr>oi_id = new_item_key a1, oi_order = o_id order,
              oi_sku = sku_id sku, oi_qty = ri_qty item, oi_unit_price = quantize 2 p,
              oi_line_total = quantize 2 (p * of_int (ri_qty item))\<rparr>],
          item_seq := new_item_key a1\<rparr>"
    "s' = s + p * of_int (ri_qty item)"
proof -
  from assms obtain sku a1 p where
    g: "get_sku a (ri_size_code item) (ri_fabric_type item) (get_none (ri_print_pattern item))
       = Inr (sku, a1)"
    and p: "py_decimal (get_or (ri_unit_price item) (sku_unit_price sku)) = Inr p"
    and c: "OrderItem_create a1 (o_id order) (sku_id sku) (ri_qty item) p
              (p * of_int (ri_qty item)) = Inr b"
    and s: "s' = s + p * of_int (ri_qty item)"
    by (auto simp: seed_order_item_def Let_def and_then_eq_Inr split: prod.splits)
  from g p c OrderItem_create_Inr [OF c] s show thesis by (rule that)
qed

text \<open>The price a line item is given has two decimals when the stored prices and the
  price of the request have.\<close>

lemma item_price_cents:
  assumes "py_decimal (get_or (ri_unit_price item) (sku_unit_price sku)) = Inr p"
    and "is_cents (sku_unit_price sku)" and "cents_or_absent (ri_unit_price item)"
  shows "is_cents p"
  using assms by (cases "ri_unit_price item") auto

text \<open>
  The loop over the items of a request adds one line item of the order for each; it
  writes nothing else but SKUs. When the stored prices and the prices of the request
  have two decimals, the line totals stored are the products of the prices and
  quantities stored, and the subtotal is their sum.
\<close>

lemma order_items_loop:
  assumes "for_each (seed_order_item order) (a, s) its = Inr (b, s')"
  shows "\<exists>new. items b = items a @ new
           \<and> length new = length its
           \<and> (\<forall>i \<in> set new. oi_order i = o_id order)
           \<and> except_skus_items b = except_skus_items a
           \<and> ((\<forall>r \<in> set (skus a). is_cents (sku_unit_price r))
                \<longrightarrow> (\<forall>item \<in> set its. cents_or_absent (ri_unit_price item))
                \<longrightarrow> (\<forall>i \<in> set new. oi_line_total i = oi_unit_price i * of_int (oi_qty i)
                                     \<and> is_cents (oi_line_total i))
                    \<and> s' = s + sum_list (map oi_line_total new)
                    \<and> (\<forall>r \<in> set (skus b). is_cents (sku_unit_price r)))"
  using assms
proof (induction its arbitrary: a s)
  case Nil
  then show ?case by simp
next
  case (Cons item its)
  from Cons.prems obtain a1 s1 where
    step: "seed_order_item order (a, s) item = Inr (a1, s1)"
    and rest: "for_each (seed_order_item order) (a1, s1) its = Inr (b, s')"
    by (auto split: sum.splits)
  from step obtain sku a0 p where
    g: "get_sku a (ri_size_code item) (ri_fabric_type item) (get_none (ri_print_pattern item))
       = Inr (sku, a0)"
    and p: "py_decimal (get_or (ri_unit_price item) (sku_unit_price sku)) = Inr p"
    and a1: "a1 = a0\<lparr>items := items a0 @
            [\<lparr>oi_id = new_item_key a0, oi_order = o_id order,
              oi_sku = sku_id sku, oi_qty = ri_qty item, oi_unit_price = quantize 2 p,
              oi_line_total = quantize 2 (p * of_int (ri_qty item))\<rparr>],
          item_seq := new_item_key a0\<rparr>"
    and s1: "s1 = s + p * of_int (ri_qty item)"
    by (rule seed_order_item_cases)
  let ?it = "\<lparr>oi_id = new_item_key a0, oi_order = o_id order,
              oi_sku = sku_id sku, oi_qty = ri_qty item, oi_unit_price = quantize 2 p,
              oi_line_total = quantize 2 (p * of_int (ri_qty item))\<rparr>"
  from Cons.IH [OF rest] obtain new where
    n: "items b = items a1 @ new" "length new = length its"
    "\<forall>i \<in> set new. oi_order i = o_id order"
    "except_skus_items b = except_skus_items a1"
    and nc: "(\<forall>r \<in> set (skus a1). is_cents (sku_unit_price r))
                \<longrightarrow> (\<forall>item \<in> set its. cents_or_absent (ri_unit_price item))
                \<longrightarrow> (\<forall>i \<in> set new. oi_line_total i = oi_unit_price i * of_int (oi_qty i)
                                     \<and> is_cents (oi_line_total i))
                    \<and> s' = s1 + sum_list (map oi_line_total new)
                    \<and> (\<forall>r \<in> set (skus b). is_cents (sku_unit_price r))"
    by blast
  have i1: "items a1 = items a @ [?it]"
    using a1 get_sku_except(2) [OF g] by simp
  have e1: "except_skus_items a1 = except_skus_items a"
    using a1 get_sku_except(1) [OF g] by (simp add: except_skus_items_def)
  have sk1: "skus a1 = skus a0" using a1 by simp
  show ?case
  proof (intro exI [of _ "?it # new"] conjI impI)
    show "items b = items a @ ?it # new" using n(1) i1 by simp
    show "length (?it # new) = length (item # its)" using n(2) by simp
    show "\<forall>i \<in> set (?it # new). oi_order i = o_id order"
      using n(3) by simp
    show "except_skus_items b = except_skus_items a" using n(4) e1 by simp
  next
    assume ca: "\<forall>r \<in> set (skus a). is_cents (sku_unit_price r)"
      and ci: "\<forall>item \<in> set (item # its). cents_or_absent (ri_unit_price item)"
    have c0: "\<forall>r \<in> set (skus a0). is_cents (sku_unit_price r)"
      using get_sku_cents [OF g ca] .
    have "is_cents (sku_unit_price sku)" using c0 get_sku_stored [OF g] by blast
    with p ci have pc: "is_cents p" by (intro item_price_cents [of item sku p]) simp_all
    then have tc: "is_cents (p * of_int (ri_qty item))" by (rule is_cents_times_int)
    from pc tc have q: "quantize 2 p = p"
      "quantize 2 (p * of_int (ri_qty item)) = p * of_int (ri_qty item)"
      by (simp_all add: is_cents_quantize)
    have h1: "\<forall>r \<in> set (skus a1). is_cents (sku_unit_price r)" using c0 sk1 by simp
    have h2: "\<forall>item \<in> set its. cents_or_absent (ri_unit_price item)" using ci by simp
    from nc h1 h2
    have r: "\<forall>i \<in> set new. oi_line_total i = oi_unit_price i * of_int (oi_qty i)
                                     \<and> is_cents (oi_line_total i)"
      "s' = s1 + sum_list (map oi_line_total new)"
      "\<forall>r \<in> set (skus b). is_cents (sku_unit_price r)"
      by blast+
    have h: "oi_line_total ?it = oi_unit_price ?it * of_int (oi_qty ?it)
               \<and> is_cents (oi_line_total ?it)"
      using q tc by simp
    show "\<forall>i \<in> set (?it # new). oi_line_total i = oi_unit_price i * of_int (oi_qty i)
                                     \<and> is_cents (oi_line_total i)"
    proof (intro ballI)
      fix i assume "i \<in> set (?it # new)"
      then have "i = ?it \<or> i \<in> set new" by simp
      then show "oi_line_total i = oi_unit_price i * of_int (oi_qty i)
                   \<and> is_cents (oi_line_total i)"
        using r(1) h by blast
    qed
    show "s' = s + sum_list (map oi_line_total (?it # new))"
      using r(2) s1 q by simp
    show "\<forall>r \<in> set (skus b). is_cents (sku_unit_price r)" by (rule r(3))
  qed
qed

lemma build_order_cases:
  assumes "build_order d row = Inr (order', d')"
  obtains customer status order d1 d3 subtotal where
    "objects_get (\<lambda>r. cu_full_name r = ro_customer row) (customers d) = Inr customer"
    "objects_get (\<lambda>r. os_code r = ro_status row) (statuses d) = Inr status"
    "(case first_by o_id (filter (order_lookup customer (ro_order_date row)
                                   (get_or (ro_notes row) '''')) (orders d)) of
        Some order \<Rightarrow> Inr (order, d)
      | None \<Rightarrow> Order_create d customer status (ro_order_date row) (get_or (ro_notes row) '''')
                  (ro_shipping_fee row) (ro_discount row)) = Inr (order, d1)"
    "for_each (seed_order_item order)
       (d1\<lparr>items := filter (\<lambda>i. oi_order i \<noteq> o_id order) (items d1)\<rparr>, 0) (ro_items row)
       = Inr (d3, subtotal)"
    "order' = order\<lparr>o_subtotal := subtotal,
                    o_total := subtotal + o_shipping_fee order - o_discount order\<rparr>"
    "Order_save_totals d3 order' = Inr d'"
  using assms
  by (auto simp: build_order_def Let_def and_then_eq_Inr split: prod.splits)

lemma except_skus_items_orders: "except_skus_items b = except_skus_items a \<Longrightarrow> orders b = orders a"
proof -
  assume "except_skus_items b = except_skus_items a"
  then have "orders (except_skus_items b) = orders (except_skus_items a)" by simp
  then show ?thesis by (simp add: except_skus_items_def)
qed

lemma Order_save_totals_Inr:
  assumes "Order_save_totals d order = Inr d'"
  shows "d' = d\<lparr>orders := map (saved_totals order) (orders d)\<rparr>"
proof -
  from assms obtain s f c t where
    "to_decimal_field 12 2 (o_subtotal order) = Inr s"
    "to_decimal_field 12 2 (o_shipping_fee order) = Inr f"
    "to_decimal_field 12 2 (o_discount order) = Inr c"
    "to_decimal_field 12 2 (o_total order) = Inr t"
    and d': "d' = d\<lparr>orders := map (\<lambda>r. if o_id r = o_id order
                                    then r\<lparr>o_subtotal := s, o_total := t,
                                           o_shipping_fee := f, o_discount := c\<rparr>
                                    else r) (orders d)\<rparr>"
    by (auto simp: Order_save_totals_def and_then_eq_Inr)
  then have "s = quantize 2 (o_subtotal order)" "f = quantize 2 (o_shipping_fee order)"
    "c = quantize 2 (o_discount order)" "t = quantize 2 (o_total order)"
    by (simp_all add: to_decimal_field_Inr)
  with d' show ?thesis by (simp add: saved_totals_def [abs_def])
qed

text \<open>
  The order a build works on, whether it was found or created: a row with its key is
  stored, nothing but the order table is written, and its shipping fee and discount have
  two decimals when the stored ones and those of the request have.
\<close>

lemma order_resolved:
  assumes "(case first_by o_id (filter p (orders d)) of
              Some order \<Rightarrow> Inr (order, d)
            | None \<Rightarrow> Order_create d customer status order_date notes shipping discount)
           = Inr (order, d1)"
  shows "\<exists>r \<in> set (orders d1). o_id r = o_id order" "d1 = d\<lparr>orders := orders d1\<rparr>"
    "(\<forall>r \<in> set (orders d). is_cents (o_shipping_fee r) \<and> is_cents (o_discount r))
       \<longrightarrow> cents_or_absent shipping \<longrightarrow> cents_or_absent discount
       \<longrightarrow> is_cents (o_shipping_fee order) \<and> is_cents (o_discount order)"
proof -
  show "\<exists>r \<in> set (orders d1). o_id r = o_id order"
  proof (cases "first_by o_id (filter p (orders d))")
    case None
    with assms show ?thesis
      by (auto simp: Order_create_def Let_def and_then_eq_Inr)
  next
    case (Some r)
    with assms have "r = order" "d1 = d" by simp_all
    with first_by_mem [OF Some] show ?thesis by auto
  qed
  show "d1 = d\<lparr>orders := orders d1\<rparr>"
  proof (cases "first_by o_id (filter p (orders d))")
    case None
    with assms show ?thesis
      by (auto simp: Order_create_def Let_def and_then_eq_Inr)
  next
    case (Some r)
    with assms show ?thesis by simp
  qed
  show "(\<forall>r \<in> set (orders d). is_cents (o_shipping_fee r) \<and> is_cents (o_discount r))
       \<longrightarrow> cents_or_absent shipping \<longrightarrow> cents_or_absent discount
       \<longrightarrow> is_cents (o_shipping_fee order) \<and> is_cents (o_discount order)"
  proof (cases "first_by o_id (filter p (orders d))")
    case None
    with assms obtain f c where
      f: "py_decimal (get_or shipping 0) = Inr f" and c: "py_decimal (get_or discount 0) = Inr c"
      and o: "o_shipping_fee order = f" "o_discount order = c"
      by (auto simp: Order_create_def Let_def and_then_eq_Inr)
    have "cents_or_absent shipping \<longrightarrow> is_cents f"
      using f by (cases shipping) auto
    moreover have "cents_or_absent discount \<longrightarrow> is_cents c"
      using c by (cases discount) auto
    ultimately show ?thesis using o by simp
  next
    case (Some r)
    with assms have "r = order" by simp
    with first_by_mem [OF Some] have "order \<in> set (orders d)" by simp
    then show ?thesis by blast
  qed
qed

lemma filter_other_order: "filter (\<lambda>i. oi_order i = k) (filter (\<lambda>i. oi_order i \<noteq> k) xs) = []"
  by (induction xs) simp_all

lemma filter_all: "\<forall>x \<in> set xs. p x \<Longrightarrow> filter p xs = xs"
  by (induction xs) simp_all

text \<open>What a successful build leaves: the rows of the order and its line items.\<close>

lemma build_order_result:
  assumes "build_order d row = Inr (order, d')"
  obtains customer status order0 and d1 :: db and new where
    "objects_get (\<lambda>r. cu_full_name r = ro_customer row) (customers d) = Inr customer"
    "objects_get (\<lambda>r. os_code r = ro_status row) (statuses d) = Inr status"
    "(case first_by o_id (filter (order_lookup customer (ro_order_date row)
                                   (get_or (ro_notes row) '''')) (orders d)) of
        Some order \<Rightarrow> Inr (order, d)
      | None \<Rightarrow> Order_create d customer status (ro_order_date row) (get_or (ro_notes row) '''')
                  (ro_shipping_fee row) (ro_discount row)) = Inr (order0, d1)"
    "order = order0\<lparr>o_subtotal := o_subtotal order,
                     o_total := o_subtotal order + o_shipping_fee order0 - o_discount order0\<rparr>"
    "orders d' = map (saved_totals order) (orders d1)"
    "items d' = filter (\<lambda>i. oi_order i \<noteq> o_id order) (items d) @ new"
    "length new = length (ro_items row)"
    "\<forall>i \<in> set new. oi_order i = o_id order"
    "(\<forall>r \<in> set (skus d). is_cents (sku_unit_price r))
       \<longrightarrow> (\<forall>item \<in> set (ro_items row). cents_or_absent (ri_unit_price item))
       \<longrightarrow> (\<forall>i \<in> set new. oi_line_total i = oi_unit_price i * of_int (oi_qty i)
                            \<and> is_cents (oi_line_total i))
           \<and> o_subtotal order = sum_list (map oi_line_total new)"
proof -
  from assms obtain customer status order0 d1 d3 subtotal where
    c: "objects_get (\<lambda>r. cu_full_name r = ro_customer row) (customers d) = Inr customer"
    and st: "objects_get (\<lambda>r. os_code r = ro_status row) (statuses d) = Inr status"
    and r: "(case first_by o_id (filter (order_lookup customer (ro_order_date row)
                                   (get_or (ro_notes row) '''')) (orders d)) of
        Some order \<Rightarrow> Inr (order, d)
      | None \<Rightarrow> Order_create d customer status (ro_order_date row) (get_or (ro_notes row) '''')
                  (ro_shipping_fee row) (ro_discount row)) = Inr (order0, d1)"
    and l: "for_each (seed_order_item order0)
       (d1\<lparr>items := filter (\<lambda>i. oi_order i \<noteq> o_id order0) (items d1)\<rparr>, 0) (ro_items row)
       = Inr (d3, subtotal)"
    and o: "order = order0\<lparr>o_subtotal := subtotal,
                    o_total := subtotal + o_shipping_fee order0 - o_discount order0\<rparr>"
    and sv: "Order_save_totals d3 order = Inr d'"
    by (rule build_order_cases)
  let ?d2 = "d1\<lparr>items := filter (\<lambda>i. oi_order i \<noteq> o_id order0) (items d1)\<rparr>"
  from order_items_loop [OF l] obtain new where
    n: "items d3 = items ?d2 @ new" "length new = length (ro_items row)"
    "\<forall>i \<in> set new. oi_order i = o_id order0"
    and e: "except_skus_items d3 = except_skus_items ?d2"
    and nc: "(\<forall>r \<in> set (skus ?d2). is_cents (sku_unit_price r))
                \<longrightarrow> (\<forall>item \<in> set (ro_items row). cents_or_absent (ri_unit_price item))
                \<longrightarrow> (\<forall>i \<in> set new. oi_line_total i = oi_unit_price i * of_int (oi_qty i)
                                     \<and> is_cents (oi_line_total i))
                    \<and> subtotal = 0 + sum_list (map oi_line_total new)
                    \<and> (\<forall>r \<in> set (skus d3). is_cents (sku_unit_price r))"
    by blast
  from e have "orders d3 = orders ?d2"
    by (rule except_skus_items_orders)
  then have od3: "orders d3 = orders d1" by simp
  have oid: "o_id order = o_id order0" using o by simp
  have sub: "o_subtotal order = subtotal" using o by simp
  note fr = order_resolved(2) [OF r]
  have i1: "items d1 = items d" and s1: "skus d1 = skus d"
    by (subst fr, simp)+
  note d' = Order_save_totals_Inr [OF sv]
  show thesis
  proof (rule that [of customer status order0 d1 new])
    show "objects_get (\<lambda>r. cu_full_name r = ro_customer row) (customers d) = Inr customer"
      by (rule c)
    show "objects_get (\<lambda>r. os_code r = ro_status row) (statuses d) = Inr status"
      by (rule st)
    show "(case first_by o_id (filter (order_lookup customer (ro_order_date row)
                                   (get_or (ro_notes row) '''')) (orders d)) of
        Some order \<Rightarrow> Inr (order, d)
      | None \<Rightarrow> Order_create d customer status (ro_order_date row) (get_or (ro_notes row) '''')
                  (ro_shipping_fee row) (ro_discount row)) = Inr (order0, d1)"
      by (rule r)
    show "order = order0\<lparr>o_subtotal := o_subtotal order,
                     o_total := o_subtotal order + o_shipping_fee order0 - o_discount order0\<rparr>"
      using o by simp
    show "orders d' = map (saved_totals order) (orders d1)"
      using d' od3 by simp
    show "items d' = filter (\<lambda>i. oi_order i \<noteq> o_id order) (items d) @ new"
      using d' n(1) oid i1 by simp
    show "length new = length (ro_items row)" by (rule n(2))
    show "\<forall>i \<in> set new. oi_order i = o_id order"
      using n(3) oid by simp
    show "(\<forall>r \<in> set (skus d). is_cents (sku_unit_price r))
       \<longrightarrow> (\<forall>item \<in> set (ro_items row). cents_or_absent (ri_unit_price item))
       \<longrightarrow> (\<forall>i \<in> set new. oi_line_total i = oi_unit_price i * of_int (oi_qty i)
                            \<and> is_cents (oi_line_total i))
           \<and> o_subtotal order = sum_list (map oi_line_total new)"
    proof (intro impI)
      assume a: "\<forall>r \<in> set (skus d). is_cents (sku_unit_price r)"
        and b: "\<forall>item \<in> set (ro_items row). cents_or_absent (ri_unit_price item)"
      from a s1 have a2: "\<forall>r \<in> set (skus ?d2). is_cents (sku_unit_price r)" by simp
      from nc a2 b
      have x: "\<forall>i \<in> set new. oi_line_total i = oi_unit_price i * of_int (oi_qty i)
                            \<and> is_cents (oi_line_total i)"
        and y: "subtotal = 0 + sum_list (map oi_line_total new)"
        by blast+
      from y sub have "o_subtotal order = sum_list (map oi_line_total new)" by simp
      with x show "(\<forall>i \<in> set new. oi_line_total i = oi_unit_price i * of_int (oi_qty i)
                            \<and> is_cents (oi_line_total i))
           \<and> o_subtotal order = sum_list (map oi_line_total new)"
        by blast
    qed
  qed
qed

text \<open>
  C1, as amended. When every amount a build reads has at most two decimals (the stored
  prices of the SKUs, the stored shipping fees and discounts of the orders, and the unit
  prices, shipping fee and discount the request gives), then after a successful build a
  row with the key of the order built is stored; every stored row with that key has
  \<open>total = subtotal + shipping_fee - discount\<close> and a subtotal equal to the sum of the
  line totals of the order's line items; and every line item of the order has
  \<open>line_total = unit_price * qty\<close>.
\<close>

theorem order_totals_after_build:
  assumes "build_order d row = Inr (order, d')"
    and "db_in_cents d" and "row_in_cents row"
  shows "(\<exists>r \<in> set (orders d'). o_id r = o_id order)
       \<and> (\<forall>r \<in> set (orders d'). o_id r = o_id order \<longrightarrow>
            o_total r = o_subtotal r + o_shipping_fee r - o_discount r
            \<and> o_subtotal r = sum_list (map oi_line_total (items_of d' (o_id order))))
       \<and> (\<forall>i \<in> set (items_of d' (o_id order)).
            oi_line_total i = oi_unit_price i * of_int (oi_qty i))"
proof -
  from assms(1) obtain customer status order0 and d1 :: db and new where
    r: "(case first_by o_id (filter (order_lookup customer (ro_order_date row)
                                   (get_or (ro_notes row) '''')) (orders d)) of
        Some order \<Rightarrow> Inr (order, d)
      | None \<Rightarrow> Order_create d customer status (ro_order_date row) (get_or (ro_notes row) '''')
                  (ro_shipping_fee row) (ro_discount row)) = Inr (order0, d1)"
    and o: "order = order0\<lparr>o_subtotal := o_subtotal order,
                     o_total := o_subtotal order + o_shipping_fee order0 - o_discount order0\<rparr>"
    and od: "orders d' = map (saved_totals order) (orders d1)"
    and it: "items d' = filter (\<lambda>i. oi_order i \<noteq> o_id order) (items d) @ new"
    and new: "\<forall>i \<in> set new. oi_order i = o_id order"
    and nc: "(\<forall>r \<in> set (skus d). is_cents (sku_unit_price r))
       \<longrightarrow> (\<forall>item \<in> set (ro_items row). cents_or_absent (ri_unit_price item))
       \<longrightarrow> (\<forall>i \<in> set new. oi_line_total i = oi_unit_price i * of_int (oi_qty i)
                            \<and> is_cents (oi_line_total i))
           \<and> o_subtotal order = sum_list (map oi_line_total new)"
    by (rule build_order_result)
  from assms(2,3) nc
  have lines: "\<forall>i \<in> set new. oi_line_total i = oi_unit_price i * of_int (oi_qty i)
                            \<and> is_cents (oi_line_total i)"
    and sub: "o_subtotal order = sum_list (map oi_line_total new)"
    unfolding db_in_cents_def row_in_cents_def by blast+
  from order_resolved(3) [OF r] assms(2,3)
  have "is_cents (o_shipping_fee order0) \<and> is_cents (o_discount order0)"
    unfolding db_in_cents_def row_in_cents_def by blast
  then have fc: "is_cents (o_shipping_fee order)" and dc: "is_cents (o_discount order)"
    by (subst o, simp)+
  have "\<forall>i \<in> set new. is_cents (oi_line_total i)" using lines by blast
  then have sc: "is_cents (o_subtotal order)"
    unfolding sub by (rule is_cents_sum_list)
  have tot: "o_total order = o_subtotal order + o_shipping_fee order - o_discount order"
    by (subst o, subst (3) o, subst (4) o, simp)
  have tc: "is_cents (o_total order)"
    unfolding tot using sc fc dc by (intro is_cents_diff is_cents_add)
  have "filter (\<lambda>i. oi_order i = o_id order) new = new"
    using new by (intro filter_all) simp
  then have its: "items_of d' (o_id order) = new"
    by (simp add: items_of_def it filter_other_order)
  from order_resolved(1) [OF r] obtain x where x: "x \<in> set (orders d1)" "o_id x = o_id order0"
    by blast
  have oid: "o_id order = o_id order0" by (subst o) simp
  have "saved_totals order x \<in> set (map (saved_totals order) (orders d1))"
    using x(1) by (rule imageI [of x "set (orders d1)", folded set_map])
  moreover have "o_id (saved_totals order x) = o_id order"
    using x(2) oid by (simp add: saved_totals_def)
  ultimately have a: "\<exists>r \<in> set (orders d'). o_id r = o_id order"
    unfolding od by blast
  have b: "\<forall>r \<in> set (orders d'). o_id r = o_id order \<longrightarrow>
            o_total r = o_subtotal r + o_shipping_fee r - o_discount r
            \<and> o_subtotal r = sum_list (map oi_line_total (items_of d' (o_id order)))"
  proof (intro ballI impI)
    fix r assume "r \<in> set (orders d')" and k: "o_id r = o_id order"
    then obtain y where "r = saved_totals order y" unfolding od by auto
    with k have "o_subtotal r = quantize 2 (o_subtotal order)"
      "o_total r = quantize 2 (o_total order)"
      "o_shipping_fee r = quantize 2 (o_shipping_fee order)"
      "o_discount r = quantize 2 (o_discount order)"
      by (simp_all add: saved_totals_def split: if_splits)
    then have "o_subtotal r = o_subtotal order" "o_total r = o_total order"
      "o_shipping_fee r = o_shipping_fee order" "o_discount r = o_discount order"
      using sc tc fc dc by (simp_all add: is_cents_quantize)
    then show "o_total r = o_subtotal r + o_shipping_fee r - o_discount r
            \<and> o_subtotal r = sum_list (map oi_line_total (items_of d' (o_id order)))"
      using tot sub its by simp
  qed
  have c: "\<forall>i \<in> set (items_of d' (o_id order)).
            oi_line_total i = oi_unit_price i * of_int (oi_qty i)"
    unfolding its using lines by blast
  from a b c show ?thesis by blast
qed

theorem order_totals_after_build_witness:
  "build_order
     (empty_db\<lparr>sizes := [\<lparr>ps_id = 1, ps_code = ''STD'', ps_display_name = ''Standard''\<rparr>],
        fabrics := [\<lparr>ft_id = 1, ft_name = ''Cotton'', ft_is_active = True\<rparr>],
        skus := [\<lparr>sku_id = 1, sku_code = ''BAG-STD-COTTON-PLAIN'', sku_size = 1,
                   sku_fabric_type = 1, sku_print_pattern = None, sku_unit_price = 10,
                   sku_is_active = True\<rparr>],
        customers := [\<lparr>cu_id = 1, cu_full_name = ''Ann'', cu_phone = '''', cu_email = '''',
                        cu_address = ''''\<rparr>],
        statuses := [\<lparr>os_id = 1, os_code = ''NEW'', os_display_name = ''New'',
                       os_sort_order = 0\<rparr>]\<rparr>)
     \<lparr>ro_customer = ''Ann'', ro_status = ''NEW'', ro_order_date = (2024, 1, 5),
      ro_notes = Val ''ref-1'', ro_shipping_fee = Val 5, ro_discount = Val 2,
      ro_items = [\<lparr>ri_size_code = ''STD'', ri_fabric_type = ''Cotton'',
                    ri_print_pattern = Missing, ri_qty = 3, ri_unit_price = Missing\<rparr>,
                  \<lparr>ri_size_code = ''STD'', ri_fabric_type = ''Cotton'',
                    ri_print_pattern = Missing, ri_qty = 2, ri_unit_price = Val (5 / 2)\<rparr>]\<rparr>
   = Inr (\<lparr>o_id = 1, o_customer = 1, o_status = 1, o_order_date = (2024, 1, 5),
            o_notes = ''ref-1'', o_subtotal = 35, o_shipping_fee = 5, o_discount = 2,
            o_total = 38\<rparr>,
          empty_db\<lparr>sizes := [\<lparr>ps_id = 1, ps_code = ''STD'', ps_display_name = ''Standard''\<rparr>],
        fabrics := [\<lparr>ft_id = 1, ft_name = ''Cotton'', ft_is_active = True\<rparr>],
        skus := [\<lparr>sku_id = 1, sku_code = ''BAG-STD-COTTON-PLAIN'', sku_size = 1,
                   sku_fabric_type = 1, sku_print_pattern = None, sku_unit_price = 10,
                   sku_is_active = True\<rparr>],
        customers := [\<lparr>cu_id = 1, cu_full_name = ''Ann'', cu_phone = '''', cu_email = '''',
                        cu_address = ''''\<rparr>],
        statuses := [\<lparr>os_id = 1, os_code = ''NEW'', os_display_name = ''New'',
                       os_sort_order = 0\<rparr>],
        orders := [\<lparr>o_id = 1, o_customer = 1, o_status = 1, o_order_date = (2024, 1, 5),
                     o_notes = ''ref-1'', o_subtotal = 35, o_shipping_fee = 5, o_discount = 2,
                     o_total = 38\<rparr>],
        items := [\<lparr>oi_id = 1, oi_order = 1, oi_sku = 1, oi_qty = 3, oi_unit_price = 10,
                    oi_line_total = 30\<rparr>,
                  \<lparr>oi_id = 2, oi_order = 1, oi_sku = 1, oi_qty = 2, oi_unit_price = 5 / 2,
                    oi_line_total = 5\<rparr>],
        item_seq := 2\<rparr>)
   \<and> (38 :: rat) = 35 + 5 - 2
   \<and> (35 :: rat) = sum_list (map oi_line_total
          [\<lparr>oi_id = 1, oi_order = 1, oi_sku = 1, oi_qty = 3, oi_unit_price = 10,
             oi_line_total = 30\<rparr>,
           \<lparr>oi_id = 2, oi_order = 1, oi_sku = 1, oi_qty = 2, oi_unit_price = 5 / 2,
             oi_line_total = 5\<rparr>])
   \<and> oi_line_total \<lparr>oi_id = 2, oi_order = 1, oi_sku = 1, oi_qty = 2, oi_unit_price = 5 / 2,
                     oi_line_total = 5\<rparr> = 5 / 2 * of_int 2"
proof -
  let ?base = "empty_db\<lparr>sizes := [\<lparr>ps_id = 1, ps_code = ''STD'', ps_display_name = ''Standard''\<rparr>],
        fabrics := [\<lparr>ft_id = 1, ft_name = ''Cotton'', ft_is_active = True\<rparr>],
        skus := [\<lparr>sku_id = 1, sku_code = ''BAG-STD-COTTON-PLAIN'', sku_size = 1,
                   sku_fabric_type = 1, sku_print_pattern = None, sku_unit_price = 10,
                   sku_is_active = True\<rparr>],
        customers := [\<lparr>cu_id = 1, cu_full_name = ''Ann'', cu_phone = '''', cu_email = '''',
                        cu_address = ''''\<rparr>],
        statuses := [\<lparr>os_id = 1, os_code = ''NEW'', os_display_name = ''New'',
                       os_sort_order = 0\<rparr>]\<rparr>"
  let ?order = "\<lparr>o_id = 1, o_customer = 1, o_status = 1, o_order_date = (2024, 1, 5),
                 o_notes = ''ref-1'', o_subtotal = 35, o_shipping_fee = 5, o_discount = 2,
                 o_total = 38\<rparr>"
  let ?i1 = "\<lparr>oi_id = 1, oi_order = 1, oi_sku = 1, oi_qty = 3, oi_unit_price = 10,
               oi_line_total = 30\<rparr>"
  let ?i2 = "\<lparr>oi_id = 2, oi_order = 1, oi_sku = 1, oi_qty = 2, oi_unit_price = 5 / 2,
               oi_line_total = 5\<rparr>"
  let ?d' = "?base\<lparr>orders := [?order], items := [?i1, ?i2], item_seq := 2\<rparr>"
  let ?row = "\<lparr>ro_customer = ''Ann'', ro_status = ''NEW'', ro_order_date = (2024, 1, 5),
                ro_notes = Val ''ref-1'', ro_shipping_fee = Val 5, ro_discount = Val 2,
                ro_items = [\<lparr>ri_size_code = ''STD'', ri_fabric_type = ''Cotton'',
                              ri_print_pattern = Missing, ri_qty = 3, ri_unit_price = Missing\<rparr>,
                            \<lparr>ri_size_code = ''STD'', ri_fabric_type = ''Cotton'',
                              ri_print_pattern = Missing, ri_qty = 2, ri_unit_price = Val (5 / 2)\<rparr>]\<rparr>"
  have run: "build_order ?base ?row = Inr (?order, ?d')"
    by code_simp
  have cents: "db_in_cents ?base" "row_in_cents ?row"
    by (simp_all add: db_in_cents_def row_in_cents_def is_cents_def empty_db_def)
  have ords: "orders ?d' = [?order]" and its: "items_of ?d' (o_id ?order) = [?i1, ?i2]"
    by (simp_all add: items_of_def)
  from order_totals_after_build [OF run cents]
  have "\<forall>r \<in> set [?order]. o_id r = o_id ?order \<longrightarrow>
          o_total r = o_subtotal r + o_shipping_fee r - o_discount r
          \<and> o_subtotal r = sum_list (map oi_line_total [?i1, ?i2])"
    and "\<forall>i \<in> set [?i1, ?i2]. oi_line_total i = oi_unit_price i * of_int (oi_qty i)"
    unfolding ords its by blast+
  then have "(38 :: rat) = 35 + 5 - 2"
    and "(35 :: rat) = sum_list (map oi_line_total [?i1, ?i2])"
    and "oi_line_total ?i2 = 5 / 2 * of_int 2"
    by simp_all
  with run show ?thesis by blast
qed

text \<open>
  C1 as stated fails on amounts of three decimals. A new order with a shipping fee of
  0.005 and the two items 1 at 0.125 and 3 at 0.375 is stored with subtotal 1.25,
  shipping fee 0.00, discount 0.00 and total 1.26, and its line items with unit prices
  0.12 and 0.38 and line totals 0.12 and 1.12: the total is not the subtotal plus the
  fee, the subtotal is not the sum 1.24 of the line totals, and the second line total is
  not 3 times 0.38.
\<close>

theorem build_order_rounds_amounts:
  "build_order
     (empty_db\<lparr>sizes := [\<lparr>ps_id = 1, ps_code = ''STD'', ps_display_name = ''Standard''\<rparr>],
        fabrics := [\<lparr>ft_id = 1, ft_name = ''Cotton'', ft_is_active = True\<rparr>],
        skus := [\<lparr>sku_id = 1, sku_code = ''BAG-STD-COTTON-PLAIN'', sku_size = 1,
                   sku_fabric_type = 1, sku_print_pattern = None, sku_unit_price = 10,
                   sku_is_active = True\<rparr>],
        customers := [\<lparr>cu_id = 1, cu_full_name = ''Ann'', cu_phone = '''', cu_email = '''',
                        cu_address = ''''\<rparr>],
        statuses := [\<lparr>os_id = 1, os_code = ''NEW'', os_display_name = ''New'',
                       os_sort_order = 0\<rparr>]\<rparr>)
     \<lparr>ro_customer = ''Ann'', ro_status = ''NEW'', ro_order_date = (2024, 1, 5),
      ro_notes = Val ''ref-1'', ro_shipping_fee = Val (1 / 200), ro_discount = Missing,
      ro_items = [\<lparr>ri_size_code = ''STD'', ri_fabric_type = ''Cotton'',
                    ri_print_pattern = Missing, ri_qty = 1, ri_unit_price = Val (1 / 8)\<rparr>,
                  \<lparr>ri_size_code = ''STD'', ri_fabric_type = ''Cotton'',
                    ri_print_pattern = Missing, ri_qty = 3, ri_unit_price = Val (3 / 8)\<rparr>]\<rparr>
   = Inr (\<lparr>o_id = 1, o_customer = 1, o_status = 1, o_order_date = (2024, 1, 5),
            o_notes = ''ref-1'', o_subtotal = 5 / 4, o_shipping_fee = 1 / 200, o_discount = 0,
            o_total = 251 / 200\<rparr>,
          empty_db\<lparr>sizes := [\<lparr>ps_id = 1, ps_code = ''STD'', ps_display_name = ''Standard''\<rparr>],
        fabrics := [\<lparr>ft_id = 1, ft_name = ''Cotton'', ft_is_active = True\<rparr>],
        skus := [\<lparr>sku_id = 1, sku_code = ''BAG-STD-COTTON-PLAIN'', sku_size = 1,
                   sku_fabric_type = 1, sku_print_pattern = None, sku_unit_price = 10,
                   sku_is_active = True\<rparr>],
        customers := [\<lparr>cu_id = 1, cu_full_name = ''Ann'', cu_phone = '''', cu_email = '''',
                        cu_address = ''''\<rparr>],
        statuses := [\<lparr>os_id = 1, os_code = ''NEW'', os_display_name = ''New'',
                       os_sort_order = 0\<rparr>],
        orders := [\<lparr>o_id = 1, o_customer = 1, o_status = 1, o_order_date = (2024, 1, 5),
                     o_notes = ''ref-1'', o_subtotal = 125 / 100, o_shipping_fee = 0,
                     o_discount = 0, o_total = 126 / 100\<rparr>],
        items := [\<lparr>oi_id = 1, oi_order = 1, oi_sku = 1, oi_qty = 1, oi_unit_price = 12 / 100,
                    oi_line_total = 12 / 100\<rparr>,
                  \<lparr>oi_id = 2, oi_order = 1, oi_sku = 1, oi_qty = 3, oi_unit_price = 38 / 100,
                    oi_line_total = 112 / 100\<rparr>],
        item_seq := 2\<rparr>)
   \<and> (126 / 100 :: rat) \<noteq> 125 / 100 + 0 - 0
   \<and> (125 / 100 :: rat) \<noteq> 12 / 100 + 112 / 100
   \<and> (112 / 100 :: rat) \<noteq> 38 / 100 * of_int 3"
  by code_simp

text \<open>
  C8. When the customer of a fixture row is resolved and a stored order matches its
  (customer, order date, notes) key, a successful build creates no order row and works
  on the matched order: the order it returns has the status, shipping fee and discount
  of the stored order, whatever the fixture row says, and its total is its subtotal plus
  the stored shipping fee minus the stored discount. With unique primary keys and a
  stored shipping fee and discount of two decimals (as their columns hold them), the
  stored row of the matched order keeps its status, shipping fee and discount, and holds
  the subtotal and that total as their columns store them; the other orders are left as
  they are.
\<close>

theorem existing_order_header_kept:
  assumes "distinct (map o_id (orders d))"
    and "objects_get (\<lambda>r. cu_full_name r = ro_customer row) (customers d) = Inr customer"
    and "first_by o_id (filter (order_lookup customer (ro_order_date row)
                                  (get_or (ro_notes row) '''')) (orders d)) = Some existing"
    and "is_cents (o_shipping_fee existing)" and "is_cents (o_discount existing)"
    and "build_order d row = Inr (order, d')"
  shows "map o_id (orders d') = map o_id (orders d)
       \<and> o_id order = o_id existing
       \<and> o_status order = o_status existing
       \<and> o_shipping_fee order = o_shipping_fee existing
       \<and> o_discount order = o_discount existing
       \<and> o_total order = o_subtotal order + o_shipping_fee existing - o_discount existing
       \<and> (\<exists>r \<in> set (orders d'). o_id r = o_id existing)
       \<and> (\<forall>r \<in> set (orders d'). o_id r = o_id existing \<longrightarrow>
              o_status r = o_status existing
              \<and> o_shipping_fee r = o_shipping_fee existing
              \<and> o_discount r = o_discount existing
              \<and> o_subtotal r = quantize 2 (o_subtotal order)
              \<and> o_total r
                  = quantize 2 (o_subtotal order + o_shipping_fee existing - o_discount existing))
       \<and> (\<forall>r \<in> set (orders d). o_id r \<noteq> o_id existing \<longrightarrow> r \<in> set (orders d'))"
proof -
  from assms(6) obtain customer' status order0 and d1 :: db and new where
    c: "objects_get (\<lambda>r. cu_full_name r = ro_customer row) (customers d) = Inr customer'"
    and r: "(case first_by o_id (filter (order_lookup customer' (ro_order_date row)
                                   (get_or (ro_notes row) '''')) (orders d)) of
        Some order \<Rightarrow> Inr (order, d)
      | None \<Rightarrow> Order_create d customer' status (ro_order_date row) (get_or (ro_notes row) '''')
                  (ro_shipping_fee row) (ro_discount row)) = Inr (order0, d1)"
    and o: "order = order0\<lparr>o_subtotal := o_subtotal order,
                     o_total := o_subtotal order + o_shipping_fee order0 - o_discount order0\<rparr>"
    and od: "orders d' = map (saved_totals order) (orders d1)"
    by (rule build_order_result)
  from c assms(2) have "customer' = customer" by simp
  with r assms(3) have e: "order0 = existing" "d1 = d" by simp_all
  have oid: "o_id order = o_id existing"
    and ost: "o_status order = o_status existing"
    and ofe: "o_shipping_fee order = o_shipping_fee existing"
    and odi: "o_discount order = o_discount existing"
    by (subst o, simp add: e)+
  have tot: "o_total order = o_subtotal order + o_shipping_fee existing - o_discount existing"
    by (subst o, simp add: e)
  have mem: "existing \<in> set (orders d)"
    using first_by_mem [OF assms(3)] by simp
  have "\<And>x. o_id (saved_totals order x) = o_id x" by (simp add: saved_totals_def)
  then have "map o_id (map (saved_totals order) (orders d)) = map o_id (orders d)"
    by (simp only: map_map comp_def)
  then have ids: "map o_id (orders d') = map o_id (orders d)"
    unfolding od e .
  have "saved_totals order existing \<in> set (map (saved_totals order) (orders d))"
    using mem by (rule imageI [of existing "set (orders d)", folded set_map])
  then have ex: "\<exists>r \<in> set (orders d'). o_id r = o_id existing"
    unfolding od e by (intro bexI [of _ "saved_totals order existing"])
      (simp_all add: saved_totals_def)
  have all: "\<forall>r \<in> set (orders d'). o_id r = o_id existing \<longrightarrow>
              o_status r = o_status existing
              \<and> o_shipping_fee r = o_shipping_fee existing
              \<and> o_discount r = o_discount existing
              \<and> o_subtotal r = quantize 2 (o_subtotal order)
              \<and> o_total r
                  = quantize 2 (o_subtotal order + o_shipping_fee existing - o_discount existing)"
  proof (intro ballI impI)
    fix r assume r': "r \<in> set (orders d')" and k: "o_id r = o_id existing"
    from r' obtain x where x: "x \<in> set (orders d)" "r = saved_totals order x"
      unfolding od e by auto
    from x(2) k have "o_id x = o_id existing" by (simp add: saved_totals_def split: if_splits)
    from distinct_map_eq [OF assms(1) x(1) mem this] have "x = existing" .
    with x(2) oid ost ofe odi tot assms(4,5)
    show "o_status r = o_status existing
              \<and> o_shipping_fee r = o_shipping_fee existing
              \<and> o_discount r = o_discount existing
              \<and> o_subtotal r = quantize 2 (o_subtotal order)
              \<and> o_total r
                  = quantize 2 (o_subtotal order + o_shipping_fee existing - o_discount existing)"
      by (simp add: saved_totals_def is_cents_quantize)
  qed
  have others: "\<forall>r \<in> set (orders d). o_id r \<noteq> o_id existing \<longrightarrow> r \<in> set (orders d')"
  proof (intro ballI impI)
    fix r assume r': "r \<in> set (orders d)" and ne: "o_id r \<noteq> o_id existing"
    have "saved_totals order r \<in> set (map (saved_totals order) (orders d))"
      using r' by (rule imageI [of r "set (orders d)", folded set_map])
    moreover have "saved_totals order r = r" using ne oid by (simp add: saved_totals_def)
    ultimately show "r \<in> set (orders d')" unfolding od e by simp
  qed
  from ids oid ost ofe odi tot ex all others show ?thesis by blast
qed

theorem existing_order_header_kept_witness:
  "build_order
     (empty_db\<lparr>sizes := [\<lparr>ps_id = 1, ps_code = ''STD'', ps_display_name = ''Standard''\<rparr>],
        fabrics := [\<lparr>ft_id = 1, ft_name = ''Cotton'', ft_is_active = True\<rparr>],
        skus := [\<lparr>sku_id = 1, sku_code = ''BAG-STD-COTTON-PLAIN'', sku_size = 1,
                   sku_fabric_type = 1, sku_print_pattern = None, sku_unit_price = 10,
                   sku_is_active = True\<rparr>],
        customers := [\<lparr>cu_id = 1, cu_full_name = ''Ann'', cu_phone = '''', cu_email = '''',
                        cu_address = ''''\<rparr>],
        statuses := [\<lparr>os_id = 1, os_code = ''NEW'', os_display_name = ''New'',
                       os_sort_order = 0\<rparr>,
                     \<lparr>os_id = 2, os_code = ''SHIPPED'', os_display_name = ''Shipped'',
                       os_sort_order = 1\<rparr>],
        orders := [\<lparr>o_id = 7, o_customer = 1, o_status = 1, o_order_date = (2024, 1, 5),
                     o_notes = ''ref-1'', o_subtotal = 20, o_shipping_fee = 1 / 100,
                     o_discount = 0, o_total = 2001 / 100\<rparr>],
        items := [\<lparr>oi_id = 1, oi_order = 7, oi_sku = 1, oi_qty = 2, oi_unit_price = 10,
                    oi_line_total = 20\<rparr>],
        item_seq := 1\<rparr>)
     \<lparr>ro_customer = ''Ann'', ro_status = ''SHIPPED'', ro_order_date = (2024, 1, 5),
      ro_notes = Val ''ref-1'', ro_shipping_fee = Val 99, ro_discount = Val 50,
      ro_items = [\<lparr>ri_size_code = ''STD'', ri_fabric_type = ''Cotton'',
                    ri_print_pattern = Missing, ri_qty = 1, ri_unit_price = Val (1 / 8)\<rparr>]\<rparr>
   = Inr (\<lparr>o_id = 7, o_customer = 1, o_status = 1, o_order_date = (2024, 1, 5),
            o_notes = ''ref-1'', o_subtotal = 1 / 8, o_shipping_fee = 1 / 100, o_discount = 0,
            o_total = 27 / 200\<rparr>,
          empty_db\<lparr>sizes := [\<lparr>ps_id = 1, ps_code = ''STD'', ps_display_name = ''Standard''\<rparr>],
        fabrics := [\<lparr>ft_id = 1, ft_name = ''Cotton'', ft_is_active = True\<rparr>],
        skus := [\<lparr>sku_id = 1, sku_code = ''BAG-STD-COTTON-PLAIN'', sku_size = 1,
                   sku_fabric_type = 1, sku_print_pattern = None, sku_unit_price = 10,
                   sku_is_active = True\<rparr>],
        customers := [\<lparr>cu_id = 1, cu_full_name = ''Ann'', cu_phone = '''', cu_email = '''',
                        cu_address = ''''\<rparr>],
        statuses := [\<lparr>os_id = 1, os_code = ''NEW'', os_display_name = ''New'',
                       os_sort_order = 0\<rparr>,
                     \<lparr>os_id = 2, os_code = ''SHIPPED'', os_display_name = ''Shipped'',
                       os_sort_order = 1\<rparr>],
        orders := [\<lparr>o_id = 7, o_customer = 1, o_status = 1, o_order_date = (2024, 1, 5),
                     o_notes = ''ref-1'', o_subtotal = 12 / 100, o_shipping_fee = 1 / 100,
                     o_discount = 0, o_total = 14 / 100\<rparr>],
        items := [\<lparr>oi_id = 2, oi_order = 7, oi_sku = 1, oi_qty = 1, oi_unit_price = 12 / 100,
                    oi_line_total = 12 / 100\<rparr>],
        item_seq := 2\<rparr>)
   \<and> (27 / 200 :: rat) = 1 / 8 + 1 / 100 - 0
   \<and> (14 / 100 :: rat) = quantize 2 (1 / 8 + 1 / 100 - 0)"
proof -
  let ?base = "empty_db\<lparr>sizes := [\<lparr>ps_id = 1, ps_code = ''STD'', ps_display_name = ''Standard''\<rparr>],
        fabrics := [\<lparr>ft_id = 1, ft_name = ''Cotton'', ft_is_active = True\<rparr>],
        skus := [\<lparr>sku_id = 1, sku_code = ''BAG-STD-COTTON-PLAIN'', sku_size = 1,
                   sku_fabric_type = 1, sku_print_pattern = None, sku_unit_price = 10,
                   sku_is_active = True\<rparr>],
        customers := [\<lparr>cu_id = 1, cu_full_name = ''Ann'', cu_phone = '''', cu_email = '''',
                        cu_address = ''''\<rparr>],
        statuses := [\<lparr>os_id = 1, os_code = ''NEW'', os_display_name = ''New'',
                       os_sort_order = 0\<rparr>,
                     \<lparr>os_id = 2, os_code = ''SHIPPED'', os_display_name = ''Shipped'',
                       os_sort_order = 1\<rparr>]\<rparr>"
  let ?existing = "\<lparr>o_id = 7, o_customer = 1, o_status = 1, o_order_date = (2024, 1, 5),
                     o_notes = ''ref-1'', o_subtotal = 20, o_shipping_fee = 1 / 100,
                     o_discount = 0, o_total = 2001 / 100\<rparr>"
  let ?order = "\<lparr>o_id = 7, o_customer = 1, o_status = 1, o_order_date = (2024, 1, 5),
            o_notes = ''ref-1'', o_subtotal = 1 / 8, o_shipping_fee = 1 / 100, o_discount = 0,
            o_total = 27 / 200\<rparr>"
  let ?stored = "\<lparr>o_id = 7, o_customer = 1, o_status = 1, o_order_date = (2024, 1, 5),
                     o_notes = ''ref-1'', o_subtotal = 12 / 100, o_shipping_fee = 1 / 100,
                     o_discount = 0, o_total = 14 / 100\<rparr>"
  let ?d = "?base\<lparr>orders := [?existing],
        items := [\<lparr>oi_id = 1, oi_order = 7, oi_sku = 1, oi_qty = 2, oi_unit_price = 10,
                    oi_line_total = 20\<rparr>],
        item_seq := 1\<rparr>"
  let ?d' = "?base\<lparr>orders := [?stored],
        items := [\<lparr>oi_id = 2, oi_order = 7, oi_sku = 1, oi_qty = 1, oi_unit_price = 12 / 100,
                    oi_line_total = 12 / 100\<rparr>],
        item_seq := 2\<rparr>"
  let ?row = "\<lparr>ro_customer = ''Ann'', ro_status = ''SHIPPED'', ro_order_date = (2024, 1, 5),
      ro_notes = Val ''ref-1'', ro_shipping_fee = Val 99, ro_discount = Val 50,
      ro_items = [\<lparr>ri_size_code = ''STD'', ri_fabric_type = ''Cotton'',
                    ri_print_pattern = Missing, ri_qty = 1, ri_unit_price = Val (1 / 8)\<rparr>]\<rparr>"
  let ?customer = "\<lparr>cu_id = 1, cu_full_name = ''Ann'', cu_phone = '''', cu_email = '''',
                        cu_address = ''''\<rparr>"
  have keys: "distinct (map o_id (orders ?d))"
    by simp
  have cust: "objects_get (\<lambda>r. cu_full_name r = ro_customer ?row) (customers ?d) = Inr ?customer"
    by code_simp
  have found: "first_by o_id (filter (order_lookup ?customer (ro_order_date ?row)
                                  (get_or (ro_notes ?row) '''')) (orders ?d)) = Some ?existing"
    by code_simp
  have cents: "is_cents (o_shipping_fee ?existing)" "is_cents (o_discount ?existing)"
    by (simp_all add: is_cents_def)
  have run: "build_order ?d ?row = Inr (?order, ?d')"
    by code_simp
  have ords: "orders ?d' = [?stored]"
    by simp
  note kept = existing_order_header_kept [OF keys cust found cents run]
  from kept
  have "o_total ?order = o_subtotal ?order + o_shipping_fee ?existing - o_discount ?existing"
    by blast
  then have a: "(27 / 200 :: rat) = 1 / 8 + 1 / 100 - 0" by simp
  from kept
  have "\<forall>r \<in> set [?stored]. o_id r = o_id ?existing \<longrightarrow>
              o_status r = o_status ?existing
              \<and> o_shipping_fee r = o_shipping_fee ?existing
              \<and> o_discount r = o_discount ?existing
              \<and> o_subtotal r = quantize 2 (o_subtotal ?order)
              \<and> o_total r
                  = quantize 2 (o_subtotal ?order + o_shipping_fee ?existing - o_discount ?existing)"
    unfolding ords by blast
  then have b: "(14 / 100 :: rat) = quantize 2 (1 / 8 + 1 / 100 - 0)"
    by simp
  from run a b show ?thesis by blast
qed

section \<open>Building an order again\<close>

lemma get_sku_catalog:
  assumes "get_sku d sc fn pn = Inr (sku, d1)"
  shows "sizes d1 = sizes d" "fabrics d1 = fabrics d" "patterns d1 = patterns d"
  using assms by (rule get_sku_cases, auto)+

lemma settled_resolves: "settled d sc fn pn sku \<Longrightarrow> get_sku d sc fn pn = Inr (sku, d)"
  unfolding settled_def by (auto intro: get_sku_found)

lemma settled_after:
  assumes "get_sku d sc fn pn = Inr (sku, d1)"
  shows "settled d1 sc fn pn sku"
proof -
  from assms obtain sz fabric pattern where
    l: "get_size d sc = Inr sz" "get_fabric d fn = Inr fabric" "get_print d pn = Inr pattern"
    and f: "filter (sku_lookup sz fabric pattern) (skus d1) = [sku]"
    by (rule get_sku_post)
  note fr = get_sku_catalog [OF assms]
  have "get_size d1 sc = Inr sz" "get_fabric d1 fn = Inr fabric" "get_print d1 pn = Inr pattern"
    using l get_size_same [OF fr(1), of sc] get_fabric_same [OF fr(2), of fn]
      get_print_same [OF fr(3), of pn] by simp_all
  with f get_sku_code_nonempty [OF assms] show ?thesis
    unfolding settled_def by blast
qed

lemma settled_same_catalog:
  assumes "settled a sc fn pn sku"
    and "sizes b = sizes a" "fabrics b = fabrics a" "patterns b = patterns a" "skus b = skus a"
  shows "settled b sc fn pn sku"
  using assms(1) get_size_same [OF assms(2), of sc] get_fabric_same [OF assms(3), of fn]
    get_print_same [OF assms(4), of pn] assms(5)
  unfolding settled_def by simp

text \<open>A later resolve keeps a settled SKU settled, with its key and its price.\<close>

lemma settled_kept:
  assumes s: "settled a sc fn pn sku" and g: "get_sku a sc' fn' pn' = Inr (sku', a')"
  shows "\<exists>sku2. settled a' sc fn pn sku2 \<and> sku_id sku2 = sku_id sku
           \<and> sku_unit_price sku2 = sku_unit_price sku"
proof -
  from s obtain sz fabric pattern where
    l: "get_size a sc = Inr sz" "get_fabric a fn = Inr fabric" "get_print a pn = Inr pattern"
    and f: "filter (sku_lookup sz fabric pattern) (skus a) = [sku]" and c: "sku_code sku \<noteq> []"
    unfolding settled_def by blast
  note fr = get_sku_catalog [OF g]
  have l': "get_size a' sc = Inr sz" "get_fabric a' fn = Inr fabric" "get_print a' pn = Inr pattern"
    using l get_size_same [OF fr(1), of sc] get_fabric_same [OF fr(2), of fn]
      get_print_same [OF fr(3), of pn] by simp_all
  let ?p = "sku_lookup sz fabric pattern"
  have "\<exists>sku2. filter ?p (skus a') = [sku2] \<and> sku_code sku2 \<noteq> [] \<and> sku_id sku2 = sku_id sku
           \<and> sku_unit_price sku2 = sku_unit_price sku"
    using g
  proof (rule get_sku_cases)
    fix sz' fabric' pattern'
    assume "(filter (sku_lookup sz' fabric' pattern') (skus a) = []
        \<and> sku' = \<lparr>sku_id = fresh_pk (map sku_id (skus a)),
                  sku_code = build_sku_code sz' fabric' pattern',
                  sku_size = ps_id sz', sku_fabric_type = ft_id fabric',
                  sku_print_pattern = map_option pp_id pattern',
                  sku_unit_price = 0, sku_is_active = True\<rparr>
        \<and> (\<forall>r \<in> set (skus a). sku_code r \<noteq> sku_code sku')
        \<and> a' = a\<lparr>skus := skus a @ [sku']\<rparr>)
     \<or> (filter (sku_lookup sz' fabric' pattern') (skus a) = [sku'] \<and> sku_code sku' \<noteq> [] \<and> a' = a)
     \<or> (\<exists>r. filter (sku_lookup sz' fabric' pattern') (skus a) = [r] \<and> sku_code r = []
            \<and> sku' = r\<lparr>sku_code := build_sku_code sz' fabric' pattern'\<rparr>
            \<and> (\<forall>x \<in> set (skus a). sku_id x \<noteq> sku_id r \<longrightarrow> sku_code x \<noteq> sku_code sku')
            \<and> a' = a\<lparr>skus := map (\<lambda>x. if sku_id x = sku_id r
                                          then x\<lparr>sku_code := sku_code sku'\<rparr> else x) (skus a)\<rparr>)"
    then consider
      (created) "filter (sku_lookup sz' fabric' pattern') (skus a) = []"
          "sku' = \<lparr>sku_id = fresh_pk (map sku_id (skus a)),
                  sku_code = build_sku_code sz' fabric' pattern',
                  sku_size = ps_id sz', sku_fabric_type = ft_id fabric',
                  sku_print_pattern = map_option pp_id pattern',
                  sku_unit_price = 0, sku_is_active = True\<rparr>"
          "a' = a\<lparr>skus := skus a @ [sku']\<rparr>"
      | (found) "a' = a"
      | (backfilled) r where
          "sku' = r\<lparr>sku_code := build_sku_code sz' fabric' pattern'\<rparr>"
          "a' = a\<lparr>skus := map (\<lambda>x. if sku_id x = sku_id r
                                          then x\<lparr>sku_code := sku_code sku'\<rparr> else x) (skus a)\<rparr>"
      by blast
    then show ?thesis
    proof cases
      case created
      have "\<not> ?p sku'"
      proof
        assume "?p sku'"
        with created(2) have "sku_lookup sz' fabric' pattern' = ?p"
          by (intro ext) (simp add: sku_lookup_def)
        then have "filter (sku_lookup sz' fabric' pattern') (skus a) = filter ?p (skus a)"
          by (rule arg_cong [where f = "\<lambda>q. filter q (skus a)"])
        with created(1) f show False by simp
      qed
      with created(3) f c show ?thesis by simp
    next
      case found
      with f c show ?thesis by simp
    next
      case backfilled
      let ?g = "\<lambda>x. if sku_id x = sku_id r then x\<lparr>sku_code := sku_code sku'\<rparr> else x"
      have "filter ?p (map ?g (skus a)) = map ?g (filter ?p (skus a))"
        by (rule filter_map_keeps) (simp add: sku_lookup_code)
      with backfilled(2) f have "filter ?p (skus a') = [?g sku]" by simp
      moreover have "sku_code (?g sku) \<noteq> []"
        using c backfilled(1) by (simp add: build_sku_code_nonempty)
      moreover have "sku_id (?g sku) = sku_id sku" "sku_unit_price (?g sku) = sku_unit_price sku"
        by simp_all
      ultimately show ?thesis by blast
    qed
  qed
  with l' show ?thesis unfolding settled_def by blast
qed

lemma seed_order_item_same_key: "o_id x = o_id y \<Longrightarrow> seed_order_item x = seed_order_item y"
  by (intro ext) (simp add: seed_order_item_def)

lemma settled_kept_loop:
  assumes "for_each (seed_order_item order) (a, s) its = Inr (b, s')"
    and "settled a sc fn pn sku"
  shows "\<exists>sku2. settled b sc fn pn sku2 \<and> sku_id sku2 = sku_id sku
           \<and> sku_unit_price sku2 = sku_unit_price sku"
  using assms
proof (induction its arbitrary: a s sku)
  case Nil
  then show ?case by auto
next
  case (Cons item its)
  from Cons.prems(1) obtain a1 s1 where
    step: "seed_order_item order (a, s) item = Inr (a1, s1)"
    and rest: "for_each (seed_order_item order) (a1, s1) its = Inr (b, s')"
    by (auto split: sum.splits)
  from step obtain sk a0 p where
    g: "get_sku a (ri_size_code item) (ri_fabric_type item) (get_none (ri_print_pattern item))
       = Inr (sk, a0)"
    and a1: "a1 = a0\<lparr>items := items a0 @
            [\<lparr>oi_id = new_item_key a0, oi_order = o_id order,
              oi_sku = sku_id sk, oi_qty = ri_qty item, oi_unit_price = quantize 2 p,
              oi_line_total = quantize 2 (p * of_int (ri_qty item))\<rparr>],
          item_seq := new_item_key a0\<rparr>"
    by (rule seed_order_item_cases)
  from settled_kept [OF Cons.prems(2) g] obtain sku1 where
    k: "settled a0 sc fn pn sku1" "sku_id sku1 = sku_id sku" "sku_unit_price sku1 = sku_unit_price sku"
    by blast
  have "settled a1 sc fn pn sku1"
    by (rule settled_same_catalog [OF k(1)]) (simp_all add: a1)
  from Cons.IH [OF rest this] k(2,3) show ?case by auto
qed

text \<open>A line item that could be created can be created again, in any database.\<close>

lemma OrderItem_create_again:
  assumes "OrderItem_create a k s q p t = Inr b"
  shows "OrderItem_create c k' s' q p t
           = Inr (c\<lparr>items := items c @
                    [\<lparr>oi_id = new_item_key c, oi_order = k', oi_sku = s', oi_qty = q,
                      oi_unit_price = quantize 2 p, oi_line_total = quantize 2 t\<rparr>],
                  item_seq := new_item_key c\<rparr>)"
proof -
  from assms obtain sp st sq where
    f: "to_decimal_field 12 2 p = Inr sp" "to_decimal_field 12 2 t = Inr st"
    "to_integer_field q = Inr sq"
    by (auto simp: OrderItem_create_def Let_def and_then_eq_Inr)
  then have "sp = quantize 2 p" "st = quantize 2 t" "sq = q"
    by (simp_all add: to_decimal_field_Inr to_integer_field_Inr)
  with f show ?thesis by (simp add: OrderItem_create_def Let_def)
qed

text \<open>
  The loop over the items, run again in a database with the catalogue the first run
  left, creates line items with the same content and adds the same amount.
\<close>

lemma order_items_replay:
  assumes "for_each (seed_order_item order) (a, s) its = Inr (b, s')"
    and "sizes c = sizes b" "fabrics c = fabrics b" "patterns c = patterns b" "skus c = skus b"
  shows "\<exists>new1 new2 k. items b = items a @ new1
           \<and> for_each (seed_order_item order) (c, t) its
               = Inr (c\<lparr>items := items c @ new2, item_seq := k\<rparr>, t + (s' - s))
           \<and> map item_content new2 = map item_content new1
           \<and> length new1 = length its"
  using assms
proof (induction its arbitrary: a s c t)
  case Nil
  then have "items b = items a @ []"
    "for_each (seed_order_item order) (c, t) []
       = Inr (c\<lparr>items := items c @ [], item_seq := item_seq c\<rparr>, t + (s' - s))"
    "map item_content ([] :: OrderItem list) = map item_content []"
    "length ([] :: OrderItem list) = length ([] :: item_row list)"
    by simp_all
  then show ?case by blast
next
  case (Cons item its)
  from Cons.prems(1) obtain a1 s1 where
    step: "seed_order_item order (a, s) item = Inr (a1, s1)"
    and rest: "for_each (seed_order_item order) (a1, s1) its = Inr (b, s')"
    by (auto split: sum.splits)
  from step obtain sk a0 p where
    g: "get_sku a (ri_size_code item) (ri_fabric_type item) (get_none (ri_print_pattern item))
       = Inr (sk, a0)"
    and p: "py_decimal (get_or (ri_unit_price item) (sku_unit_price sk)) = Inr p"
    and cr: "OrderItem_create a0 (o_id order) (sku_id sk) (ri_qty item) p
               (p * of_int (ri_qty item)) = Inr a1"
    and a1: "a1 = a0\<lparr>items := items a0 @
            [\<lparr>oi_id = new_item_key a0, oi_order = o_id order,
              oi_sku = sku_id sk, oi_qty = ri_qty item, oi_unit_price = quantize 2 p,
              oi_line_total = quantize 2 (p * of_int (ri_qty item))\<rparr>],
          item_seq := new_item_key a0\<rparr>"
    and s1: "s1 = s + p * of_int (ri_qty item)"
    by (rule seed_order_item_cases)
  let ?it = "\<lparr>oi_id = new_item_key a0, oi_order = o_id order,
              oi_sku = sku_id sk, oi_qty = ri_qty item, oi_unit_price = quantize 2 p,
              oi_line_total = quantize 2 (p * of_int (ri_qty item))\<rparr>"
  have "settled a1 (ri_size_code item) (ri_fabric_type item) (get_none (ri_print_pattern item)) sk"
    by (rule settled_same_catalog [OF settled_after [OF g]]) (simp_all add: a1)
  from settled_kept_loop [OF rest this] obtain sk2 where
    k: "settled b (ri_size_code item) (ri_fabric_type item) (get_none (ri_print_pattern item)) sk2"
    "sku_id sk2 = sku_id sk" "sku_unit_price sk2 = sku_unit_price sk"
    by blast
  have "settled c (ri_size_code item) (ri_fabric_type item) (get_none (ri_print_pattern item)) sk2"
    using k(1) Cons.prems(2-5) by (rule settled_same_catalog)
  then have g2: "get_sku c (ri_size_code item) (ri_fabric_type item)
                   (get_none (ri_print_pattern item)) = Inr (sk2, c)"
    by (rule settled_resolves)
  let ?it2 = "\<lparr>oi_id = new_item_key c, oi_order = o_id order,
              oi_sku = sku_id sk2, oi_qty = ri_qty item, oi_unit_price = quantize 2 p,
              oi_line_total = quantize 2 (p * of_int (ri_qty item))\<rparr>"
  let ?c1 = "c\<lparr>items := items c @ [?it2], item_seq := new_item_key c\<rparr>"
  have cr2: "OrderItem_create c (o_id order) (sku_id sk2) (ri_qty item) p
               (p * of_int (ri_qty item)) = Inr ?c1"
    by (rule OrderItem_create_again [OF cr])
  have step2: "seed_order_item order (c, t) item = Inr (?c1, t + p * of_int (ri_qty item))"
    using g2 p k(3) cr2 by (simp add: seed_order_item_def Let_def)
  have cat: "sizes ?c1 = sizes b" "fabrics ?c1 = fabrics b" "patterns ?c1 = patterns b"
    "skus ?c1 = skus b"
    using Cons.prems(2-5) by simp_all
  from Cons.IH [OF rest cat, of "t + p * of_int (ri_qty item)"] obtain new1 new2 k' where
    n: "items b = items a1 @ new1"
    "for_each (seed_order_item order) (?c1, t + p * of_int (ri_qty item)) its
       = Inr (?c1\<lparr>items := items ?c1 @ new2, item_seq := k'\<rparr>,
              t + p * of_int (ri_qty item) + (s' - s1))"
    "map item_content new2 = map item_content new1"
    "length new1 = length its"
    by blast
  have ia: "items a1 = items a @ [?it]"
    using a1 get_sku_except(2) [OF g] by simp
  have r1: "items b = items a @ ?it # new1" using n(1) ia by simp
  have r2: "for_each (seed_order_item order) (c, t) (item # its)
            = Inr (c\<lparr>items := items c @ ?it2 # new2, item_seq := k'\<rparr>, t + (s' - s))"
    using step2 n(2) s1 by simp
  have r3: "map item_content (?it2 # new2) = map item_content (?it # new1)"
    using n(3) k(2) by (simp add: item_content_def)
  have r4: "length (?it # new1) = length (item # its)" using n(4) by simp
  from r1 r2 r3 r4 show ?case by blast
qed

lemma first_by_map:
  assumes "\<And>x. key (g x) = key x"
  shows "first_by key (map g xs) = map_option g (first_by key xs)"
  by (induction xs) (simp_all add: assms split: option.splits)

lemma except_skus_items_fields:
  assumes "except_skus_items b = except_skus_items a"
  shows "customers b = customers a" "statuses b = statuses a" "orders b = orders a"
    "sizes b = sizes a" "fabrics b = fabrics a" "patterns b = patterns a"
proof -
  have "customers (except_skus_items b) = customers (except_skus_items a)"
    "statuses (except_skus_items b) = statuses (except_skus_items a)"
    "orders (except_skus_items b) = orders (except_skus_items a)"
    "sizes (except_skus_items b) = sizes (except_skus_items a)"
    "fabrics (except_skus_items b) = fabrics (except_skus_items a)"
    "patterns (except_skus_items b) = patterns (except_skus_items a)"
    using assms by simp_all
  then show "customers b = customers a" "statuses b = statuses a" "orders b = orders a"
    "sizes b = sizes a" "fabrics b = fabrics a" "patterns b = patterns a"
    by (simp_all add: except_skus_items_def)
qed

text \<open>
  The order a build works on is, as it is stored, the first match of its key afterwards;
  the stored row is the order itself, or the order with its shipping fee and discount
  as their columns store them.
\<close>

lemma order_resolved_first:
  assumes "(case first_by o_id (filter (order_lookup customer order_date notes) (orders d)) of
              Some order \<Rightarrow> Inr (order, d)
            | None \<Rightarrow> Order_create d customer status order_date notes shipping discount)
           = Inr (order, d1)"
  shows "\<exists>x. first_by o_id (filter (order_lookup customer order_date notes) (orders d1)) = Some x
           \<and> (x = order
               \<or> x = order\<lparr>o_shipping_fee := quantize 2 (o_shipping_fee order),
                           o_discount := quantize 2 (o_discount order)\<rparr>)"
proof -
  let ?p = "order_lookup customer order_date notes"
  show ?thesis
  proof (cases "first_by o_id (filter ?p (orders d))")
    case (Some r)
    with assms show ?thesis by simp
  next
    case None
    then have e: "filter ?p (orders d) = []" by (simp add: first_by_None)
    from None assms obtain sh di sf sd n where
      n: "notes = Some n"
      and sf: "to_decimal_field 12 2 sh = Inr sf" "to_decimal_field 12 2 di = Inr sd"
      and o: "order = \<lparr>o_id = fresh_pk (map o_id (orders d)), o_customer = cu_id customer,
                     o_status = os_id status, o_order_date = order_date, o_notes = n,
                     o_subtotal = 0, o_shipping_fee = sh, o_discount = di, o_total = 0\<rparr>"
      and d1: "d1 = d\<lparr>orders := orders d @ [order\<lparr>o_shipping_fee := sf, o_discount := sd\<rparr>]\<rparr>"
      by (cases "notes") (auto simp: Order_create_def Let_def and_then_eq_Inr)
    let ?x = "order\<lparr>o_shipping_fee := sf, o_discount := sd\<rparr>"
    from n o have "?p ?x" by (simp add: order_lookup_def)
    with e d1 have "first_by o_id (filter ?p (orders d1)) = Some ?x" by simp
    moreover have "sf = quantize 2 (o_shipping_fee order)" "sd = quantize 2 (o_discount order)"
      using sf o by (simp_all add: to_decimal_field_Inr)
    ultimately show ?thesis by blast
  qed
qed

lemma order_lookup_saved:
  "order_lookup customer order_date notes (saved_totals order r)
   = order_lookup customer order_date notes r"
  by (simp add: order_lookup_def saved_totals_def)

lemma saved_totals_twice: "saved_totals order (saved_totals order r) = saved_totals order r"
  by (simp add: saved_totals_def)

lemma filter_none: "\<forall>x \<in> set xs. \<not> p x \<Longrightarrow> filter p xs = []"
  by (induction xs) simp_all

text \<open>The save of the totals succeeds when the four amounts fit their columns.\<close>

lemma Order_save_totals_fits:
  assumes "to_decimal_field 12 2 (o_subtotal order) = Inr s"
    and "to_decimal_field 12 2 (o_shipping_fee order) = Inr f"
    and "to_decimal_field 12 2 (o_discount order) = Inr c"
    and "to_decimal_field 12 2 (o_total order) = Inr t"
  shows "Order_save_totals d order = Inr (d\<lparr>orders := map (saved_totals order) (orders d)\<rparr>)"
proof -
  from assms have "s = quantize 2 (o_subtotal order)" "f = quantize 2 (o_shipping_fee order)"
    "c = quantize 2 (o_discount order)" "t = quantize 2 (o_total order)"
    by (simp_all add: to_decimal_field_Inr)
  with assms show ?thesis
    by (simp add: Order_save_totals_def saved_totals_def [abs_def])
qed

lemma Order_save_totals_amounts:
  assumes "Order_save_totals d order = Inr d'"
  shows "\<exists>s f c t. to_decimal_field 12 2 (o_subtotal order) = Inr s
           \<and> to_decimal_field 12 2 (o_shipping_fee order) = Inr f
           \<and> to_decimal_field 12 2 (o_discount order) = Inr c
           \<and> to_decimal_field 12 2 (o_total order) = Inr t"
  using assms by (auto simp: Order_save_totals_def and_then_eq_Inr)

text \<open>
  C2. After a successful build of a fixture row, the order has as many line items as
  the row requests. Whenever a build of a row with the same customer, order date, notes
  and items succeeds after it, it has worked on the same order and the line items it
  leaves have the same contents in the same sequence as before, for every order: the old
  ones of the order were deleted and the requested ones created again, under new keys.
  When the shipping fee and the discount of the order have at most two decimals, such a
  build does succeed (for the same status, or any status that is stored), returns the
  same order and leaves the database as it was but for those keys.
\<close>

theorem build_order_twice:
  assumes "build_order d row = Inr (order, d1)"
    and "ro_customer row' = ro_customer row" and "ro_order_date row' = ro_order_date row"
    and "ro_notes row' = ro_notes row" and "ro_items row' = ro_items row"
    and "ro_status row' = ro_status row
         \<or> (\<exists>s. objects_get (\<lambda>r. os_code r = ro_status row') (statuses d) = Inr s)"
  shows "length (items_of d1 (o_id order)) = length (ro_items row)
       \<and> (\<forall>order2 d2. build_order d1 row' = Inr (order2, d2) \<longrightarrow>
             o_id order2 = o_id order
             \<and> map item_content (items d2) = map item_content (items d1))
       \<and> (is_cents (o_shipping_fee order) \<and> is_cents (o_discount order) \<longrightarrow>
            (\<exists>d2. build_order d1 row' = Inr (order, d2)
               \<and> d2 = d1\<lparr>items := items d2, item_seq := item_seq d2\<rparr>
               \<and> map item_content (items d2) = map item_content (items d1)))"
proof -
  from assms(1) obtain customer status order0 dA d3 subtotal where
    c: "objects_get (\<lambda>r. cu_full_name r = ro_customer row) (customers d) = Inr customer"
    and st: "objects_get (\<lambda>r. os_code r = ro_status row) (statuses d) = Inr status"
    and r: "(case first_by o_id (filter (order_lookup customer (ro_order_date row)
                                   (get_or (ro_notes row) '''')) (orders d)) of
        Some order \<Rightarrow> Inr (order, d)
      | None \<Rightarrow> Order_create d customer status (ro_order_date row) (get_or (ro_notes row) '''')
                  (ro_shipping_fee row) (ro_discount row)) = Inr (order0, dA)"
    and l: "for_each (seed_order_item order0)
       (dA\<lparr>items := filter (\<lambda>i. oi_order i \<noteq> o_id order0) (items dA)\<rparr>, 0) (ro_items row)
       = Inr (d3, subtotal)"
    and o: "order = order0\<lparr>o_subtotal := subtotal,
                    o_total := subtotal + o_shipping_fee order0 - o_discount order0\<rparr>"
    and sv: "Order_save_totals d3 order = Inr d1"
    by (rule build_order_cases)
  from assms(6) st obtain status' where
    st': "objects_get (\<lambda>r. os_code r = ro_status row') (statuses d) = Inr status'"
    by auto
  let ?p = "order_lookup customer (ro_order_date row) (get_or (ro_notes row) '''')"
  let ?k = "o_id order"
  let ?a = "dA\<lparr>items := filter (\<lambda>i. oi_order i \<noteq> o_id order0) (items dA)\<rparr>"
  let ?c = "d1\<lparr>items := filter (\<lambda>i. oi_order i \<noteq> ?k) (items d1)\<rparr>"
  let ?R = "saved_totals order order"
  have oid: "o_id order0 = ?k" using o by simp
  note d1 = Order_save_totals_Inr [OF sv]
  note frA = order_resolved(2) [OF r]
  have dA: "customers dA = customers d" "statuses dA = statuses d"
    by (subst frA, simp)+
  from order_items_loop [OF l] obtain new where
    e: "except_skus_items d3 = except_skus_items ?a"
    and n: "items d3 = items ?a @ new" "\<forall>i \<in> set new. oi_order i = o_id order0"
    by blast
  from except_skus_items_fields [OF e]
  have d3: "customers d3 = customers dA" "statuses d3 = statuses dA" "orders d3 = orders dA"
    by simp_all
  have ord1: "orders d1 = map (saved_totals order) (orders dA)"
    using d1 d3(3) by simp
  have d1': "customers d1 = customers d" "statuses d1 = statuses d" "items d1 = items d3"
    using d1 d3 dA by simp_all
  have cat: "sizes ?c = sizes d3" "fabrics ?c = fabrics d3" "patterns ?c = patterns d3"
    "skus ?c = skus d3"
    using d1 by simp_all
  from order_items_replay [OF l cat, of 0] obtain new1 new2 k where
    rp: "items d3 = items ?a @ new1"
    "for_each (seed_order_item order0) (?c, 0) (ro_items row)
       = Inr (?c\<lparr>items := items ?c @ new2, item_seq := k\<rparr>, 0 + (subtotal - 0))"
    "map item_content new2 = map item_content new1"
    "length new1 = length (ro_items row)"
    by blast
  let ?c2 = "?c\<lparr>items := items ?c @ new2, item_seq := k\<rparr>"
  from rp(1) n(1) have same: "new1 = new" by simp
  have it1: "items d1 = filter (\<lambda>i. oi_order i \<noteq> ?k) (items dA) @ new1"
    using d1'(3) rp(1) oid by simp
  have none: "filter (\<lambda>i. oi_order i \<noteq> ?k) new1 = []"
    using n(2) same oid by (intro filter_none) simp
  have all: "filter (\<lambda>i. oi_order i = ?k) new1 = new1"
    using n(2) same oid by (intro filter_all) simp
  have kept: "filter (\<lambda>i. oi_order i \<noteq> ?k) (items d1) = filter (\<lambda>i. oi_order i \<noteq> ?k) (items dA)"
    unfolding it1 using none by simp
  have count: "length (items_of d1 ?k) = length (ro_items row)"
    unfolding items_of_def it1 using all rp(4) by (simp add: filter_other_order)
  have content2: "map item_content (items ?c2) = map item_content (items d1)"
    using kept it1 rp(3) by simp
  have found: "first_by o_id (filter ?p (orders d1)) = Some ?R"
  proof -
    from order_resolved_first [OF r] obtain x where
      x: "first_by o_id (filter ?p (orders dA)) = Some x"
      and xo: "x = order0 \<or> x = order0\<lparr>o_shipping_fee := quantize 2 (o_shipping_fee order0),
                                          o_discount := quantize 2 (o_discount order0)\<rparr>"
      by blast
    have "filter ?p (map (saved_totals order) (orders dA))
            = map (saved_totals order) (filter ?p (orders dA))"
      by (rule filter_map_keeps) (simp add: order_lookup_saved)
    moreover have "first_by o_id (map (saved_totals order) (filter ?p (orders dA)))
                     = map_option (saved_totals order) (first_by o_id (filter ?p (orders dA)))"
      by (rule first_by_map) (simp add: saved_totals_def)
    moreover have "saved_totals order x = ?R"
      using xo o by (auto simp: saved_totals_def)
    ultimately show ?thesis using x ord1 by simp
  qed
  let ?order2 = "?R\<lparr>o_subtotal := subtotal,
                     o_total := subtotal + o_shipping_fee ?R - o_discount ?R\<rparr>"
  have step: "seed_order_item ?R = seed_order_item order0"
    by (rule seed_order_item_same_key) (simp add: saved_totals_def oid)
  have loop2: "for_each (seed_order_item ?R)
                 (d1\<lparr>items := filter (\<lambda>i. oi_order i \<noteq> o_id ?R) (items d1)\<rparr>, 0) (ro_items row)
                 = Inr (?c2, subtotal)"
  proof -
    have "o_id ?R = ?k" by (simp add: saved_totals_def)
    then show ?thesis using rp(2) step by simp
  qed
  have run2: "build_order d1 row'
                = and_then (Order_save_totals ?c2 ?order2) (\<lambda>d4. Inr (?order2, d4))"
    using c st' found loop2 assms(2-5) by (simp add: build_order_def Let_def d1'(1,2))
  have id2: "o_id ?order2 = ?k" by (simp add: saved_totals_def)
  have general: "\<forall>order2 d2. build_order d1 row' = Inr (order2, d2) \<longrightarrow>
             o_id order2 = ?k
             \<and> map item_content (items d2) = map item_content (items d1)"
  proof (intro allI impI)
    fix order2 d2 assume b2: "build_order d1 row' = Inr (order2, d2)"
    have "and_then (Order_save_totals ?c2 ?order2) (\<lambda>d4. Inr (?order2, d4)) = Inr (order2, d2)"
      unfolding run2 [symmetric] by (rule b2)
    then obtain d4 where "Order_save_totals ?c2 ?order2 = Inr d4"
      "(Inr (?order2, d4) :: error + Order \<times> db) = Inr (order2, d2)"
      unfolding and_then_eq_Inr by blast
    then have o2: "order2 = ?order2" and s2: "Order_save_totals ?c2 ?order2 = Inr d2"
      by simp_all
    from Order_save_totals_Inr [OF s2] have "items d2 = items ?c2" by simp
    with content2 o2 id2
    show "o_id order2 = ?k \<and> map item_content (items d2) = map item_content (items d1)"
      by simp
  qed
  have cents: "is_cents (o_shipping_fee order) \<and> is_cents (o_discount order) \<longrightarrow>
            (\<exists>d2. build_order d1 row' = Inr (order, d2)
               \<and> d2 = d1\<lparr>items := items d2, item_seq := item_seq d2\<rparr>
               \<and> map item_content (items d2) = map item_content (items d1))"
  proof (intro impI)
    assume fd: "is_cents (o_shipping_fee order) \<and> is_cents (o_discount order)"
    then have q: "quantize 2 (o_shipping_fee order) = o_shipping_fee order"
      "quantize 2 (o_discount order) = o_discount order"
      by (simp_all add: is_cents_quantize)
    have "?order2 = order\<lparr>o_subtotal := subtotal,
                          o_total := subtotal + o_shipping_fee order - o_discount order\<rparr>"
      using q by (simp add: saved_totals_def)
    also have "\<dots> = order" using o by simp
    finally have o2: "?order2 = order" .
    from Order_save_totals_amounts [OF sv] obtain s f c t where
      "to_decimal_field 12 2 (o_subtotal order) = Inr s"
      "to_decimal_field 12 2 (o_shipping_fee order) = Inr f"
      "to_decimal_field 12 2 (o_discount order) = Inr c"
      "to_decimal_field 12 2 (o_total order) = Inr t"
      by blast
    then have s2: "Order_save_totals ?c2 order
                     = Inr (?c2\<lparr>orders := map (saved_totals order) (orders ?c2)\<rparr>)"
      by (rule Order_save_totals_fits)
    let ?d2 = "?c2\<lparr>orders := map (saved_totals order) (orders ?c2)\<rparr>"
    have r2: "build_order d1 row' = Inr (order, ?d2)"
      using run2 s2 unfolding o2 by simp
    have "map (saved_totals order) (map (saved_totals order) (orders dA))
            = map (saved_totals order) (orders dA)"
      by (simp add: saved_totals_twice)
    then have "orders ?d2 = orders d1" using ord1 by simp
    then have "?d2 = d1\<lparr>items := items ?d2, item_seq := item_seq ?d2, orders := orders d1\<rparr>"
      by simp
    then have frame: "?d2 = d1\<lparr>items := items ?d2, item_seq := item_seq ?d2\<rparr>"
      by simp
    have "items ?d2 = items ?c2" by simp
    with content2 have ct: "map item_content (items ?d2) = map item_content (items d1)"
      by simp
    from r2 frame ct
    show "\<exists>d2. build_order d1 row' = Inr (order, d2)
               \<and> d2 = d1\<lparr>items := items d2, item_seq := item_seq d2\<rparr>
               \<and> map item_content (items d2) = map item_content (items d1)"
      by blast
  qed
  from count general cents show ?thesis by blast
qed

theorem build_order_twice_witness:
  "build_order
     (empty_db\<lparr>sizes := [\<lparr>ps_id = 1, ps_code = ''STD'', ps_display_name = ''Standard''\<rparr>],
        fabrics := [\<lparr>ft_id = 1, ft_name = ''Cotton'', ft_is_active = True\<rparr>],
        customers := [\<lparr>cu_id = 1, cu_full_name = ''Ann'', cu_phone = '''', cu_email = '''',
                        cu_address = ''''\<rparr>],
        statuses := [\<lparr>os_id = 1, os_code = ''NEW'', os_display_name = ''New'',
                       os_sort_order = 0\<rparr>]\<rparr>)
     \<lparr>ro_customer = ''Ann'', ro_status = ''NEW'', ro_order_date = (2024, 1, 5),
      ro_notes = Missing, ro_shipping_fee = Val 5, ro_discount = Missing,
      ro_items = [\<lparr>ri_size_code = ''STD'', ri_fabric_type = ''Cotton'',
                    ri_print_pattern = Missing, ri_qty = 3, ri_unit_price = Val 10\<rparr>,
                  \<lparr>ri_size_code = ''STD'', ri_fabric_type = ''Cotton'',
                    ri_print_pattern = Missing, ri_qty = 2, ri_unit_price = Missing\<rparr>]\<rparr>
   = Inr (\<lparr>o_id = 1, o_customer = 1, o_status = 1, o_order_date = (2024, 1, 5),
            o_notes = '''', o_subtotal = 30, o_shipping_fee = 5, o_discount = 0,
            o_total = 35\<rparr>,
          empty_db\<lparr>sizes := [\<lparr>ps_id = 1, ps_code = ''STD'', ps_display_name = ''Standard''\<rparr>],
        fabrics := [\<lparr>ft_id = 1, ft_name = ''Cotton'', ft_is_active = True\<rparr>],
        skus := [\<lparr>sku_id = 1, sku_code = ''BAG-STD-COTTON-PLAIN'', sku_size = 1,
                   sku_fabric_type = 1, sku_print_pattern = None, sku_unit_price = 0,
                   sku_is_active = True\<rparr>],
        customers := [\<lparr>cu_id = 1, cu_full_name = ''Ann'', cu_phone = '''', cu_email = '''',
                        cu_address = ''''\<rparr>],
        statuses := [\<lparr>os_id = 1, os_code = ''NEW'', os_display_name = ''New'',
                       os_sort_order = 0\<rparr>],
        orders := [\<lparr>o_id = 1, o_customer = 1, o_status = 1, o_order_date = (2024, 1, 5),
                     o_notes = '''', o_subtotal = 30, o_shipping_fee = 5, o_discount = 0,
                     o_total = 35\<rparr>],
        items := [\<lparr>oi_id = 1, oi_order = 1, oi_sku = 1, oi_qty = 3, oi_unit_price = 10,
                    oi_line_total = 30\<rparr>,
                  \<lparr>oi_id = 2, oi_order = 1, oi_sku = 1, oi_qty = 2, oi_unit_price = 0,
                    oi_line_total = 0\<rparr>],
        item_seq := 2\<rparr>)
   \<and> build_order
          (empty_db\<lparr>sizes := [\<lparr>ps_id = 1, ps_code = ''STD'', ps_display_name = ''Standard''\<rparr>],
        fabrics := [\<lparr>ft_id = 1, ft_name = ''Cotton'', ft_is_active = True\<rparr>],
        skus := [\<lparr>sku_id = 1, sku_code = ''BAG-STD-COTTON-PLAIN'', sku_size = 1,
                   sku_fabric_type = 1, sku_print_pattern = None, sku_unit_price = 0,
                   sku_is_active = True\<rparr>],
        customers := [\<lparr>cu_id = 1, cu_full_name = ''Ann'', cu_phone = '''', cu_email = '''',
                        cu_address = ''''\<rparr>],
        statuses := [\<lparr>os_id = 1, os_code = ''NEW'', os_display_name = ''New'',
                       os_sort_order = 0\<rparr>],
        orders := [\<lparr>o_id = 1, o_customer = 1, o_status = 1, o_order_date = (2024, 1, 5),
                     o_notes = '''', o_subtotal = 30, o_shipping_fee = 5, o_discount = 0,
                     o_total = 35\<rparr>],
        items := [\<lparr>oi_id = 1, oi_order = 1, oi_sku = 1, oi_qty = 3, oi_unit_price = 10,
                    oi_line_total = 30\<rparr>,
                  \<lparr>oi_id = 2, oi_order = 1, oi_sku = 1, oi_qty = 2, oi_unit_price = 0,
                    oi_line_total = 0\<rparr>],
        item_seq := 2\<rparr>)
          \<lparr>ro_customer = ''Ann'', ro_status = ''NEW'', ro_order_date = (2024, 1, 5),
      ro_notes = Missing, ro_shipping_fee = Val 99, ro_discount = Null,
      ro_items = [\<lparr>ri_size_code = ''STD'', ri_fabric_type = ''Cotton'',
                    ri_print_pattern = Missing, ri_qty = 3, ri_unit_price = Val 10\<rparr>,
                  \<lparr>ri_size_code = ''STD'', ri_fabric_type = ''Cotton'',
                    ri_print_pattern = Missing, ri_qty = 2, ri_unit_price = Missing\<rparr>]\<rparr>
        = Inr (\<lparr>o_id = 1, o_customer = 1, o_status = 1, o_order_date = (2024, 1, 5),
            o_notes = '''', o_subtotal = 30, o_shipping_fee = 5, o_discount = 0,
            o_total = 35\<rparr>,
          empty_db\<lparr>sizes := [\<lparr>ps_id = 1, ps_code = ''STD'', ps_display_name = ''Standard''\<rparr>],
        fabrics := [\<lparr>ft_id = 1, ft_name = ''Cotton'', ft_is_active = True\<rparr>],
        skus := [\<lparr>sku_id = 1, sku_code = ''BAG-STD-COTTON-PLAIN'', sku_size = 1,
                   sku_fabric_type = 1, sku_print_pattern = None, sku_unit_price = 0,
                   sku_is_active = True\<rparr>],
        customers := [\<lparr>cu_id = 1, cu_full_name = ''Ann'', cu_phone = '''', cu_email = '''',
                        cu_address = ''''\<rparr>],
        statuses := [\<lparr>os_id = 1, os_code = ''NEW'', os_display_name = ''New'',
                       os_sort_order = 0\<rparr>],
        orders := [\<lparr>o_id = 1, o_customer = 1, o_status = 1, o_order_date = (2024, 1, 5),
                     o_notes = '''', o_subtotal = 30, o_shipping_fee = 5, o_discount = 0,
                     o_total = 35\<rparr>],
        items := [\<lparr>oi_id = 3, oi_order = 1, oi_sku = 1, oi_qty = 3, oi_unit_price = 10,
                    oi_line_total = 30\<rparr>,
                  \<lparr>oi_id = 4, oi_order = 1, oi_sku = 1, oi_qty = 2, oi_unit_price = 0,
                    oi_line_total = 0\<rparr>],
        item_seq := 4\<rparr>)
   \<and> map item_content
         [\<lparr>oi_id = 3, oi_order = 1, oi_sku = 1, oi_qty = 3, oi_unit_price = 10,
            oi_line_total = 30\<rparr>,
          \<lparr>oi_id = 4, oi_order = 1, oi_sku = 1, oi_qty = 2, oi_unit_price = 0,
            oi_line_total = 0\<rparr>]
       = map item_content
         [\<lparr>oi_id = 1, oi_order = 1, oi_sku = 1, oi_qty = 3, oi_unit_price = 10,
            oi_line_total = 30\<rparr>,
          \<lparr>oi_id = 2, oi_order = 1, oi_sku = 1, oi_qty = 2, oi_unit_price = 0,
            oi_line_total = 0\<rparr>]"
proof -
  let ?base = "empty_db\<lparr>sizes := [\<lparr>ps_id = 1, ps_code = ''STD'', ps_display_name = ''Standard''\<rparr>],
        fabrics := [\<lparr>ft_id = 1, ft_name = ''Cotton'', ft_is_active = True\<rparr>]\<rparr>"
  let ?people = "[\<lparr>cu_id = 1, cu_full_name = ''Ann'', cu_phone = '''', cu_email = '''',
                        cu_address = ''''\<rparr>]"
  let ?states = "[\<lparr>os_id = 1, os_code = ''NEW'', os_display_name = ''New'',
                       os_sort_order = 0\<rparr>]"
  let ?d = "?base\<lparr>customers := ?people, statuses := ?states\<rparr>"
  let ?order = "\<lparr>o_id = 1, o_customer = 1, o_status = 1, o_order_date = (2024, 1, 5),
            o_notes = '''', o_subtotal = 30, o_shipping_fee = 5, o_discount = 0,
            o_total = 35\<rparr>"
  let ?i1 = "\<lparr>oi_id = 1, oi_order = 1, oi_sku = 1, oi_qty = 3, oi_unit_price = 10,
                    oi_line_total = 30\<rparr>"
  let ?i2 = "\<lparr>oi_id = 2, oi_order = 1, oi_sku = 1, oi_qty = 2, oi_unit_price = 0,
                    oi_line_total = 0\<rparr>"
  let ?j1 = "\<lparr>oi_id = 3, oi_order = 1, oi_sku = 1, oi_qty = 3, oi_unit_price = 10,
                    oi_line_total = 30\<rparr>"
  let ?j2 = "\<lparr>oi_id = 4, oi_order = 1, oi_sku = 1, oi_qty = 2, oi_unit_price = 0,
                    oi_line_total = 0\<rparr>"
  let ?stock = "[\<lparr>sku_id = 1, sku_code = ''BAG-STD-COTTON-PLAIN'', sku_size = 1,
                   sku_fabric_type = 1, sku_print_pattern = None, sku_unit_price = 0,
                   sku_is_active = True\<rparr>]"
  let ?d1 = "?base\<lparr>skus := ?stock,
        customers := ?people, statuses := ?states, orders := [?order], items := [?i1, ?i2],
        item_seq := 2\<rparr>"
  let ?d2 = "?base\<lparr>skus := ?stock,
        customers := ?people, statuses := ?states, orders := [?order], items := [?j1, ?j2],
        item_seq := 4\<rparr>"
  let ?its = "[\<lparr>ri_size_code = ''STD'', ri_fabric_type = ''Cotton'',
                    ri_print_pattern = Missing, ri_qty = 3, ri_unit_price = Val 10\<rparr>,
                  \<lparr>ri_size_code = ''STD'', ri_fabric_type = ''Cotton'',
                    ri_print_pattern = Missing, ri_qty = 2, ri_unit_price = Missing\<rparr>]"
  let ?row = "\<lparr>ro_customer = ''Ann'', ro_status = ''NEW'', ro_order_date = (2024, 1, 5),
      ro_notes = Missing, ro_shipping_fee = Val 5, ro_discount = Missing, ro_items = ?its\<rparr>"
  let ?row' = "\<lparr>ro_customer = ''Ann'', ro_status = ''NEW'', ro_order_date = (2024, 1, 5),
      ro_notes = Missing, ro_shipping_fee = Val 99, ro_discount = Null, ro_items = ?its\<rparr>"
  have run: "build_order ?d ?row = Inr (?order, ?d1)"
    by code_simp
  have again: "build_order ?d1 ?row' = Inr (?order, ?d2)"
    by code_simp
  have same: "ro_customer ?row' = ro_customer ?row" "ro_order_date ?row' = ro_order_date ?row"
    "ro_notes ?row' = ro_notes ?row" "ro_items ?row' = ro_items ?row"
    by simp_all
  have status: "ro_status ?row' = ro_status ?row
         \<or> (\<exists>s. objects_get (\<lambda>r. os_code r = ro_status ?row') (statuses ?d) = Inr s)"
    by simp
  have i1: "items ?d1 = [?i1, ?i2]" and i2: "items ?d2 = [?j1, ?j2]"
    by simp_all
  from build_order_twice [OF run same status] again
  have "map item_content (items ?d2) = map item_content (items ?d1)"
    by blast
  then have "map item_content [?j1, ?j2] = map item_content [?i1, ?i2]"
    unfolding i1 i2 .
  with run again show ?thesis by blast
qed

section \<open>Names that are not stored\<close>

text \<open>
  Each lookup by name of the run raises \<open>DoesNotExist\<close> when no row has the name, and
  the row that asked for it fails with it.
\<close>

lemma unknown_size_fails:
  "filter (\<lambda>r. ps_code r = sc) (sizes d) = [] \<Longrightarrow> get_sku d sc fn pn = Inl DoesNotExist"
  by (simp add: get_sku_def get_size_def objects_get_none)

lemma unknown_fabric_fails:
  "get_size d sc = Inr sz \<Longrightarrow> filter (\<lambda>r. ft_name r = fn) (fabrics d) = []
     \<Longrightarrow> get_sku d sc fn pn = Inl DoesNotExist"
  by (simp add: get_sku_def get_fabric_def objects_get_none)

lemma unknown_pattern_fails:
  "get_size d sc = Inr sz \<Longrightarrow> get_fabric d fn = Inr fabric
     \<Longrightarrow> filter (\<lambda>r. pp_name r = n) (patterns d) = []
     \<Longrightarrow> get_sku d sc fn (Some n) = Inl DoesNotExist"
  by (simp add: get_sku_def get_print_unknown)

lemma unknown_location_fails:
  "get_sku d (rb_size_code row) (rb_fabric_type row) (get_none (rb_print_pattern row)) = Inr (sku, d1)
     \<Longrightarrow> filter (\<lambda>r. loc_name r = rb_location row) (locations d1) = []
     \<Longrightarrow> seed_balance d row = Inl DoesNotExist"
  by (simp add: seed_balance_def get_location_def objects_get_none)

lemma unknown_customer_fails:
  "filter (\<lambda>r. cu_full_name r = ro_customer row) (customers d) = []
     \<Longrightarrow> seed_order d row = Inl DoesNotExist"
  by (simp add: seed_order_def build_order_def objects_get_none)

lemma unknown_status_fails:
  "objects_get (\<lambda>r. cu_full_name r = ro_customer row) (customers d) = Inr customer
     \<Longrightarrow> filter (\<lambda>r. os_code r = ro_status row) (statuses d) = []
     \<Longrightarrow> seed_order d row = Inl DoesNotExist"
  by (simp add: seed_order_def build_order_def objects_get_none)

lemma unknown_expense_type_fails:
  "filter (\<lambda>r. et_name r = re_expense_type row) (expense_types d) = []
     \<Longrightarrow> seed_expense d row = Inl DoesNotExist"
  by (simp add: seed_expense_def objects_get_none)

text \<open>An item of an order whose SKU cannot be resolved makes the build fail the same way.\<close>

lemma unresolved_item_fails:
  "get_sku d (ri_size_code item) (ri_fabric_type item) (get_none (ri_print_pattern item)) = Inl e
     \<Longrightarrow> seed_order_item order (d, s) item = Inl e"
  by (simp add: seed_order_item_def)


end
